theory Spec2Isabelle
  imports Complex_Main "HOL-Library.Multiset"
begin

section \<open>Numbers and the numpy reductions the analysis code calls\<close>

text \<open>
  The analysis modules compute with Python floats and numpy arrays. The embedding
  takes a float to be a \<^typ>\<open>real\<close> and an array to be a list; a run in which numpy
  would produce \<open>nan\<close> is marked where it can start (the value \<open>None\<close> of an optional
  number, or the outcome \<open>NonFinite\<close>), since \<^typ>\<open>real\<close> has no such element.
  Rounding of the 64-bit floats is not modelled: every statement below is about exact
  real arithmetic.
\<close>

definition np_mean :: "real list \<Rightarrow> real" where
  \<comment> \<open>\<open>np.mean\<close>; every caller in the source guards against the empty list.\<close>
  "np_mean xs = sum_list xs / real (length xs)"

definition np_std :: "real list \<Rightarrow> real" where
  \<comment> \<open>\<open>np.std\<close> with \<open>ddof = 0\<close>: the root of the mean squared deviation.\<close>
  "np_std xs = sqrt (np_mean (map (\<lambda>x. \<bar>x - np_mean xs\<bar> ^ 2) xs))"

definition np_clip :: "real \<Rightarrow> real \<Rightarrow> real \<Rightarrow> real" where
  "np_clip x lo hi = min (max x lo) hi"

definition np_max :: "real list \<Rightarrow> real" where
  "np_max xs = Max (set xs)"

definition np_min :: "real list \<Rightarrow> real" where
  "np_min xs = Min (set xs)"

definition np_median :: "real list \<Rightarrow> real" where
  \<comment> \<open>\<open>np.median\<close> of a non-empty array: the middle element of the sorted array, or
     the mean of the two middle ones.\<close>
  "np_median xs =
     (let s = sort xs; n = length s in
      if odd n then s ! (n div 2) else (s ! (n div 2 - 1) + s ! (n div 2)) / 2)"

definition np_percentile :: "real list \<Rightarrow> real \<Rightarrow> real" where
  \<comment> \<open>\<open>np.percentile\<close> of a non-empty array with the default linear interpolation:
     the virtual index \<open>(n - 1) * q / 100\<close> between its two neighbours.\<close>
  "np_percentile xs q =
     (let s = sort xs; n = length s;
          h = (real n - 1) * q / 100;
          lo = nat \<lfloor>h\<rfloor>;
          hi = min (lo + 1) (n - 1)
      in s ! lo + (h - real lo) * (s ! hi - s ! lo))"

definition np_histogram10 :: "real list \<Rightarrow> nat list" where
  \<comment> \<open>\<open>np.histogram(samples, bins=np.linspace(0, 100, 11))\<close>: ten bins of width 10,
     each closed on the left and open on the right, the last one closed on both
     sides; a sample outside \<open>[0, 100]\<close> is counted nowhere.\<close>
  "np_histogram10 xs =
     map (\<lambda>i. length (filter (\<lambda>x. 10 * real i \<le> x \<and>
                      (x < 10 * real (i + 1) \<or> (i = 9 \<and> x \<le> 100))) xs)) [0..<10]"

definition scipy_entropy :: "real list \<Rightarrow> real" where
  \<comment> \<open>\<open>scipy.stats.entropy(pk)\<close> for positive \<open>pk\<close>: normalise, then
     \<open>- sum p log p\<close>.\<close>
  "scipy_entropy pk =
     (let p = map (\<lambda>x. x / sum_list pk) pk in - sum_list (map (\<lambda>x. x * ln x) p))"

section \<open>ConsistencyScorer (analysis/consistency\_scorer.py)\<close>

definition calculate_consistency :: "string \<Rightarrow> real list \<Rightarrow> real option" where
  \<comment> \<open>\<open>ConsistencyScorer.calculate_consistency\<close>, with \<open>self.method\<close> as first
     argument. \<open>None\<close> is the float \<open>nan\<close>: it arises in the histogram branch when no
     sample lies in \<open>[0, 100]\<close> (the counts are divided by their sum, zero).\<close>
  "calculate_consistency method samples =
     (if length samples < 2 then Some 1
      else if method = ''direct'' then
        (let mean_val = np_mean samples; std_val = np_std samples in
         if mean_val > 0 then Some (np_clip (1 / (1 + std_val / mean_val)) 0 1)
         else Some (np_clip (if std_val = 0 then 1 else 0) 0 1))
      else if method = ''indirect'' then
        (let hist = np_histogram10 samples in
         if sum_list hist = 0 then None
         else
           (let hist_norm = map (\<lambda>h. real h / real (sum_list hist)) hist;
                ent = scipy_entropy (map (\<lambda>p. p + 1 / 10 ^ 10) hist_norm);
                max_entropy = ln (real (11 - 1))
            in Some (np_clip (if max_entropy > 0 then 1 - ent / max_entropy else 1) 0 1)))
      else if method = ''ensemble'' then
        (let std_score = 1 / (1 + np_std samples / 10);
             range_val = np_max samples - np_min samples;
             range_score = 1 - range_val / 100;
             q75 = np_percentile samples 75;
             q25 = np_percentile samples 25;
             iqr = q75 - q25;
             iqr_score = 1 / (1 + iqr / 20)
         in Some (np_clip ((std_score + range_score + iqr_score) / 3) 0 1))
      else Some (np_clip (1 / (1 + np_std samples)) 0 1))"

type_synonym pydict_real = "(string \<times> real list) list"

fun weighted_loop :: "string \<Rightarrow> pydict_real \<Rightarrow> (real \<times> real) option \<Rightarrow> (real \<times> real) option" where
  \<comment> \<open>The loop of \<open>calculate_weighted_aggregate\<close> over the dictionary's items, in
     insertion order. The accumulator is the pair \<open>(weighted_sum, total_weight)\<close>;
     \<open>None\<close> says that both are \<open>nan\<close> (a \<open>nan\<close> consistency is squared and added
     to both, and stays).\<close>
  "weighted_loop method [] acc = acc"
| "weighted_loop method ((model_name, predictions) # rest) acc =
     (if predictions = [] then weighted_loop method rest acc
      else
        (case (calculate_consistency method predictions, acc) of
           (Some consistency, Some (weighted_sum, total_weight)) \<Rightarrow>
             (let weight = consistency ^ 2;
                  mean_pred = np_mean predictions
              in weighted_loop method rest
                   (Some (weighted_sum + weight * mean_pred, total_weight + weight)))
         | _ \<Rightarrow> weighted_loop method rest None))"

definition all_preds :: "pydict_real \<Rightarrow> real list" where
  \<comment> \<open>\<open>[p for preds in model_predictions.values() for p in preds]\<close>\<close>
  "all_preds model_predictions = concat (map snd model_predictions)"

definition final_total_weight :: "string \<Rightarrow> pydict_real \<Rightarrow> real option" where
  \<comment> \<open>The value of the local variable \<open>total_weight\<close> when the loop ends.\<close>
  "final_total_weight method model_predictions =
     map_option snd (weighted_loop method model_predictions (Some (0, 0)))"

definition calculate_weighted_aggregate :: "string \<Rightarrow> pydict_real \<Rightarrow> real" where
  \<comment> \<open>\<open>ConsistencyScorer.calculate_weighted_aggregate\<close>. The test
     \<open>total_weight > 0\<close> is false for \<open>nan\<close> as well.\<close>
  "calculate_weighted_aggregate method model_predictions =
     (let fallback =
            (if all_preds model_predictions \<noteq> [] then np_mean (all_preds model_predictions)
             else 50)
      in case weighted_loop method model_predictions (Some (0, 0)) of
           Some (weighted_sum, total_weight) \<Rightarrow>
             if total_weight > 0 then weighted_sum / total_weight else fallback
         | None \<Rightarrow> fallback)"

definition np_mean_nan :: "real list \<Rightarrow> real option" where
  \<comment> \<open>\<open>np.mean\<close> on any list: the mean of no numbers does not exist (numpy gives
     \<open>nan\<close>).\<close>
  "np_mean_nan xs = (if xs = [] then None else Some (np_mean xs))"

section \<open>Python values, dictionaries and errors\<close>

datatype pyval =
    PNone
  | PBool bool
  | PInt int
  | PFloat real
  | PNaN
  | PStr string
  | PList "pyval list"
  | PDict "(string \<times> pyval) list"

type_synonym pydict = "(string \<times> pyval) list"

text \<open>
  A dictionary with string keys is an association list in insertion order with
  distinct keys. \<open>d.get(k, default)\<close> is \<open>dict_get\<close>; \<open>d[k] = v\<close> is \<open>dict_set\<close>,
  which keeps the position of a key that is already present.
\<close>

definition dict_get :: "pydict \<Rightarrow> string \<Rightarrow> pyval \<Rightarrow> pyval" where
  "dict_get d k dflt = (case map_of d k of Some v \<Rightarrow> v | None \<Rightarrow> dflt)"

fun dict_set :: "(string \<times> 'v) list \<Rightarrow> string \<Rightarrow> 'v \<Rightarrow> (string \<times> 'v) list" where
  "dict_set [] k v = [(k, v)]"
| "dict_set ((k', v') # d) k v = (if k' = k then (k, v) # d else (k', v') # dict_set d k v)"

fun dict_zip :: "string list \<Rightarrow> 'v list \<Rightarrow> (string \<times> 'v) list" where
  \<comment> \<open>\<open>dict(zip(keys, values))\<close>\<close>
  "dict_zip ks vs = fold (\<lambda>(k, v) d. dict_set d k v) (zip ks vs) []"

datatype py_error =
    ZeroDivisionError
  | ValueError
  | IndexError
  | TypeError
  | KeyError
  | NonFinite

text \<open>
  The first five are the Python exceptions of the same name. \<open>NonFinite\<close> is not an
  exception: it marks a run in which numpy goes on with \<open>nan\<close> or \<open>inf\<close> (a division
  of the weights by a zero sum, a Beta distribution with a parameter that is not
  positive, the logarithm of a number that is not positive). The model stops there and
  says nothing about the numbers of such a run.
\<close>

section \<open>BayesianAggregator (analysis/bayesian\_aggregator.py)\<close>

record expert_perf =
  predictions :: "real list"
  errors :: "real list"
  avg_error :: real

record BayesianAggregator =
  prior_strength :: real
  outlier_threshold :: real
  historical_performance :: "string \<rightharpoonup> expert_perf"

definition BayesianAggregator_init :: "real \<Rightarrow> real \<Rightarrow> BayesianAggregator" where
  \<comment> \<open>\<open>__init__(prior_strength=1.0, outlier_threshold=2.5)\<close>; the field
     \<open>expert_weights\<close> is never read or written again and is left out.\<close>
  "BayesianAggregator_init ps ot =
     \<lparr>prior_strength = ps, outlier_threshold = ot, historical_performance = Map.empty\<rparr>"

definition BayesianAggregator_default :: BayesianAggregator where
  "BayesianAggregator_default = BayesianAggregator_init 1 (5 / 2)"

definition detect_outliers :: "BayesianAggregator \<Rightarrow> real list \<Rightarrow> bool list" where
  \<comment> \<open>\<open>_detect_outliers\<close>: the mask of the samples whose modified z-score exceeds the
     threshold in absolute value; the quartile rule when the median absolute
     deviation is zero.\<close>
  "detect_outliers self probabilities =
     (if length probabilities < 3 then replicate (length probabilities) False
      else
        (let median = np_median probabilities;
             mad = np_median (map (\<lambda>p. \<bar>p - median\<bar>) probabilities)
         in if mad > 0 then
              map (\<lambda>p. \<bar>0.6745 * (p - median) / mad\<bar> > outlier_threshold self) probabilities
            else
              (let q1 = np_percentile probabilities 25;
                   q3 = np_percentile probabilities 75;
                   iqr = q3 - q1
               in if iqr > 0 then
                    map (\<lambda>p. p < q1 - 1.5 * iqr \<or> p > q3 + 1.5 * iqr) probabilities
                  else replicate (length probabilities) False)))"

definition np_average :: "real list \<Rightarrow> real list \<Rightarrow> py_error + real" where
  \<comment> \<open>\<open>np.average(a, weights=w)\<close> for arrays of one length: numpy raises
     ZeroDivisionError when the weights sum to zero.\<close>
  "np_average a w =
     (if sum_list w = 0 then Inl ZeroDivisionError
      else Inr (sum_list (map2 (*) a w) / sum_list w))"

definition confidence_weights :: "nat \<Rightarrow> real list \<Rightarrow> py_error + real list" where
  \<comment> \<open>\<open>weights = np.ones(n); weights *= confidences\<close>: elementwise for equal
     lengths, a broadcast of a one-element array, ValueError for any other shape.\<close>
  "confidence_weights n confidences =
     (if length confidences = n then Inr confidences
      else if length confidences = 1 then Inr (replicate n (hd confidences))
      else Inl ValueError)"

definition outlier_penalty :: "real list \<Rightarrow> bool list \<Rightarrow> real list" where
  \<comment> \<open>\<open>weights[outlier_mask] *= 0.1\<close>\<close>
  "outlier_penalty weights outlier_mask =
     map2 (\<lambda>w out. if out then w * 0.1 else w) weights outlier_mask"

fun historical_weighting ::
  "(string \<rightharpoonup> expert_perf) \<Rightarrow> nat \<Rightarrow> string list \<Rightarrow> real list \<Rightarrow> py_error + real list" where
  \<comment> \<open>\<open>for i, expert_id in enumerate(expert_ids)\<close>, from index \<open>i\<close> on: the weight of a
     tracked expert is multiplied by \<open>1 / (1 + avg_error)\<close>; writing \<open>weights[i]\<close>
     past the end of the array raises IndexError.\<close>
  "historical_weighting hist i [] weights = Inr weights"
| "historical_weighting hist i (expert_id # rest) weights =
     (case hist expert_id of
        None \<Rightarrow> historical_weighting hist (Suc i) rest weights
      | Some perf \<Rightarrow>
          if i < length weights then
            historical_weighting hist (Suc i) rest
              (weights[i := weights ! i * (1 / (1 + avg_error perf))])
          else Inl IndexError)"

fun consensus_reweighting :: "nat \<Rightarrow> real list \<Rightarrow> real list \<Rightarrow> py_error + real list" where
  \<comment> \<open>\<open>for _ in range(k)\<close>: each round multiplies every weight by
     \<open>1 / (1 + 5 * |p - weighted_mean|)\<close>.\<close>
  "consensus_reweighting 0 probabilities weights = Inr weights"
| "consensus_reweighting (Suc k) probabilities weights =
     (case np_average probabilities weights of
        Inl e \<Rightarrow> Inl e
      | Inr weighted_mean \<Rightarrow>
          (let distances = map (\<lambda>p. \<bar>p - weighted_mean\<bar>) probabilities;
               agreement_weights = map (\<lambda>d. 1 / (1 + d * 5)) distances
           in consensus_reweighting k probabilities (map2 (*) weights agreement_weights)))"

definition normalize_weights :: "real list \<Rightarrow> py_error + real list" where
  \<comment> \<open>\<open>weights / np.sum(weights)\<close>\<close>
  "normalize_weights weights =
     (if sum_list weights = 0 then Inl NonFinite
      else Inr (map (\<lambda>w. w / sum_list weights) weights))"

definition penalized_weights ::
  "real list \<Rightarrow> real list \<Rightarrow> bool list \<Rightarrow> py_error + real list" where
  \<comment> \<open>Steps 1 and 2 of \<open>_calculate_expert_weights\<close>: the weights after the confidence
     weighting and the outlier penalty.\<close>
  "penalized_weights probabilities confidences outlier_mask =
     (case confidence_weights (length probabilities) confidences of
        Inl e \<Rightarrow> Inl e
      | Inr weights \<Rightarrow> Inr (outlier_penalty weights outlier_mask))"

definition calculate_expert_weights ::
  "BayesianAggregator \<Rightarrow> real list \<Rightarrow> string list \<Rightarrow> real list \<Rightarrow> bool list
     \<Rightarrow> py_error + real list" where
  \<comment> \<open>\<open>_calculate_expert_weights\<close>: confidence weighting, outlier penalty, historical
     weighting, three rounds of consensus reweighting, normalisation.\<close>
  "calculate_expert_weights self probabilities expert_ids confidences outlier_mask =
     (case penalized_weights probabilities confidences outlier_mask of
        Inl e \<Rightarrow> Inl e
      | Inr weights1 \<Rightarrow>
          (case historical_weighting (historical_performance self) 0 expert_ids weights1 of
             Inl e \<Rightarrow> Inl e
           | Inr weights2 \<Rightarrow>
               (case consensus_reweighting 3 probabilities weights2 of
                  Inl e \<Rightarrow> Inl e
                | Inr weights3 \<Rightarrow> normalize_weights weights3)))"

type_synonym beta_ppf = "real \<Rightarrow> real \<Rightarrow> real \<Rightarrow> real"

text \<open>
  \<open>scipy.stats.beta(a, b).ppf(q)\<close>, the quantile function of the Beta distribution,
  is a library function with no closed form; the model takes it as a parameter
  \<open>ppf q a b\<close>. Mean and variance of the distribution are the closed forms.
\<close>

record pooled =
  pool_mean :: real
  pool_variance :: real
  pool_lower :: real
  pool_upper :: real
  pool_alpha :: real
  pool_beta :: real

definition bayesian_pool ::
  "BayesianAggregator \<Rightarrow> beta_ppf \<Rightarrow> real list \<Rightarrow> real list \<Rightarrow> py_error + pooled" where
  \<comment> \<open>\<open>_bayesian_pool\<close>: the pseudo-counts \<open>p * w * 10\<close> and \<open>(1 - p) * w * 10\<close> update
     a Beta prior with both parameters \<open>prior_strength\<close>.\<close>
  "bayesian_pool self ppf probabilities weights =
     (let alpha_prior = prior_strength self;
          beta_prior = prior_strength self;
          n_virtual_samples = 10;
          alpha_updates = map2 (\<lambda>p w. p * w * n_virtual_samples) probabilities weights;
          beta_updates = map2 (\<lambda>p w. (1 - p) * w * n_virtual_samples) probabilities weights;
          alpha_post = alpha_prior + sum_list alpha_updates;
          beta_post = beta_prior + sum_list beta_updates
      in if alpha_post > 0 \<and> beta_post > 0 then
           Inr \<lparr>pool_mean = alpha_post / (alpha_post + beta_post),
                pool_variance = alpha_post * beta_post /
                  ((alpha_post + beta_post) ^ 2 * (alpha_post + beta_post + 1)),
                pool_lower = ppf 0.025 alpha_post beta_post,
                pool_upper = ppf 0.975 alpha_post beta_post,
                pool_alpha = alpha_post,
                pool_beta = beta_post\<rparr>
         else Inl NonFinite)"

fun pairwise_distances :: "(real \<times> real) list \<Rightarrow> real list" where
  \<comment> \<open>The double loop \<open>for i ... for j in range(i+1, n)\<close> over the zipped
     probabilities and weights.\<close>
  "pairwise_distances [] = []"
| "pairwise_distances ((p, w) # rest) =
     map (\<lambda>(q, v). \<bar>p - q\<bar> * w * v) rest @ pairwise_distances rest"

definition calculate_uncertainty :: "real list \<Rightarrow> real list \<Rightarrow> py_error + real" where
  \<comment> \<open>\<open>_calculate_uncertainty\<close>: weighted variance, normalised entropy of the weights
     and mean weighted pairwise distance, averaged and clipped to \<open>[0, 1]\<close>.\<close>
  "calculate_uncertainty probabilities weights =
     (case np_average probabilities weights of
        Inl e \<Rightarrow> Inl e
      | Inr weighted_mean \<Rightarrow>
         (case np_average (map (\<lambda>p. (p - weighted_mean) ^ 2) probabilities) weights of
            Inl e \<Rightarrow> Inl e
          | Inr variance \<Rightarrow>
             if \<exists>w \<in> set weights. w + 1 / 10 ^ 10 \<le> 0 then Inl NonFinite
             else
               (let weight_entropy = - sum_list (map (\<lambda>w. w * ln (w + 1 / 10 ^ 10)) weights);
                    max_entropy = ln (real (length weights));
                    normalized_entropy =
                      (if max_entropy > 0 then weight_entropy / max_entropy else 0);
                    pairwise = pairwise_distances (zip probabilities weights);
                    avg_disagreement = (if pairwise \<noteq> [] then np_mean pairwise else 0);
                    uncertainty = (variance + normalized_entropy + avg_disagreement) / 3
                in Inr (np_clip uncertainty 0 1))))"

definition update_one_expert ::
  "real \<Rightarrow> string \<times> real \<Rightarrow> (string \<rightharpoonup> expert_perf) \<Rightarrow> (string \<rightharpoonup> expert_perf)" where
  \<comment> \<open>The body of the loop of \<open>_update_expert_performance\<close>: append the prediction
     and its distance to the consensus, and average the last twenty distances.\<close>
  "update_one_expert consensus = (\<lambda>(expert_id, pred) hist.
     (let perf = (case hist expert_id of
                    None \<Rightarrow> \<lparr>predictions = [], errors = [], avg_error = 0.5\<rparr>
                  | Some perf \<Rightarrow> perf);
          predictions' = predictions perf @ [pred];
          errors' = errors perf @ [\<bar>pred - consensus\<bar>]
      in hist(expert_id \<mapsto>
           \<lparr>predictions = predictions', errors = errors',
            avg_error = np_mean (drop (length errors' - 20) errors')\<rparr>)))"

definition update_expert_performance ::
  "(string \<rightharpoonup> expert_perf) \<Rightarrow> string list \<Rightarrow> real list \<Rightarrow> real \<Rightarrow> (string \<rightharpoonup> expert_perf)" where
  "update_expert_performance hist expert_ids preds consensus =
     fold (update_one_expert consensus) (zip expert_ids preds) hist"

fun str_nat :: "nat \<Rightarrow> string" where
  \<comment> \<open>\<open>str(n)\<close> for a natural number.\<close>
  "str_nat n =
     (if n < 10 then [char_of (48 + n)] else str_nat (n div 10) @ [char_of (48 + n mod 10)])"

definition aggregate_forecasts ::
  "BayesianAggregator \<Rightarrow> beta_ppf \<Rightarrow> real list \<Rightarrow> string list option \<Rightarrow> real list option
     \<Rightarrow> (py_error + pydict) \<times> BayesianAggregator" where
  \<comment> \<open>\<open>aggregate_forecasts\<close>: the returned dictionary (or the exception that leaves
     the method) and the aggregator with its updated history.\<close>
  "aggregate_forecasts self ppf forecasts expert_ids_opt confidences_opt =
     (if forecasts = [] then (Inr [(''error'', PStr ''No forecasts provided'')], self)
      else
        (let probs = map (\<lambda>f. f / 100) forecasts;
             expert_ids = (case expert_ids_opt of
                             None \<Rightarrow> map (\<lambda>i. ''expert_'' @ str_nat i) [0..<length forecasts]
                           | Some ids \<Rightarrow> ids);
             confidences = (case confidences_opt of
                              None \<Rightarrow> replicate (length forecasts) 1
                            | Some cs \<Rightarrow> cs);
             outlier_mask = detect_outliers self probs
         in case calculate_expert_weights self probs expert_ids confidences outlier_mask of
              Inl e \<Rightarrow> (Inl e, self)
            | Inr weights \<Rightarrow>
               (case bayesian_pool self ppf probs weights of
                  Inl e \<Rightarrow> (Inl e, self)
                | Inr aggregated \<Rightarrow>
                   (case calculate_uncertainty probs weights of
                      Inl e \<Rightarrow> (Inl e, self)
                    | Inr uncertainty \<Rightarrow>
                       (Inr [(''aggregated_probability'', PFloat (pool_mean aggregated * 100)),
                             (''confidence_interval'',
                                PList [PFloat (pool_lower aggregated * 100),
                                       PFloat (pool_upper aggregated * 100)]),
                             (''uncertainty'', PFloat uncertainty),
                             (''expert_weights'', PDict (dict_zip expert_ids (map PFloat weights))),
                             (''outliers_detected'', PInt (int (length (filter id outlier_mask)))),
                             (''method'', PStr ''robust_bayesian''),
                             (''posterior_variance'', PFloat (pool_variance aggregated))],
                        self\<lparr>historical_performance :=
                          update_expert_performance (historical_performance self)
                            expert_ids probs (pool_mean aggregated)\<rparr>)))))"

text \<open>
  The conditions under which the bound on the posterior mean is stated: the tracked
  average errors are not negative (they are means of absolute values), a caller's
  list of expert identifiers has one entry per forecast, and a caller's confidences
  are positive, one per forecast.
\<close>

definition hist_ok :: "(string \<rightharpoonup> expert_perf) \<Rightarrow> bool" where
  "hist_ok hist =
     (\<forall>perf \<in> ran hist. 0 \<le> avg_error perf \<and> (\<forall>e \<in> set (errors perf). 0 \<le> e))"

definition ids_ok :: "real list \<Rightarrow> string list option \<Rightarrow> bool" where
  "ids_ok forecasts ids_opt =
     (case ids_opt of None \<Rightarrow> True | Some ids \<Rightarrow> length ids = length forecasts)"

definition confidences_ok :: "real list \<Rightarrow> real list option \<Rightarrow> bool" where
  "confidences_ok forecasts cs_opt =
     (case cs_opt of None \<Rightarrow> True
      | Some cs \<Rightarrow> length cs = length forecasts \<and> (\<forall>c\<in>set cs. 0 < c))"

definition default_expert_weights :: "real list \<Rightarrow> py_error + real list" where
  \<comment> \<open>The weights that \<open>aggregate_forecasts(forecasts)\<close> computes on a fresh aggregator
     built with the default arguments: default expert ids, confidences all one.\<close>
  "default_expert_weights forecasts =
     (let probs = map (\<lambda>f. f / 100) forecasts;
          expert_ids = map (\<lambda>i. ''expert_'' @ str_nat i) [0..<length forecasts];
          confidences = replicate (length forecasts) 1
      in calculate_expert_weights BayesianAggregator_default probs expert_ids confidences
           (detect_outliers BayesianAggregator_default probs))"

section \<open>BatchCalibrator (services/analysis/calibration.py)\<close>

record BatchCalibrator =
  cal_method :: string
  calibration_model :: "(real \<Rightarrow> real) option"
  temperature :: real
  is_fitted :: bool

text \<open>
  \<open>calibration_model\<close> is \<open>None\<close> or a fitted scikit-learn estimator; of an estimator the
  model keeps the function from a probability in \<open>[0, 1]\<close> to its prediction
  (\<open>predict_proba(X)[0, 1]\<close> of the logistic regression, \<open>predict\<close> of the isotonic
  regression). Fitting such an estimator is the library's work and enters as a
  parameter: from the method and the sorted batches to an exception, to no estimator
  (no batch has two probabilities) or to the fitted function.
\<close>

type_synonym sklearn_fit = "string \<Rightarrow> real list list \<Rightarrow> py_error + (real \<Rightarrow> real) option"

definition BatchCalibrator_init :: "string \<Rightarrow> BatchCalibrator" where
  "BatchCalibrator_init method =
     \<lparr>cal_method = method, calibration_model = None, temperature = 1, is_fitted = False\<rparr>"

function chunks :: "nat \<Rightarrow> 'a list \<Rightarrow> 'a list list" where
  \<comment> \<open>\<open>[xs[i:i + n] for i in range(0, len(xs), n)]\<close>\<close>
  "chunks n xs = (if xs = [] \<or> n = 0 then [] else take n xs # chunks n (drop n xs))"
  by pat_completeness auto
termination
  by (relation "measure (\<lambda>(n, xs). length xs)") auto

definition create_batches :: "real list \<Rightarrow> real list list" where
  \<comment> \<open>\<open>_create_batches\<close> with the default \<open>batch_size = 10\<close>\<close>
  "create_batches probabilities = chunks 10 (sort probabilities)"

definition np_var :: "real list \<Rightarrow> real" where
  "np_var xs = np_mean (map (\<lambda>x. \<bar>x - np_mean xs\<bar> ^ 2) xs)"

definition logit :: "real \<Rightarrow> real" where
  "logit p = ln (p / (1 - p))"

definition expit :: "real \<Rightarrow> real" where
  "expit x = 1 / (1 + exp (- x))"

definition fit_unsupervised ::
  "sklearn_fit \<Rightarrow> BatchCalibrator \<Rightarrow> real list \<Rightarrow> py_error + BatchCalibrator" where
  \<comment> \<open>\<open>_fit_unsupervised\<close>: the temperature is estimated from the mean variance of
     the batches with more than one element and clamped to \<open>[0.5, 2.0]\<close>; the other
     methods fit their estimator on pseudo-labels.\<close>
  "fit_unsupervised sk self probabilities =
     (let batches = create_batches probabilities in
      if cal_method self = ''temperature'' then
        (let batch_variances = map np_var (filter (\<lambda>batch. length batch > 1) batches) in
         if batch_variances \<noteq> [] then
           (let avg_variance = np_mean batch_variances;
                t = 1 + (avg_variance - 0.01) * 10
            in Inr (self\<lparr>temperature := max 0.5 (min 2 t)\<rparr>))
         else Inr (self\<lparr>temperature := 1\<rparr>))
      else if (cal_method self = ''platt'' \<or> cal_method self = ''isotonic'')
              \<and> filter (\<lambda>batch. length batch > 1) batches \<noteq> [] then
        (case sk (cal_method self) batches of
           Inl e \<Rightarrow> Inl e
         | Inr m \<Rightarrow> Inr (self\<lparr>calibration_model := m\<rparr>))
      else Inr self)"

definition fit :: "sklearn_fit \<Rightarrow> BatchCalibrator \<Rightarrow> real list \<Rightarrow> py_error + BatchCalibrator" where
  \<comment> \<open>\<open>fit(probabilities)\<close> without labels, the only call the analysis code makes;
     the supervised branch is not modelled.\<close>
  "fit sk self probabilities =
     (case fit_unsupervised sk self probabilities of
        Inl e \<Rightarrow> Inl e
      | Inr self' \<Rightarrow> Inr (self'\<lparr>is_fitted := True\<rparr>))"

definition calibrate :: "BatchCalibrator \<Rightarrow> real \<Rightarrow> real" where
  \<comment> \<open>\<open>calibrate\<close>: to the unit interval, through the method, back to \<open>[0, 100]\<close>.\<close>
  "calibrate self probability =
     (if \<not> is_fitted self then probability
      else
        (let prob_01 = probability / 100;
             calibrated =
               (if cal_method self = ''temperature'' then
                  (if temperature self = 1 then prob_01
                   else
                     (let logit_val = logit (np_clip prob_01 (1 / 10 ^ 7) (1 - 1 / 10 ^ 7))
                      in expit (logit_val / temperature self)))
                else if cal_method self = ''platt'' \<or> cal_method self = ''isotonic'' then
                  (case calibration_model self of
                     Some predict \<Rightarrow> predict prob_01
                   | None \<Rightarrow> prob_01)
                else prob_01)
         in np_clip (calibrated * 100) 0 100))"

definition calibrate_batch ::
  "sklearn_fit \<Rightarrow> BatchCalibrator \<Rightarrow> real list \<Rightarrow> (py_error + real list) \<times> BatchCalibrator" where
  \<comment> \<open>\<open>calibrate_batch\<close>: fit on the batch if the calibrator is not fitted yet,
     then calibrate every element.\<close>
  "calibrate_batch sk self probabilities =
     (if \<not> is_fitted self then
        (case fit sk self probabilities of
           Inl e \<Rightarrow> (Inl e, self)
         | Inr self' \<Rightarrow> (Inr (map (calibrate self') probabilities), self'))
      else (Inr (map (calibrate self) probabilities), self))"

section \<open>ConsistencyScorer: scoring an ensemble\<close>

text \<open>
  A float that can be \<open>nan\<close> is a \<^typ>\<open>real option\<close>, with \<open>None\<close> for \<open>nan\<close>; every
  comparison with \<open>nan\<close> is false, and arithmetic on \<open>nan\<close> gives \<open>nan\<close>.
\<close>

definition pyfloat :: "real option \<Rightarrow> pyval" where
  "pyfloat x = (case x of None \<Rightarrow> PNaN | Some v \<Rightarrow> PFloat v)"

definition nan_mean :: "real option list \<Rightarrow> real option" where
  \<comment> \<open>\<open>np.mean\<close> of a non-empty list of floats, one \<open>nan\<close> making the result
     \<open>nan\<close>.\<close>
  "nan_mean xs = (if None \<in> set xs then None else Some (np_mean (map the xs)))"

definition nan_var :: "real option list \<Rightarrow> real option" where
  "nan_var xs = (if None \<in> set xs then None else Some (np_var (map the xs)))"

definition nan_gt :: "real option \<Rightarrow> real option \<Rightarrow> bool" where
  "nan_gt a b = (case (a, b) of (Some x, Some y) \<Rightarrow> x > y | _ \<Rightarrow> False)"

record ConsistencyScorer =
  scorer_method :: string
  consistency_scores :: "(string \<times> pydict) list"
  model_consistencies :: "(string \<times> real option list) list"

definition ConsistencyScorer_init :: "string \<Rightarrow> ConsistencyScorer" where
  "ConsistencyScorer_init method =
     \<lparr>scorer_method = method, consistency_scores = [], model_consistencies = []\<rparr>"

definition classify_confidence :: "real option \<Rightarrow> string" where
  \<comment> \<open>\<open>_classify_confidence\<close>; for \<open>nan\<close> every test fails.\<close>
  "classify_confidence consistency_score =
     (case consistency_score of
        None \<Rightarrow> ''very_low''
      | Some c \<Rightarrow>
          if c \<ge> 0.9 then ''very_high''
          else if c \<ge> 0.75 then ''high''
          else if c \<ge> 0.5 then ''medium''
          else if c \<ge> 0.25 then ''low''
          else ''very_low'')"

definition score_model_samples ::
  "ConsistencyScorer \<Rightarrow> string \<Rightarrow> real list \<Rightarrow> pydict \<times> ConsistencyScorer" where
  "score_model_samples self model_name samples =
     (let consistency = calculate_consistency (scorer_method self) samples;
          previous = (case map_of (model_consistencies self) model_name of
                        None \<Rightarrow> [] | Some cs \<Rightarrow> cs);
          metrics =
            [(''model'', PStr model_name),
             (''consistency_score'', pyfloat consistency),
             (''sample_count'', PInt (int (length samples))),
             (''mean'', if samples \<noteq> [] then PFloat (np_mean samples) else PInt 0),
             (''std'', if length samples > 1 then PFloat (np_std samples) else PInt 0),
             (''min'', if samples \<noteq> [] then PFloat (np_min samples) else PInt 0),
             (''max'', if samples \<noteq> [] then PFloat (np_max samples) else PInt 0),
             (''confidence_level'', PStr (classify_confidence consistency))]
      in (metrics,
          self\<lparr>model_consistencies :=
                  dict_set (model_consistencies self) model_name (previous @ [consistency]),
               consistency_scores := dict_set (consistency_scores self) model_name metrics\<rparr>))"

type_synonym spearman = "real list \<Rightarrow> real list \<Rightarrow> real option"

text \<open>
  \<open>scipy.stats.spearmanr(a, b)\<close>, the rank correlation of two lists of one length, is
  a parameter of the model; \<open>None\<close> is the \<open>nan\<close> it returns for a constant list.
\<close>

definition calculate_ensemble_consistency ::
  "spearman \<Rightarrow> ConsistencyScorer \<Rightarrow> pydict_real \<Rightarrow> real option" where
  \<comment> \<open>\<open>_calculate_ensemble_consistency\<close>: the consistency of the per-model means,
     averaged with the rescaled rank correlation of the first two models when both
     have more than one sample.\<close>
  "calculate_ensemble_consistency spearmanr self model_samples =
     (let model_means = map (\<lambda>(m, samples). np_mean samples)
                          (filter (\<lambda>(m, samples). samples \<noteq> []) model_samples)
      in if length model_means < 2 then Some 1
         else
           (let ensemble_consistency = calculate_consistency (scorer_method self) model_means;
                models = map fst model_samples
            in if length model_samples \<ge> 2 \<and> length models \<ge> 2
                  \<and> (\<forall>m \<in> set (take 2 model_samples). length (snd m) > 1) then
                 (let a = snd (model_samples ! 0);
                      b = snd (model_samples ! 1);
                      k = min (length a) (length b)
                  in case spearmanr (take k a) (take k b) of
                       None \<Rightarrow> ensemble_consistency
                     | Some corr \<Rightarrow>
                         map_option (\<lambda>ec. (ec + (corr + 1) / 2) / 2) ensemble_consistency)
               else ensemble_consistency))"

fun score_all_models ::
  "ConsistencyScorer \<Rightarrow> pydict_real \<Rightarrow> (string \<times> pydict) list \<Rightarrow> real option list
     \<Rightarrow> (string \<times> pydict) list \<times> real option list \<times> ConsistencyScorer" where
  \<comment> \<open>The loop of \<open>score_ensemble\<close> over the models, in insertion order.\<close>
  "score_all_models self [] model_metrics all_scores = (model_metrics, all_scores, self)"
| "score_all_models self ((model_name, samples) # rest) model_metrics all_scores =
     (case score_model_samples self model_name samples of
        (metrics, self') \<Rightarrow>
          score_all_models self' rest (dict_set model_metrics model_name metrics)
            (all_scores @ [calculate_consistency (scorer_method self) samples]))"

fun best_from ::
  "(real option \<Rightarrow> real option \<Rightarrow> bool) \<Rightarrow> string \<times> real option
     \<Rightarrow> (string \<times> real option) list \<Rightarrow> string" where
  \<comment> \<open>The scan of Python's \<open>max(d, key=...)\<close> and \<open>min(d, key=...)\<close>: the current
     best is replaced by a later key that is strictly \<open>better\<close>.\<close>
  "best_from better (k, v) [] = k"
| "best_from better (k, v) ((k', v') # rest) =
     (if better v' v then best_from better (k', v') rest else best_from better (k, v) rest)"

definition arg_best ::
  "(real option \<Rightarrow> real option \<Rightarrow> bool) \<Rightarrow> (string \<times> real option) list \<Rightarrow> pyval" where
  "arg_best better kvs = (case kvs of [] \<Rightarrow> PNone | kv # rest \<Rightarrow> PStr (best_from better kv rest))"

definition score_ensemble ::
  "spearman \<Rightarrow> ConsistencyScorer \<Rightarrow> pydict_real \<Rightarrow> pydict \<times> ConsistencyScorer" where
  \<comment> \<open>\<open>score_ensemble\<close>: the per-model metrics and the ensemble-level scores. The
     keys of the dictionary \<open>model_samples\<close> are distinct, so \<open>keyed\<close> pairs every
     model with the \<open>consistency_score\<close> of its metrics.\<close>
  "score_ensemble spearmanr self model_samples =
     (case score_all_models self model_samples [] [] of
        (model_metrics, all_scores, self') \<Rightarrow>
          (let ensemble_consistency = calculate_ensemble_consistency spearmanr self' model_samples;
               keyed = zip (map fst model_samples) all_scores
           in ([(''model_scores'', PDict (map (\<lambda>(m, metrics). (m, PDict metrics)) model_metrics)),
                (''ensemble_consistency'', pyfloat ensemble_consistency),
                (''mean_model_consistency'',
                   if all_scores \<noteq> [] then pyfloat (nan_mean all_scores) else PInt 0),
                (''consistency_variance'',
                   if length all_scores > 1 then pyfloat (nan_var all_scores) else PInt 0),
                (''most_consistent_model'', arg_best nan_gt keyed),
                (''least_consistent_model'', arg_best (\<lambda>a b. nan_gt b a) keyed)],
               self')))"

section \<open>ForecastAggregator (services/analysis/aggregator.py)\<close>

datatype ResponseStatus = SUCCESS | ERROR | TIMEOUT | RATE_LIMITED

record TokenUsage =
  prompt_tokens :: int
  completion_tokens :: int
  total_tokens :: int

record ModelResponse =
  model :: string
  iteration :: int
  ensemble_id :: string
  timestamp :: string
  response_time :: real
  status :: ResponseStatus
  content :: "string option"
  probability :: "real option"
  usage :: "TokenUsage option"
  error :: "string option"
  question :: "string option"
  definition_text :: "string option"
  timeframe :: "string option"

definition validate_response :: "ModelResponse \<Rightarrow> bool" where
  \<comment> \<open>The two validators of the class: no \<open>ModelResponse\<close> exists that fails them.\<close>
  "validate_response r =
     ((case probability r of None \<Rightarrow> True | Some v \<Rightarrow> 0 \<le> v \<and> v \<le> 100) \<and> iteration r \<ge> 1)"

record library =
  lib_ppf :: beta_ppf
  lib_spearmanr :: spearman
  lib_sklearn :: sklearn_fit

record ForecastAggregator =
  agg_method :: string
  calibrator :: BatchCalibrator
  consistency_scorer :: ConsistencyScorer
  bayesian_aggregator :: BayesianAggregator

definition ForecastAggregator_init :: "string \<Rightarrow> ForecastAggregator" where
  \<comment> \<open>\<open>__init__\<close>; the field \<open>multi_calibrator\<close> plays no part in the aggregation
     below and is left out.\<close>
  "ForecastAggregator_init method =
     \<lparr>agg_method = method,
      calibrator = BatchCalibrator_init ''temperature'',
      consistency_scorer = ConsistencyScorer_init ''ensemble'',
      bayesian_aggregator = BayesianAggregator_default\<rparr>"

definition scipy_trim_mean :: "real list \<Rightarrow> real" where
  \<comment> \<open>\<open>scipy.stats.trim_mean(a, 0.1)\<close> of a non-empty list: the mean after cutting
     \<open>int(0.1 * n)\<close> elements from each end of the sorted list.\<close>
  "scipy_trim_mean xs =
     (let n = length xs; lowercut = n div 10; uppercut = n - lowercut
      in np_mean (take (uppercut - lowercut) (drop lowercut (sort xs))))"

fun group_by_model :: "(string \<times> real) list \<Rightarrow> pydict_real \<Rightarrow> pydict_real" where
  \<comment> \<open>\<open>model_predictions[r.model].append(r.probability)\<close> on a
     \<open>defaultdict(list)\<close>, for every response in order.\<close>
  "group_by_model [] d = d"
| "group_by_model ((m, p) # rest) d =
     group_by_model rest
       (dict_set d m ((case map_of d m of None \<Rightarrow> [] | Some ps \<Rightarrow> ps) @ [p]))"

definition as_float :: "pyval \<Rightarrow> py_error + real option" where
  \<comment> \<open>The number a Python value stands for in a comparison or in arithmetic with a
     float; a value that is no number raises TypeError there.\<close>
  "as_float v =
     (case v of
        PFloat x \<Rightarrow> Inr (Some x)
      | PInt i \<Rightarrow> Inr (Some (real_of_int i))
      | PBool b \<Rightarrow> Inr (Some (if b then 1 else 0))
      | PNaN \<Rightarrow> Inr None
      | _ \<Rightarrow> Inl TypeError)"

definition dict_item :: "pydict \<Rightarrow> string \<Rightarrow> py_error + pyval" where
  \<comment> \<open>\<open>d[k]\<close>\<close>
  "dict_item d k = (case map_of d k of None \<Rightarrow> Inl KeyError | Some v \<Rightarrow> Inr v)"

definition get_recommended_estimate :: "pydict \<Rightarrow> pydict \<Rightarrow> py_error + pyval" where
  \<comment> \<open>\<open>_get_recommended_estimate(results, consistency_result)\<close>\<close>
  "get_recommended_estimate results consistency_result =
     (case as_float (dict_get consistency_result ''ensemble_consistency'' (PInt 0)) of
        Inl e \<Rightarrow> Inl e
      | Inr ec \<Rightarrow>
          if nan_gt ec (Some 0.8) then dict_item results ''consistency_weighted''
          else
            (case as_float (dict_get results ''bayesian_uncertainty'' (PInt 1)) of
               Inl e \<Rightarrow> Inl e
             | Inr bu \<Rightarrow>
                 if nan_gt bu (Some 0.5) then dict_item results ''bayesian_aggregated''
                 else dict_item results ''ensemble_of_methods''))"

definition calculate_confidence_score :: "pydict \<Rightarrow> real list \<Rightarrow> py_error + real option" where
  \<comment> \<open>\<open>_calculate_confidence_score(results, probabilities)\<close>\<close>
  "calculate_confidence_score results probabilities =
     (case as_float (dict_get results ''methods_std'' (PInt 10)) of
        Inl e \<Rightarrow> Inl e
      | Inr methods_std \<Rightarrow>
         (case as_float (dict_get results ''ensemble_consistency'' (PFloat 0.5)) of
            Inl e \<Rightarrow> Inl e
          | Inr consistency \<Rightarrow>
             (case (methods_std, consistency) of
                (Some ms, Some c) \<Rightarrow>
                  if 1 + ms / 10 = 0 then Inl ZeroDivisionError
                  else
                  (let agreement_score = 1 / (1 + ms / 10);
                       n_samples = length probabilities;
                       sample_score = min 1 (real n_samples / 50);
                       spread = np_std probabilities;
                       spread_score = 1 / (1 + spread / 20);
                       confidence = (agreement_score + c + sample_score + spread_score) / 4
                   in Inr (Some (np_clip confidence 0 1)))
              | _ \<Rightarrow> Inr None)))"

definition nan_std :: "real option list \<Rightarrow> real option" where
  "nan_std xs = (if None \<in> set xs then None else Some (np_std (map the xs)))"

definition blend_and_recommend ::
  "pydict \<Rightarrow> pydict \<Rightarrow> real list \<Rightarrow> py_error + pydict" where
  \<comment> \<open>The end of \<open>get_advanced_aggregation\<close>, from \<open>all_estimates\<close> on: \<open>results\<close>
     holds the entries written so far.\<close>
  "blend_and_recommend results consistency_result valid_probabilities =
     (case (dict_item results ''simple_mean'', dict_item results ''calibrated_mean'',
            dict_item results ''consistency_weighted'', dict_item results ''bayesian_aggregated'') of
        (Inr v1, Inr v2, Inr v3, Inr v4) \<Rightarrow>
          (case (as_float v1, as_float v2, as_float v3, as_float v4) of
             (Inr e1, Inr e2, Inr e3, Inr e4) \<Rightarrow>
               (let all_estimates = [e1, e2, e3, e4];
                    results1 = results @
                      [(''ensemble_of_methods'', pyfloat (nan_mean all_estimates)),
                       (''methods_std'', pyfloat (nan_std all_estimates))]
                in case get_recommended_estimate results1 consistency_result of
                     Inl e \<Rightarrow> Inl e
                   | Inr recommended \<Rightarrow>
                       (let results2 = results1 @ [(''recommended_estimate'', recommended)]
                        in case calculate_confidence_score results2 valid_probabilities of
                             Inl e \<Rightarrow> Inl e
                           | Inr confidence \<Rightarrow>
                               Inr (results2 @ [(''confidence_in_estimate'', pyfloat confidence)])))
           | _ \<Rightarrow> Inl TypeError)
      | _ \<Rightarrow> Inl KeyError)"

definition get_advanced_aggregation ::
  "library \<Rightarrow> ForecastAggregator \<Rightarrow> ModelResponse list
     \<Rightarrow> (py_error + pydict) \<times> ForecastAggregator" where
  \<comment> \<open>\<open>get_advanced_aggregation\<close>: the dictionary of results (or the exception
     that leaves the method) and the aggregator, whose calibrator, scorer and
     Bayesian aggregator keep what the call has written to them.\<close>
  "get_advanced_aggregation lib self responses =
     (let valid_responses =
            filter (\<lambda>r. status r = SUCCESS \<and> probability r \<noteq> None) responses
      in if valid_responses = [] then
           (Inr [(''error'', PStr ''No valid responses for aggregation'')], self)
         else
           (let valid_probabilities = map (\<lambda>r. the (probability r)) valid_responses;
                model_predictions =
                  group_by_model (map (\<lambda>r. (model r, the (probability r))) valid_responses) [];
                results0 =
                  [(''simple_mean'', PFloat (np_mean valid_probabilities)),
                   (''median'', PFloat (np_median valid_probabilities)),
                   (''trimmed_mean'', PFloat (scipy_trim_mean valid_probabilities))]
            in case calibrate_batch (lib_sklearn lib) (calibrator self) valid_probabilities of
                 (Inl e, cal) \<Rightarrow> (Inl e, self\<lparr>calibrator := cal\<rparr>)
               | (Inr calibrated, cal) \<Rightarrow>
                  (case score_ensemble (lib_spearmanr lib) (consistency_scorer self)
                          model_predictions of
                     (consistency_result, scorer) \<Rightarrow>
                      (let self1 = self\<lparr>calibrator := cal, consistency_scorer := scorer\<rparr>;
                           results1 = results0 @
                             [(''calibrated_mean'', PFloat (np_mean calibrated)),
                              (''calibration_temperature'', PFloat (temperature cal)),
                              (''consistency_weighted'',
                                 PFloat (calculate_weighted_aggregate (scorer_method scorer)
                                           model_predictions)),
                              (''ensemble_consistency'',
                                 dict_get consistency_result ''ensemble_consistency'' PNone),
                              (''consistency_scores'',
                                 dict_get consistency_result ''model_scores'' PNone)];
                           expert_ids = map model valid_responses
                       in case aggregate_forecasts (bayesian_aggregator self) (lib_ppf lib)
                                 valid_probabilities (Some expert_ids) None of
                            (Inl e, bayes) \<Rightarrow> (Inl e, self1\<lparr>bayesian_aggregator := bayes\<rparr>)
                          | (Inr bayesian_result, bayes) \<Rightarrow>
                             (let self2 = self1\<lparr>bayesian_aggregator := bayes\<rparr> in
                              case (dict_item bayesian_result ''aggregated_probability'',
                                    dict_item bayesian_result ''confidence_interval'',
                                    dict_item bayesian_result ''uncertainty'') of
                                (Inr ba, Inr ci, Inr un) \<Rightarrow>
                                  (blend_and_recommend
                                     (results1 @
                                        [(''bayesian_aggregated'', ba),
                                         (''bayesian_confidence_interval'', ci),
                                         (''bayesian_uncertainty'', un)])
                                     consistency_result valid_probabilities,
                                   self2)
                              | _ \<Rightarrow> (Inl KeyError, self2))))))"

definition example_response :: "string \<Rightarrow> int \<Rightarrow> real \<Rightarrow> ModelResponse" where
  \<comment> \<open>A successful response with a probability, as the examples below use it.\<close>
  "example_response m i p =
     \<lparr>model = m, iteration = i, ensemble_id = m @ ''_'' @ str_nat (nat i),
      timestamp = ''2026-01-01T00:00:00'', response_time = 1, status = SUCCESS,
      content = Some ''PROGNOSE: x%'', probability = Some p, usage = None, error = None,
      question = None, definition_text = None, timeframe = None\<rparr>"

definition example_library :: library where
  \<comment> \<open>Stand-ins for the three library functions in the examples below; no statement
     depends on what they return.\<close>
  "example_library =
     \<lparr>lib_ppf = (\<lambda>q a b. q), lib_spearmanr = (\<lambda>a b. None), lib_sklearn = (\<lambda>m bs. Inr None)\<rparr>"

section \<open>Reply records (the dictionaries that query\_model returns)\<close>

datatype reply_status =
    Success
  | EmptyResponse
  | Rejected
  | Timeout
  | RateLimited
  | NotFound
  | InvalidModel
  | Error

text \<open>
  The status strings of the source: \<open>success\<close>, \<open>empty_response\<close>, \<open>rejected\<close>,
  \<open>timeout\<close>, \<open>rate_limited\<close>, \<open>not_found\<close>, \<open>invalid_model\<close>, \<open>error\<close>. A reply is the
  dictionary built by \<open>query_model\<close> or by the batch runner; a key that a path does
  not write is \<open>None\<close> in the record.
\<close>

record reply =
  r_model :: string
  r_iteration :: "nat option"
  r_timestamp :: string
  r_response_time :: "real option"
  r_content :: "string option"
  r_probability :: "real option"
  r_error :: "string option"
  r_status :: reply_status
  r_response_source :: "string option"
  r_usage :: "TokenUsage option"
  r_log_probabilities :: "string option"
  r_ensemble_id :: "string option"
  r_question :: "string option"
  r_definition :: "string option"
  r_timeframe :: "string option"

section \<open>EnsembleManager: the advanced analysis (core/ensemble\_manager.py)\<close>

definition apply_temperature_scaling :: "real list \<Rightarrow> real \<Rightarrow> real list" where
  \<comment> \<open>\<open>_apply_temperature_scaling(probabilities, temperature)\<close>\<close>
  "apply_temperature_scaling probabilities t =
     map (\<lambda>p. (let probs_01 = np_clip (p / 100) (1 / 10 ^ 7) (1 - 1 / 10 ^ 7);
                     logits = ln (probs_01 / (1 - probs_01));
                     scaled_logits = logits / t
                 in 1 / (1 + exp (- scaled_logits)) * 100)) probabilities"

definition batch_calibration_attempt ::
  "sklearn_fit \<Rightarrow> BatchCalibrator \<Rightarrow> real list \<Rightarrow> py_error \<times> BatchCalibrator" where
  \<comment> \<open>\<open>calibrator.calibrate_batch(np.array(model_probs) / 100.0) * 100.0\<close>: when
     \<open>calibrate_batch\<close> returns, it returns a Python list, and the product of a list and a
     float raises TypeError; so the expression always ends in an exception.\<close>
  "batch_calibration_attempt sk cal model_probs =
     (case calibrate_batch sk cal (map (\<lambda>p. p / 100) model_probs) of
        (Inl e, cal') \<Rightarrow> (e, cal')
      | (Inr out, cal') \<Rightarrow> (TypeError, cal'))"

record model_loop_state =
  ls_calibrator :: BatchCalibrator
  ls_model_predictions :: pydict_real
  ls_model_weights :: "(string \<times> real option) list"
  ls_calibrated_predictions :: pydict_real

fun prepare_models ::
  "sklearn_fit \<Rightarrow> (string \<times> reply list) list \<Rightarrow> model_loop_state \<Rightarrow> model_loop_state" where
  \<comment> \<open>The first loop of \<open>_apply_advanced_algorithms\<close>, over the items of
     \<open>model_groups\<close>: per model with at least one probability, its consistency score,
     its probabilities and their calibration (always the fallback, see above).\<close>
  "prepare_models sk [] st = st"
| "prepare_models sk ((m, results) # rest) st =
     (let model_probs = map (\<lambda>r. the (r_probability r))
                          (filter (\<lambda>r. r_probability r \<noteq> None) results)
      in if model_probs \<noteq> [] then
           (let consistency = calculate_consistency ''ensemble'' model_probs;
                attempt = batch_calibration_attempt sk (ls_calibrator st) model_probs;
                calibrated_probs = apply_temperature_scaling model_probs 1.5
            in prepare_models sk rest
                 \<lparr>ls_calibrator = snd attempt,
                  ls_model_predictions = dict_set (ls_model_predictions st) m model_probs,
                  ls_model_weights = dict_set (ls_model_weights st) m consistency,
                  ls_calibrated_predictions =
                    dict_set (ls_calibrated_predictions st) m calibrated_probs\<rparr>)
         else prepare_models sk rest st)"

definition calculate_variance_reduction :: "real list \<Rightarrow> real option \<Rightarrow> real" where
  \<comment> \<open>\<open>_calculate_variance_reduction\<close>; \<open>max(0.0, x)\<close> is \<open>0.0\<close> when \<open>x\<close> is \<open>nan\<close>
     or \<open>-inf\<close>, which is what the division by a zero deviation gives.\<close>
  "calculate_variance_reduction basic_predictions enhanced_prediction =
     (let basic_std = np_std basic_predictions in
      case enhanced_prediction of
        None \<Rightarrow> 0
      | Some e \<Rightarrow>
          if basic_std = 0 then 0
          else max 0 ((basic_std - \<bar>e - np_mean basic_predictions\<bar>) / basic_std * 100))"

definition assess_consensus_improvement :: "pydict_real \<Rightarrow> real option \<Rightarrow> pydict" where
  \<comment> \<open>\<open>_assess_consensus_improvement\<close> for a non-empty dictionary of non-empty
     lists.\<close>
  "assess_consensus_improvement model_predictions enhanced_prediction =
     (let model_means = map (\<lambda>(m, probs). np_mean probs) model_predictions;
          basic_range = np_max model_means - np_min model_means;
          center = (np_max model_means + np_min model_means) / 2;
          enhanced_deviation = map_option (\<lambda>e. \<bar>e - center\<bar>) enhanced_prediction
      in [(''basic_model_range'', PFloat basic_range),
          (''enhanced_deviation_from_center'', pyfloat enhanced_deviation),
          (''consensus_score'',
             PFloat (case enhanced_deviation of
                       None \<Rightarrow> 0
                     | Some dev \<Rightarrow>
                         if basic_range = 0 then 0
                         else max 0 ((basic_range - dev) / basic_range * 100)))])"

definition calculate_improvement_metrics ::
  "real list \<Rightarrow> real option \<Rightarrow> real option \<Rightarrow> pydict" where
  \<comment> \<open>\<open>_calculate_improvement_metrics(basic_predictions, bayesian_pred,
     calibrated_pred)\<close>; the last argument is \<open>None\<close> or a number.\<close>
  "calculate_improvement_metrics basic_predictions bayesian_pred calibrated_pred =
     (let basic_mean = np_mean basic_predictions;
          basic_std = np_std basic_predictions;
          metrics =
            [(''bayesian_vs_basic_difference'',
                pyfloat (map_option (\<lambda>b. \<bar>b - basic_mean\<bar>) bayesian_pred)),
             (''uncertainty_reduction'',
                PFloat (case bayesian_pred of
                          None \<Rightarrow> 0
                        | Some b \<Rightarrow> max 0 (basic_std - \<bar>b - basic_mean\<bar>)))]
      in case calibrated_pred of
           None \<Rightarrow> metrics
         | Some c \<Rightarrow>
             metrics @
               [(''calibrated_vs_basic_difference'', PFloat \<bar>c - basic_mean\<bar>),
                (''calibrated_vs_bayesian_difference'',
                   pyfloat (map_option (\<lambda>b. \<bar>c - b\<bar>) bayesian_pred))])"

definition exception_text :: "py_error \<Rightarrow> string" where
  \<comment> \<open>\<open>str(e)\<close>; the wording of a library's message is the library's.\<close>
  "exception_text e =
     (case e of
        ZeroDivisionError \<Rightarrow> ''Weights sum to zero, can not be normalized''
      | ValueError \<Rightarrow> ''ValueError''
      | IndexError \<Rightarrow> ''IndexError''
      | TypeError \<Rightarrow> ''TypeError''
      | KeyError \<Rightarrow> ''KeyError''
      | NonFinite \<Rightarrow> [])"

definition initial_loop_state :: model_loop_state where
  "initial_loop_state =
     \<lparr>ls_calibrator = BatchCalibrator_init ''platt'', ls_model_predictions = [],
      ls_model_weights = [], ls_calibrated_predictions = []\<rparr>"

definition bayesian_prediction_of :: "py_error + pydict \<Rightarrow> real \<Rightarrow> py_error + pyval" where
  \<comment> \<open>\<open>bayesian_result.get('aggregated_forecast', np.mean(all_predictions) * 100.0)\<close>
     on what \<open>aggregate_forecasts\<close> gave. A run with non-finite numbers returns a
     dictionary with the keys of every other run, so the look-up falls to the default
     there as well; an exception leaves the \<open>try\<close> block.\<close>
  "bayesian_prediction_of bayesian_result dflt =
     (case bayesian_result of
        Inr d \<Rightarrow> Inr (dict_get d ''aggregated_forecast'' (PFloat dflt))
      | Inl NonFinite \<Rightarrow> Inr (PFloat dflt)
      | Inl e \<Rightarrow> Inl e)"

definition apply_advanced_algorithms ::
  "library \<Rightarrow> (string \<times> reply list) list \<Rightarrow> real list \<Rightarrow> pydict" where
  \<comment> \<open>\<open>_apply_advanced_algorithms(model_groups, valid_probabilities)\<close>; the caller
     passes a non-empty list of probabilities.\<close>
  "apply_advanced_algorithms lib model_groups valid_probabilities =
     (let st = prepare_models (lib_sklearn lib) model_groups initial_loop_state;
          model_predictions = ls_model_predictions st;
          model_weights = ls_model_weights st;
          calibrated_predictions = ls_calibrated_predictions st
      in if model_predictions \<noteq> [] then
           (let all_predictions = map (\<lambda>(m, probs). np_mean probs / 100) model_predictions;
                all_weights = map (\<lambda>(m, probs). the (map_of model_weights m)) model_predictions;
                model_names = map fst model_predictions;
                bayesian_result =
                  (if None \<in> set all_weights then Inl NonFinite
                   else fst (aggregate_forecasts BayesianAggregator_default (lib_ppf lib)
                               (map (\<lambda>p. p * 100) all_predictions) (Some model_names)
                               (Some (map the all_weights))))
            in case bayesian_prediction_of bayesian_result (np_mean all_predictions * 100) of
                 Inl e \<Rightarrow> [(''error'', PStr (exception_text e)), (''fallback_to_basic'', PBool True)]
               | Inr bayesian_prediction \<Rightarrow>
                  (case as_float bayesian_prediction of
                     Inl e \<Rightarrow>
                       [(''error'', PStr (exception_text e)), (''fallback_to_basic'', PBool True)]
                   | Inr bp \<Rightarrow>
                      (let all_calibrated = concat (map snd calibrated_predictions);
                           calibrated_ensemble =
                             (if all_calibrated \<noteq> [] then Some (np_mean all_calibrated) else None);
                           calibrated_value =
                             (case calibrated_ensemble of None \<Rightarrow> PNone | Some c \<Rightarrow> PFloat c)
                       in [(''bayesian_ensemble'', pyfloat bp),
                           (''calibrated_ensemble'', calibrated_value),
                           (''model_consistency_scores'',
                              PDict (map (\<lambda>(m, c). (m, pyfloat c)) model_weights)),
                           (''calibrated_predictions'',
                              PDict (map (\<lambda>(m, ps). (m, PList (map PFloat ps)))
                                       calibrated_predictions)),
                           (''quality_assessment'',
                              PDict [(''variance_reduction'',
                                        PFloat (calculate_variance_reduction valid_probabilities bp)),
                                     (''consensus_improvement'',
                                        PDict (assess_consensus_improvement model_predictions bp))]),
                           (''algorithm_comparison'',
                              PDict [(''basic_mean'', PFloat (np_mean valid_probabilities)),
                                     (''bayesian_weighted'', pyfloat bp),
                                     (''calibrated_mean'', calibrated_value),
                                     (''improvement_metrics'',
                                        PDict (calculate_improvement_metrics valid_probabilities
                                                 bp calibrated_ensemble))])])))
         else [(''insufficient_data'', PBool True)])"

definition per_model_means :: "library \<Rightarrow> (string \<times> reply list) list \<Rightarrow> real list" where
  \<comment> \<open>The mean forecast of every model that has at least one probability, in the
     order of \<open>model_groups\<close>.\<close>
  "per_model_means lib model_groups =
     map (\<lambda>(m, probs). np_mean probs)
       (ls_model_predictions (prepare_models (lib_sklearn lib) model_groups initial_loop_state))"

definition example_reply :: "string \<Rightarrow> real option \<Rightarrow> reply" where
  \<comment> \<open>A successful reply as \<open>query_model\<close> builds it, for the examples below.\<close>
  "example_reply m p =
     \<lparr>r_model = m, r_iteration = Some 1, r_timestamp = ''2026-01-01T00:00:00'',
      r_response_time = Some 1, r_content = Some ''PROGNOSE: x%'', r_probability = p,
      r_error = None, r_status = Success, r_response_source = Some ''api'',
      r_usage = None, r_log_probabilities = None, r_ensemble_id = None, r_question = None,
      r_definition = None, r_timeframe = None\<rparr>"

section \<open>EnsembleManager: running a batch (core/ensemble\_manager.py)\<close>

text \<open>
  The manager queries through its client, \<open>self.client.query_model\<close>, reads the clock
  and, in dry-run mode, draws random numbers. These are the environment of a run: each
  is a function of a tick that every use advances, so that two uses can differ. A
  query either raises (the message of the exception) or returns a reply.
\<close>

record query_args =
  q_model :: string
  q_prompt :: string
  q_max_tokens :: "nat option"
  q_web_search :: bool

record environment =
  env_query :: "query_args \<Rightarrow> nat \<Rightarrow> string + reply"
  env_now :: "nat \<Rightarrow> string"
  env_gauss :: "nat \<Rightarrow> real"
  env_uniform :: "nat \<Rightarrow> real"
  env_format1 :: "real \<Rightarrow> string"
  env_prompt :: "bool \<Rightarrow> string \<Rightarrow> string \<Rightarrow> string option \<Rightarrow> string option \<Rightarrow> string"

text \<open>
  \<open>env_format1\<close> is the float format \<open>:.1f\<close>; \<open>env_prompt\<close> is the prompt template
  (\<open>PromptTemplates\<close>), chosen by the flag \<open>enhanced_prompts\<close>.
\<close>

record world =
  w_tick :: nat
  w_progress :: "int list"

text \<open>
  \<open>w_progress\<close> is the progress display: the completed count of every task, by task
  id; \<open>add_task\<close> appends a task, \<open>update(task, advance=n)\<close> adds to its count.
\<close>

definition add_task :: "world \<Rightarrow> nat \<times> world" where
  "add_task w = (length (w_progress w), w\<lparr>w_progress := w_progress w @ [0]\<rparr>)"

definition progress_update :: "nat \<Rightarrow> int \<Rightarrow> world \<Rightarrow> world" where
  "progress_update task_id advance w =
     (if task_id < length (w_progress w)
      then w\<lparr>w_progress := (w_progress w)[task_id := w_progress w ! task_id + advance]\<rparr>
      else w)"

definition call_query :: "environment \<Rightarrow> query_args \<Rightarrow> world \<Rightarrow> (string + reply) \<times> world" where
  "call_query env args w = (env_query env args (w_tick w), w\<lparr>w_tick := Suc (w_tick w)\<rparr>)"

record EnsembleManager =
  dry_run :: bool
  enhanced_prompts :: bool
  enabled_models :: "string list"
  iterations_per_model :: int
  concurrent_requests :: int

fun is_substring :: "string \<Rightarrow> string \<Rightarrow> bool" where
  \<comment> \<open>\<open>needle in haystack\<close>\<close>
  "is_substring needle [] = (needle = [])"
| "is_substring needle (c # cs) =
     (take (length needle) (c # cs) = needle \<or> is_substring needle cs)"

definition is_free :: "string \<Rightarrow> bool" where
  \<comment> \<open>\<open>':free' in model\<close>\<close>
  "is_free m = is_substring '':free'' m"

definition finish_query :: "nat \<Rightarrow> nat \<Rightarrow> reply \<Rightarrow> world \<Rightarrow> (string + reply) \<times> world" where
  \<comment> \<open>The end of \<open>limited_query\<close>: number the reply and advance the model's task.\<close>
  "finish_query task_id iter result w =
     (Inr (result\<lparr>r_iteration := Some (iter + 1)\<rparr>), progress_update task_id 1 w)"

definition limited_query ::
  "environment \<Rightarrow> string \<Rightarrow> string \<Rightarrow> nat \<Rightarrow> nat \<Rightarrow> world \<Rightarrow> (string + reply) \<times> world" where
  \<comment> \<open>\<open>limited_query(iteration)\<close> inside \<open>_run_model_batch\<close>: one query, and for a
     free-tier model one retry with 10000 tokens after an empty response. An exception
     of the client leaves the function before the reply is numbered and before the
     progress is advanced. The waiting (\<open>asyncio.sleep\<close>) has no effect here.\<close>
  "limited_query env m prompt task_id iter w =
     (case call_query env \<lparr>q_model = m, q_prompt = prompt, q_max_tokens = None,
                            q_web_search = True\<rparr> w of
        (Inl exn, w1) \<Rightarrow> (Inl exn, w1)
      | (Inr result, w1) \<Rightarrow>
          if r_status result = EmptyResponse \<and> is_free m then
            (case call_query env \<lparr>q_model = m, q_prompt = prompt, q_max_tokens = Some 10000,
                                  q_web_search = True\<rparr> w1 of
               (Inl exn, w2) \<Rightarrow> (Inl exn, w2)
             | (Inr result2, w2) \<Rightarrow> finish_query task_id iter result2 w2)
          else finish_query task_id iter result w1)"

fun run_queries ::
  "environment \<Rightarrow> string \<Rightarrow> string \<Rightarrow> nat \<Rightarrow> nat list \<Rightarrow> world
     \<Rightarrow> (string + reply) list \<times> world" where
  \<comment> \<open>The queries of the iterations \<open>is\<close>, one after the other, an exception kept as
     the result of its iteration: the loop with \<open>try\<close> of the free-tier branch.\<close>
  "run_queries env m prompt task_id [] w = ([], w)"
| "run_queries env m prompt task_id (i # is) w =
     (case limited_query env m prompt task_id i w of
        (result, w1) \<Rightarrow>
          (case run_queries env m prompt task_id is w1 of
             (results, w2) \<Rightarrow> (result # results, w2)))"

definition gather_queries ::
  "environment \<Rightarrow> string \<Rightarrow> string \<Rightarrow> nat \<Rightarrow> nat list \<Rightarrow> world
     \<Rightarrow> (string + reply) list \<times> world" where
  \<comment> \<open>\<open>asyncio.gather(*tasks, return_exceptions=True)\<close> of the paid branch returns
     the results in the order of the tasks, an exception as the result of its task. The
     tasks run interleaved under the semaphore; the model runs them in their order.\<close>
  "gather_queries = run_queries"

definition error_reply :: "environment \<Rightarrow> string \<Rightarrow> nat \<Rightarrow> string \<Rightarrow> world \<Rightarrow> reply \<times> world" where
  \<comment> \<open>The record that \<open>_run_model_batch\<close> writes for an exception.\<close>
  "error_reply env m i message w =
     (\<lparr>r_model = m, r_iteration = Some (i + 1), r_timestamp = env_now env (w_tick w),
       r_response_time = None, r_content = None, r_probability = None,
       r_error = Some message, r_status = Error, r_response_source = None,
       r_usage = None, r_log_probabilities = None, r_ensemble_id = None, r_question = None,
       r_definition = None, r_timeframe = None\<rparr>,
      w\<lparr>w_tick := Suc (w_tick w)\<rparr>)"

fun valid_results ::
  "environment \<Rightarrow> string \<Rightarrow> nat \<Rightarrow> (string + reply) list \<Rightarrow> world \<Rightarrow> reply list \<times> world" where
  \<comment> \<open>\<open>for i, result in enumerate(results)\<close>, from index \<open>i\<close> on.\<close>
  "valid_results env m i [] w = ([], w)"
| "valid_results env m i (result # results) w =
     (case (case result of
              Inl message \<Rightarrow> error_reply env m i message w
            | Inr r \<Rightarrow> (r, w)) of
        (r, w1) \<Rightarrow>
          (case valid_results env m (Suc i) results w1 of
             (rs, w2) \<Rightarrow> (r # rs, w2)))"

definition mock_reply :: "environment \<Rightarrow> string \<Rightarrow> nat \<Rightarrow> world \<Rightarrow> reply \<times> world" where
  \<comment> \<open>One mock reply of the dry-run mode: a Gaussian sample clamped to \<open>[5, 95]\<close>.\<close>
  "mock_reply env m i w =
     (let base_prob = env_gauss env (w_tick w);
          prob = max 5 (min 95 base_prob)
      in (\<lparr>r_model = m, r_iteration = Some (i + 1), r_timestamp = env_now env (w_tick w + 1),
            r_response_time = Some (env_uniform env (w_tick w + 2)),
            r_content = Some (''[DRY-RUN] Mock response for '' @ m @ [CHR 0x0A] @ ''PROGNOSE: ''
                                @ env_format1 env prob @ ''%''),
            r_probability = Some prob, r_error = None, r_status = Success,
            r_response_source = Some ''dry_run'',
            r_usage = Some \<lparr>prompt_tokens = 1500, completion_tokens = 500, total_tokens = 2000\<rparr>,
            r_log_probabilities = None, r_ensemble_id = None, r_question = None,
            r_definition = None, r_timeframe = None\<rparr>,
          w\<lparr>w_tick := w_tick w + 3\<rparr>))"

fun mock_batch :: "environment \<Rightarrow> string \<Rightarrow> nat \<Rightarrow> nat list \<Rightarrow> world \<Rightarrow> reply list \<times> world" where
  "mock_batch env m task_id [] w = ([], w)"
| "mock_batch env m task_id (i # is) w =
     (case mock_reply env m i w of
        (r, w1) \<Rightarrow>
          (case mock_batch env m task_id is (progress_update task_id 1 w1) of
             (rs, w2) \<Rightarrow> (r # rs, w2)))"

definition run_model_batch ::
  "environment \<Rightarrow> EnsembleManager \<Rightarrow> string \<Rightarrow> string \<Rightarrow> int \<Rightarrow> nat \<Rightarrow> world
     \<Rightarrow> reply list \<times> world" where
  \<comment> \<open>\<open>_run_model_batch(model, prompt, iterations, progress, task_id)\<close>;
     \<open>range(iterations)\<close> is empty for a negative number.\<close>
  "run_model_batch env self m prompt iterations task_id w =
     (if dry_run self then mock_batch env m task_id [0..<nat iterations] w
      else
        (case (if is_free m then run_queries env m prompt task_id [0..<nat iterations] w
               else gather_queries env m prompt task_id [0..<nat iterations] w) of
           (results, w1) \<Rightarrow> valid_results env m 0 results w1))"

text \<open>
  \<open>test_connection\<close> of the client (services/core/api\_client.py): one short query,
  and the answer is whether its status is success; an exception counts as no.
\<close>

definition test_connection :: "environment \<Rightarrow> world \<Rightarrow> bool \<times> world" where
  "test_connection env w =
     (case call_query env \<lparr>q_model = ''openai/gpt-3.5-turbo'',
                            q_prompt = ''Say '' @ [CHR 0x27] @ ''test successful'' @ [CHR 0x27]
                                         @ '' if you can read this.'',
                            q_max_tokens = Some 10, q_web_search = False\<rparr> w of
        (Inl exn, w1) \<Rightarrow> (False, w1)
      | (Inr response, w1) \<Rightarrow> (r_status response = Success, w1))"

datatype run_error = ConnectionError string | FormatTypeError

definition connection_check ::
  "environment \<Rightarrow> EnsembleManager \<Rightarrow> string list \<Rightarrow> world \<Rightarrow> (run_error + unit) \<times> world" where
  \<comment> \<open>The connection test at the start of \<open>run_ensemble_forecast\<close>: skipped in
     dry-run mode and when every model is free-tier.\<close>
  "connection_check env self models w =
     (if \<not> dry_run self then
        (if list_all is_free models then (Inr (), w)
         else
           (case test_connection env w of
              (ok, w1) \<Rightarrow>
                if \<not> ok then (Inl (ConnectionError ''Could not connect to OpenRouter API''), w1)
                else (Inr (), w1)))
      else (Inr (), w))"

definition format_02d :: "nat \<Rightarrow> string" where
  \<comment> \<open>The integer format \<open>:02d\<close>.\<close>
  "format_02d n = (if n < 10 then ''0'' @ str_nat n else str_nat n)"

fun add_metadata ::
  "string \<Rightarrow> string \<Rightarrow> string \<Rightarrow> string option \<Rightarrow> reply list \<Rightarrow> run_error + reply list" where
  \<comment> \<open>\<open>for result in model_results\<close>: the metadata written into every record. The
     format \<open>:02d\<close> raises for an iteration that is \<open>None\<close>.\<close>
  "add_metadata m qn defn tf [] = Inr []"
| "add_metadata m qn defn tf (r # rs) =
     (case r_iteration r of
        None \<Rightarrow> Inl FormatTypeError
      | Some n \<Rightarrow>
          (case add_metadata m qn defn tf rs of
             Inl e \<Rightarrow> Inl e
           | Inr rs' \<Rightarrow>
               Inr (r\<lparr>r_ensemble_id := Some (m @ ''_'' @ format_02d n), r_question := Some qn,
                      r_definition := Some defn, r_timeframe := tf\<rparr> # rs')))"

fun run_models ::
  "environment \<Rightarrow> EnsembleManager \<Rightarrow> string \<Rightarrow> int \<Rightarrow> nat \<Rightarrow> string \<Rightarrow> string \<Rightarrow> string option
     \<Rightarrow> string list \<Rightarrow> reply list \<Rightarrow> world \<Rightarrow> (run_error + reply list) \<times> world" where
  \<comment> \<open>\<open>for model in models\<close> of \<open>run_ensemble_forecast\<close>, with \<open>all_results\<close>
     so far.\<close>
  "run_models env self prompt iterations main_task qn defn tf [] all_results w =
     (Inr all_results, w)"
| "run_models env self prompt iterations main_task qn defn tf (m # ms) all_results w =
     (case add_task w of
        (model_task, w1) \<Rightarrow>
          (case run_model_batch env self m prompt iterations model_task w1 of
             (model_results, w2) \<Rightarrow>
               (case add_metadata m qn defn tf model_results of
                  Inl e \<Rightarrow> (Inl e, progress_update main_task iterations w2)
                | Inr model_results' \<Rightarrow>
                    run_models env self prompt iterations main_task qn defn tf ms
                      (all_results @ model_results') (progress_update main_task iterations w2))))"

record forecast_result =
  fr_models :: "string list"
  fr_iterations_per_model :: int
  fr_total_queries :: nat
  fr_prompt :: string
  fr_responses :: "reply list"
  fr_successful_queries :: nat
  fr_failed_queries :: nat

definition run_ensemble_forecast ::
  "environment \<Rightarrow> EnsembleManager \<Rightarrow> string \<Rightarrow> string \<Rightarrow> string list option \<Rightarrow> int option
     \<Rightarrow> string option \<Rightarrow> string option \<Rightarrow> world \<Rightarrow> (run_error + forecast_result) \<times> world" where
  \<comment> \<open>\<open>run_ensemble_forecast\<close>: \<open>Inl\<close> is the exception that leaves it. Of the
     result, the times and the statistics of the summary over the probabilities are not
     modelled; the summary raises no exception of its own.\<close>
  "run_ensemble_forecast env self qn defn models_arg iterations_arg tf ctx w =
     (let models = (case models_arg of
                      None \<Rightarrow> enabled_models self
                    | Some ms \<Rightarrow> if ms = [] then enabled_models self else ms);
          iterations = (case iterations_arg of
                          None \<Rightarrow> iterations_per_model self
                        | Some i \<Rightarrow> if i = 0 then iterations_per_model self else i);
          prompt = env_prompt env (enhanced_prompts self) qn defn tf ctx
      in
        (case connection_check env self models w of
           (Inl e, w1) \<Rightarrow> (Inl e, w1)
         | (Inr u, w1) \<Rightarrow>
             (case add_task w1 of
                (main_task, w2) \<Rightarrow>
                  (case run_models env self prompt iterations main_task qn defn tf models [] w2 of
                     (Inl e, w3) \<Rightarrow> (Inl e, w3)
                   | (Inr all_results, w3) \<Rightarrow>
                       (Inr \<lparr>fr_models = models, fr_iterations_per_model = iterations,
                             fr_total_queries = length all_results, fr_prompt = prompt,
                             fr_responses = all_results,
                             fr_successful_queries =
                               length (filter (\<lambda>r. r_status r = Success) all_results),
                             fr_failed_queries =
                               length (filter (\<lambda>r. r_status r \<noteq> Success) all_results)\<rparr>,
                        w3)))))"

definition query_fails :: "string + reply \<Rightarrow> bool" where
  \<comment> \<open>A query fails: it raises, or its reply has a status other than success.\<close>
  "query_fails res = (case res of Inl exn \<Rightarrow> True | Inr r \<Rightarrow> r_status r \<noteq> Success)"

definition error_family :: "reply_status \<Rightarrow> bool" where
  "error_family s = (s \<noteq> Success)"

definition failing_query :: "query_args \<Rightarrow> nat \<Rightarrow> string + reply" where
  \<comment> \<open>An example of a client that fails on every call: it raises on even ticks and
     answers with an empty response on odd ones.\<close>
  "failing_query args t =
     (if even t then Inl ''connection reset''
      else Inr ((example_reply (q_model args) None)\<lparr>r_status := EmptyResponse, r_content := None\<rparr>))"

definition example_environment :: "(query_args \<Rightarrow> nat \<Rightarrow> string + reply) \<Rightarrow> environment" where
  "example_environment q =
     \<lparr>env_query = q, env_now = (\<lambda>t. ''2025-01-01T00:00:00''), env_gauss = (\<lambda>t. 35),
      env_uniform = (\<lambda>t. 1), env_format1 = (\<lambda>x. ''35.0''),
      env_prompt = (\<lambda>enhanced qn defn tf ctx. qn @ '' '' @ defn)\<rparr>"

definition example_manager :: EnsembleManager where
  "example_manager =
     \<lparr>dry_run = False, enhanced_prompts = False,
      enabled_models = [''x-ai/grok-4-fast:free'', ''deepseek/deepseek-chat-v3.1:free''],
      iterations_per_model = 10, concurrent_requests = 3\<rparr>"

definition initial_world :: world where
  "initial_world = \<lparr>w_tick = 0, w_progress = []\<rparr>"

text \<open>Predicates for the properties of a batch.\<close>

definition failed_result :: "string + reply \<Rightarrow> bool" where
  "failed_result res =
     (case res of Inl exn \<Rightarrow> True | Inr r \<Rightarrow> r_status r \<noteq> Success \<and> r_iteration r \<noteq> None)"

definition failed_reply :: "reply \<Rightarrow> bool" where
  "failed_reply r = (r_status r \<noteq> Success \<and> r_iteration r \<noteq> None)"

definition keeps :: "nat \<Rightarrow> world \<Rightarrow> world \<Rightarrow> bool" where
  \<comment> \<open>From \<open>w\<close> to \<open>w'\<close> time has not gone back and only the count of the task
     \<open>task_id\<close> may have changed.\<close>
  "keeps task_id w w' =
     (w_tick w \<le> w_tick w' \<and> length (w_progress w') = length (w_progress w)
      \<and> (\<forall>j. j \<noteq> task_id \<longrightarrow> w_progress w' ! j = w_progress w ! j))"

definition recovering_query :: "query_args \<Rightarrow> nat \<Rightarrow> string + reply" where
  \<comment> \<open>A client that answers the first call, the connection test, and fails on every
     call after it.\<close>
  "recovering_query args t =
     (if t = 0 then Inr (example_reply (q_model args) None) else failing_query args t)"

section \<open>Regular expressions as the extractor uses them (Python's \<open>re\<close>)\<close>

text \<open>
  A text is a \<open>string\<close> of characters with code points below 256 (Latin-1). The
  patterns of the extractor use literals, the classes for a digit, for white space and
  for any character but a newline, sequence, alternative, the greedy \<open>?\<close>, greedy and
  lazy repetition of a class, one capturing group, the end of a line and the word
  boundary. Matching is by backtracking, as in Python: the first alternative first, a
  greedy repetition as long as possible first, a lazy one as short as possible first.
\<close>

datatype cclass = CDigit | CSpace | CAny

datatype rx =
    Lit char
  | Cls cclass
  | Seq rx rx
  | Alt rx rx
  | Eps
  | Opt rx
  | Star cclass
  | Plus cclass
  | LazyStar cclass
  | Group rx
  | Eol
  | WordB

definition is_digit :: "char \<Rightarrow> bool" where
  "is_digit c = (48 \<le> (of_char c :: nat) \<and> (of_char c :: nat) \<le> 57)"

definition is_space :: "char \<Rightarrow> bool" where
  \<comment> \<open>\<open>str.isspace\<close> below 256: tab to carriage return, the four separators, the
     blank, next line and the no-break space.\<close>
  "is_space c =
     (let n = (of_char c :: nat)
      in (9 \<le> n \<and> n \<le> 13) \<or> (28 \<le> n \<and> n \<le> 32) \<or> n = 133 \<or> n = 160)"

definition is_word :: "char \<Rightarrow> bool" where
  \<comment> \<open>A word character: \<open>str.isalnum\<close> or the underscore, below 256.\<close>
  "is_word c =
     (let n = (of_char c :: nat)
      in (48 \<le> n \<and> n \<le> 57) \<or> (65 \<le> n \<and> n \<le> 90) \<or> n = 95 \<or> (97 \<le> n \<and> n \<le> 122)
         \<or> n = 170 \<or> n = 178 \<or> n = 179 \<or> n = 181 \<or> n = 185 \<or> n = 186
         \<or> (188 \<le> n \<and> n \<le> 190) \<or> (192 \<le> n \<and> n \<le> 214) \<or> (216 \<le> n \<and> n \<le> 246)
         \<or> 248 \<le> n)"

definition lower_char :: "char \<Rightarrow> char" where
  \<comment> \<open>The lower case of a character, below 256.\<close>
  "lower_char c =
     (let n = (of_char c :: nat)
      in if (65 \<le> n \<and> n \<le> 90) \<or> (192 \<le> n \<and> n \<le> 222 \<and> n \<noteq> 215) then char_of (n + 32)
         else c)"

definition lower :: "string \<Rightarrow> string" where
  \<comment> \<open>\<open>str.lower()\<close>\<close>
  "lower s = map lower_char s"

definition in_class :: "cclass \<Rightarrow> char \<Rightarrow> bool" where
  "in_class k c =
     (case k of CDigit \<Rightarrow> is_digit c | CSpace \<Rightarrow> is_space c | CAny \<Rightarrow> c \<noteq> CHR 0x0A)"

definition lit_eq :: "bool \<Rightarrow> char \<Rightarrow> char \<Rightarrow> bool" where
  \<comment> \<open>A literal of the pattern against a character of the text, under \<open>IGNORECASE\<close>
     or not.\<close>
  "lit_eq ic c x = (if ic then lower_char c = lower_char x else c = x)"

definition at_eol :: "bool \<Rightarrow> string \<Rightarrow> bool" where
  \<comment> \<open>\<open>$\<close>: at the end of the text or before a newline that ends it; under
     \<open>MULTILINE\<close> before any newline.\<close>
  "at_eol ml s = (s = [] \<or> (if ml then hd s = CHR 0x0A else s = [CHR 0x0A]))"

definition word_boundary :: "char option \<Rightarrow> string \<Rightarrow> bool" where
  "word_boundary p s =
     ((case p of None \<Rightarrow> False | Some c \<Rightarrow> is_word c)
        \<noteq> (case s of [] \<Rightarrow> False | x # xs \<Rightarrow> is_word x))"

datatype task = Match rx | CloseGroup string

fun rx_weight :: "rx \<Rightarrow> nat" where
  "rx_weight (Seq a b) = Suc (rx_weight a + rx_weight b)"
| "rx_weight (Alt a b) = Suc (rx_weight a + rx_weight b)"
| "rx_weight (Opt a) = Suc (rx_weight a)"
| "rx_weight (Group a) = Suc (Suc (rx_weight a))"
| "rx_weight (Plus k) = 3"
| "rx_weight r = 1"

fun task_weight :: "task \<Rightarrow> nat" where
  "task_weight (Match r) = rx_weight r"
| "task_weight (CloseGroup s) = 1"

text \<open>
  \<open>rx_run ic ml tasks (p, s, g)\<close> matches what is left of a pattern, the tasks, at the
  text \<open>s\<close> that follows the character \<open>p\<close>; \<open>g\<close> is the text of the group so far. It
  returns the state at the end of the first match that backtracking finds.
\<close>

function rx_run ::
  "bool \<Rightarrow> bool \<Rightarrow> task list \<Rightarrow> char option \<times> string \<times> string option
     \<Rightarrow> (char option \<times> string \<times> string option) option" where
  "rx_run ic ml [] st = Some st"
| "rx_run ic ml (CloseGroup s0 # ts) (p, s, g) =
     rx_run ic ml ts (p, s, Some (take (length s0 - length s) s0))"
| "rx_run ic ml (Match (Lit c) # ts) (p, s, g) =
     (case s of
        [] \<Rightarrow> None
      | x # xs \<Rightarrow> if lit_eq ic c x then rx_run ic ml ts (Some x, xs, g) else None)"
| "rx_run ic ml (Match (Cls k) # ts) (p, s, g) =
     (case s of
        [] \<Rightarrow> None
      | x # xs \<Rightarrow> if in_class k x then rx_run ic ml ts (Some x, xs, g) else None)"
| "rx_run ic ml (Match (Seq a b) # ts) st = rx_run ic ml (Match a # Match b # ts) st"
| "rx_run ic ml (Match (Alt a b) # ts) st =
     (case rx_run ic ml (Match a # ts) st of
        Some r \<Rightarrow> Some r
      | None \<Rightarrow> rx_run ic ml (Match b # ts) st)"
| "rx_run ic ml (Match Eps # ts) st = rx_run ic ml ts st"
| "rx_run ic ml (Match (Opt a) # ts) st =
     (case rx_run ic ml (Match a # ts) st of
        Some r \<Rightarrow> Some r
      | None \<Rightarrow> rx_run ic ml ts st)"
| "rx_run ic ml (Match (Star k) # ts) (p, s, g) =
     (case s of
        [] \<Rightarrow> rx_run ic ml ts (p, s, g)
      | x # xs \<Rightarrow>
          if in_class k x then
            (case rx_run ic ml (Match (Star k) # ts) (Some x, xs, g) of
               Some r \<Rightarrow> Some r
             | None \<Rightarrow> rx_run ic ml ts (p, s, g))
          else rx_run ic ml ts (p, s, g))"
| "rx_run ic ml (Match (Plus k) # ts) st = rx_run ic ml (Match (Cls k) # Match (Star k) # ts) st"
| "rx_run ic ml (Match (LazyStar k) # ts) (p, s, g) =
     (case rx_run ic ml ts (p, s, g) of
        Some r \<Rightarrow> Some r
      | None \<Rightarrow>
          (case s of
             [] \<Rightarrow> None
           | x # xs \<Rightarrow>
               if in_class k x then rx_run ic ml (Match (LazyStar k) # ts) (Some x, xs, g)
               else None))"
| "rx_run ic ml (Match (Group a) # ts) (p, s, g) =
     rx_run ic ml (Match a # CloseGroup s # ts) (p, s, g)"
| "rx_run ic ml (Match Eol # ts) (p, s, g) =
     (if at_eol ml s then rx_run ic ml ts (p, s, g) else None)"
| "rx_run ic ml (Match WordB # ts) (p, s, g) =
     (if word_boundary p s then rx_run ic ml ts (p, s, g) else None)"
  by pat_completeness auto

termination
  by (relation "measures [\<lambda>(ic, ml, ts, p, s, g). length s,
                          \<lambda>(ic, ml, ts, p, s, g). sum_list (map task_weight ts)]")
     auto

record re_match =
  whole :: string
  group1 :: "string option"

fun rx_search_from :: "bool \<Rightarrow> bool \<Rightarrow> rx \<Rightarrow> char option \<Rightarrow> string \<Rightarrow> re_match option" where
  \<comment> \<open>The leftmost match at or after the start of \<open>s\<close>.\<close>
  "rx_search_from ic ml r p s =
     (case rx_run ic ml [Match r] (p, s, None) of
        Some (p', s', g) \<Rightarrow> Some \<lparr>whole = take (length s - length s') s, group1 = g\<rparr>
      | None \<Rightarrow>
          (case s of
             [] \<Rightarrow> None
           | x # xs \<Rightarrow> rx_search_from ic ml r (Some x) xs))"

definition re_search :: "bool \<Rightarrow> bool \<Rightarrow> rx \<Rightarrow> string \<Rightarrow> re_match option" where
  \<comment> \<open>\<open>re.search(pattern, string, flags)\<close>\<close>
  "re_search ic ml r s = rx_search_from ic ml r None s"

definition match_text :: "re_match \<Rightarrow> string" where
  \<comment> \<open>What \<open>findall\<close> lists for a match: the group if the pattern has one, else the
     whole match.\<close>
  "match_text m = (case group1 m of Some g \<Rightarrow> g | None \<Rightarrow> whole m)"

fun rx_findall_from :: "bool \<Rightarrow> bool \<Rightarrow> rx \<Rightarrow> char option \<Rightarrow> string \<Rightarrow> nat \<Rightarrow> string list" where
  \<comment> \<open>The matches from left to right, without overlap: \<open>skip\<close> characters still
     belong to the match before.\<close>
  "rx_findall_from ic ml r p [] skip =
     (if skip = 0 then
        (case rx_run ic ml [Match r] (p, [], None) of
           Some (p', s', g) \<Rightarrow> [match_text \<lparr>whole = [], group1 = g\<rparr>]
         | None \<Rightarrow> [])
      else [])"
| "rx_findall_from ic ml r p (x # xs) skip =
     (if skip = 0 then
        (case rx_run ic ml [Match r] (p, x # xs, None) of
           Some (p', s', g) \<Rightarrow>
             match_text \<lparr>whole = take (length (x # xs) - length s') (x # xs), group1 = g\<rparr>
               # rx_findall_from ic ml r (Some x) xs (length (x # xs) - length s' - 1)
         | None \<Rightarrow> rx_findall_from ic ml r (Some x) xs 0)
      else rx_findall_from ic ml r (Some x) xs (skip - 1))"

definition re_findall :: "bool \<Rightarrow> bool \<Rightarrow> rx \<Rightarrow> string \<Rightarrow> string list" where
  \<comment> \<open>\<open>re.findall(pattern, string, flags)\<close>\<close>
  "re_findall ic ml r s = rx_findall_from ic ml r None s 0"

definition lits :: "string \<Rightarrow> rx" where
  "lits s = foldr (\<lambda>c r. Seq (Lit c) r) s Eps"

definition seqs :: "rx list \<Rightarrow> rx" where
  "seqs rs = foldr Seq rs Eps"

section \<open>The probability extractor (services/core/api\_client.py)\<close>

fun split_on :: "char \<Rightarrow> string \<Rightarrow> string list" where
  \<comment> \<open>\<open>str.split(sep)\<close> for a separator of one character.\<close>
  "split_on c [] = [[]]"
| "split_on c (x # xs) =
     (if x = c then [] # split_on c xs
      else (case split_on c xs of
              [] \<Rightarrow> [[x]]
            | h # t \<Rightarrow> (x # h) # t))"

definition strip :: "string \<Rightarrow> string" where
  \<comment> \<open>\<open>str.strip()\<close>\<close>
  "strip s = rev (dropWhile is_space (rev (dropWhile is_space s)))"

definition digit_value :: "char \<Rightarrow> nat" where
  "digit_value c = of_char c - 48"

definition digits_value :: "string \<Rightarrow> nat" where
  "digits_value s = foldl (\<lambda>a c. 10 * a + digit_value c) 0 s"

definition float_str :: "string \<Rightarrow> real" where
  \<comment> \<open>\<open>float(s)\<close> for digits, or digits, a point and digits: what the group of a
     pattern matches.\<close>
  "float_str s =
     (let ip = takeWhile (\<lambda>c. c \<noteq> CHR ''.'') s;
          fp = drop (length ip + 1) s
      in real (digits_value ip) + real (digits_value fp) / 10 ^ length fp)"

definition in_bounds :: "real \<Rightarrow> bool" where
  \<comment> \<open>\<open>0 <= value <= 100\<close>\<close>
  "in_bounds v = (0 \<le> v \<and> v \<le> 100)"

definition spaces :: rx where
  "spaces = Star CSpace"

definition spaces1 :: rx where
  "spaces1 = Plus CSpace"

definition number :: rx where
  \<comment> \<open>Digits, and optionally a point and digits.\<close>
  "number = Seq (Plus CDigit) (Opt (Seq (Lit CHR ''.'') (Plus CDigit)))"

definition gnumber :: rx where
  \<comment> \<open>The number as the capturing group.\<close>
  "gnumber = Group number"

definition pct :: rx where
  "pct = Lit CHR ''%''"

definition dquote :: rx where
  "dquote = Lit (CHR 0x22)"

definition hauptprognose_patterns :: "rx list" where
  "hauptprognose_patterns =
     [seqs [lits ''HAUPTPROGNOSE:'', spaces, gnumber, spaces, pct],
      seqs [lits ''**HAUPTPROGNOSE:'', spaces, gnumber, spaces, lits ''%**''],
      seqs [lits ''HAUPTPROGNOSE:'', spaces, lits ''**'', gnumber, spaces, lits ''%**''],
      seqs [lits ''HAUPTPROGNOSE:'', spaces, gnumber]]"

definition prognose_patterns :: "rx list" where
  "prognose_patterns =
     [seqs [lits ''PROGNOSE:'', spaces, gnumber, spaces, pct],
      seqs [lits ''**PROGNOSE:'', spaces, gnumber, spaces, lits ''%**''],
      seqs [lits ''PROGNOSE:'', spaces, lits ''**'', gnumber, spaces, lits ''%**''],
      seqs [lits ''PROGNOSE:'', spaces, gnumber]]"

definition final_prob_patterns :: "rx list" where
  "final_prob_patterns =
     [seqs [lits ''Final_Probability'', spaces, Lit CHR ''='', spaces, gnumber],
      seqs [lits ''Final_Probability'', spaces, Lit CHR ''='', LazyStar CAny, gnumber, spaces, pct],
      seqs [Lit CHR ''='', spaces, gnumber, spaces, Opt pct, Eol]]"

definition deepseek_patterns :: "rx list" where
  "deepseek_patterns =
     [seqs [lits ''Therefore'', Opt (Lit CHR '',''), spaces1, lits ''the'', spaces1, lits ''probability'',
            spaces1, lits ''is'', spaces1, gnumber, spaces, pct],
      seqs [Lit CHR ''I'', spaces1, lits ''estimate'', spaces1,
            Opt (seqs [lits ''the'', spaces1, lits ''probability'', spaces1]),
            Opt (seqs [lits ''to'', spaces1, lits ''be'', spaces1]), gnumber, spaces, pct],
      seqs [lits ''My'', spaces1, lits ''assessment:'', spaces, gnumber, spaces, pct],
      seqs [lits ''Estimated'', spaces1, lits ''probability:'', spaces, gnumber, spaces, pct]]"

definition qwen_patterns :: "rx list" where
  "qwen_patterns =
     [seqs [lits ''My'', spaces1, lits ''final'', spaces1, lits ''estimate:'', spaces, gnumber, spaces, pct],
      seqs [Lit CHR ''I'', spaces1, lits ''conclude'', spaces1, Opt (seqs [lits ''with'', spaces1]),
            Opt (seqs [Lit CHR ''a'', spaces1]), gnumber, spaces, pct],
      seqs [lits ''Overall'', spaces1, lits ''probability:'', spaces, gnumber, spaces, pct],
      seqs [lits ''Assessment:'', spaces, gnumber, spaces, pct]]"

definition json_patterns :: "rx list" where
  "json_patterns =
     [seqs [Lit CHR ''{'', dquote, lits ''probability'', dquote, Lit CHR '':'', spaces, gnumber,
            Lit CHR ''}''],
      seqs [dquote, lits ''probability'', dquote, Lit CHR '':'', spaces, Opt dquote, gnumber,
            Opt dquote, Opt pct],
      seqs [lits ''probability:'', spaces, gnumber, spaces, Opt pct]]"

definition forecast_patterns :: "string list" where
  "forecast_patterns =
     [''prognose:'', ''forecast:'', ''prediction:'', ''probability:'', ''wahrscheinlichkeit:'',
      ''final probability:'', ''ensemble probability:'', ''result:'', ''answer:'',
      ''conclusion:'', ''estimate:'', ''assessment:'']"

definition lazy_until_percentage :: "string \<Rightarrow> rx" where
  \<comment> \<open>A word, as few characters as possible, and then a percentage.\<close>
  "lazy_until_percentage word = seqs [lits word, LazyStar CAny, gnumber, spaces, pct]"

definition percentage_patterns :: "rx list" where
  "percentage_patterns =
     [seqs [gnumber, spaces, pct],
      seqs [gnumber, spaces, lits ''percent''],
      seqs [lits ''probability'', spaces,
            Opt (Alt (lits ''of'') (Alt (lits ''is'') (Lit CHR '':''))), spaces, gnumber, spaces, pct],
      seqs [gnumber, spaces, pct, spaces, lits ''probability''],
      lazy_until_percentage ''final'',
      lazy_until_percentage ''answer'',
      lazy_until_percentage ''final_probability'',
      seqs [lits ''Final_Probability'', LazyStar CAny, gnumber],
      seqs [Lit CHR ''='', spaces, gnumber, spaces, pct],
      lazy_until_percentage ''therefore'',
      lazy_until_percentage ''conclusion'',
      lazy_until_percentage ''estimate'',
      lazy_until_percentage ''assess'',
      lazy_until_percentage ''likely'',
      seqs [lits ''around'', spaces, gnumber, spaces, pct],
      seqs [lits ''approximately'', spaces, gnumber, spaces, pct],
      seqs [lits ''roughly'', spaces, gnumber, spaces, pct],
      seqs [lits ''my'', spaces1, Opt (seqs [lits ''final'', spaces1]),
            Alt (lits ''forecast'') (Alt (lits ''prediction'') (lits ''estimate'')), spaces1,
            lits ''is'', spaces1, gnumber, spaces, pct],
      seqs [Lit CHR ''i'', spaces1, Opt (seqs [lits ''would'', spaces1]),
            Alt (lits ''forecast'') (Alt (lits ''predict'') (lits ''estimate'')), spaces1,
            gnumber, spaces, pct]]"

definition formula_patterns :: "rx list" where
  "formula_patterns =
     [seqs [lits ''Final_Probability'', spaces, Lit CHR ''='', LazyStar CAny, gnumber],
      seqs [Lit CHR ''('', spaces, number, spaces, Lit (CHR 0xD7), LazyStar CAny, Lit CHR '')'', spaces,
            Lit CHR ''/'', spaces, lits ''100'', spaces, Lit CHR ''='', spaces, gnumber],
      seqs [Lit CHR ''='', spaces, gnumber, spaces, Opt pct, Eol],
      seqs [lits ''Antwort:'', spaces, gnumber, spaces, pct],
      seqs [lits ''Ergebnis:'', spaces, gnumber, spaces, pct]]"

fun first_search :: "rx list \<Rightarrow> string \<Rightarrow> real option" where
  \<comment> \<open>\<open>for pattern in patterns\<close> with \<open>re.search(pattern, content, re.IGNORECASE)\<close>:
     the value of the first pattern whose match is within the bounds.\<close>
  "first_search [] content' = None"
| "first_search (pattern # patterns) content' =
     (case re_search True False pattern content' of
        Some m \<Rightarrow>
          (let v = float_str (match_text m)
           in if in_bounds v then Some v else first_search patterns content')
      | None \<Rightarrow> first_search patterns content')"

fun last_findall :: "rx list \<Rightarrow> string \<Rightarrow> real option" where
  \<comment> \<open>\<open>for pattern in patterns\<close> with \<open>re.findall\<close> under \<open>MULTILINE\<close> and
     \<open>IGNORECASE\<close>: the last match of the first pattern whose last match is within the
     bounds.\<close>
  "last_findall [] content' = None"
| "last_findall (pattern # patterns) content' =
     (let matches = re_findall True True pattern content'
      in if matches \<noteq> [] then
           (let v = float_str (last matches)
            in if in_bounds v then Some v else last_findall patterns content')
         else last_findall patterns content')"

fun fallback_findall :: "rx list \<Rightarrow> string \<Rightarrow> real option" where
  \<comment> \<open>The loop over \<open>percentage_patterns\<close>: the last match of the first pattern that
     matches at all, \<open>return float(matches[-1])\<close>.\<close>
  "fallback_findall [] content' = None"
| "fallback_findall (pattern # patterns) content' =
     (let matches = re_findall True False pattern content'
      in if matches \<noteq> [] then Some (float_str (last matches))
         else fallback_findall patterns content')"

definition prob_text_of :: "string list \<Rightarrow> nat \<Rightarrow> string option" where
  \<comment> \<open>The text to read for line \<open>i\<close>: the line itself after its last colon, or one of
     the next two lines, whichever has a percent sign first; \<open>None\<close> is \<open>continue\<close>.\<close>
  "prob_text_of lines i =
     (let line = lines ! i
      in if is_substring ''%'' line then
           Some (if is_substring '':'' line then strip (last (split_on CHR '':'' line))
                 else strip line)
         else if i + 1 < length lines \<and> is_substring ''%'' (lines ! (i + 1)) then
           Some (strip (lines ! (i + 1)))
         else if i + 2 < length lines \<and> is_substring ''%'' (lines ! (i + 2)) then
           Some (strip (lines ! (i + 2)))
         else None)"

definition range_midpoint :: "string \<Rightarrow> real option" where
  \<comment> \<open>A range such as 40-60: the midpoint of its first two numbers.\<close>
  "range_midpoint prob_text =
     (if is_substring ''-'' prob_text then
        (let numbers = re_findall False False number prob_text
         in if length numbers \<ge> 2
            then Some ((float_str (numbers ! 0) + float_str (numbers ! 1)) / 2)
            else None)
      else None)"

definition single_value :: "string \<Rightarrow> real option" where
  "single_value prob_text =
     (case re_search False False gnumber prob_text of
        Some m \<Rightarrow>
          (let v = float_str (match_text m)
           in if 0 < v \<and> v \<le> 1 \<and> \<not> is_substring ''%'' prob_text then Some (v * 100)
              else if in_bounds v then Some v
              else None)
      | None \<Rightarrow> None)"

definition value_of_prob_text :: "string \<Rightarrow> real option" where
  \<comment> \<open>What the body of the loop over the lines returns for \<open>prob_text\<close>; \<open>None\<close> when
     it returns nothing and the loop goes on.\<close>
  "value_of_prob_text prob_text =
     (case (case re_search False False (seqs [gnumber, spaces, pct]) prob_text of
              Some m \<Rightarrow> (let v = float_str (match_text m) in if in_bounds v then Some v else None)
            | None \<Rightarrow> None) of
        Some v \<Rightarrow> Some v
      | None \<Rightarrow>
          (let prob_text' = strip (filter (\<lambda>c. c \<noteq> CHR ''%'') prob_text)
           in (case range_midpoint prob_text' of
                 Some v \<Rightarrow> Some v
               | None \<Rightarrow> single_value prob_text')))"

fun scan_lines :: "string \<Rightarrow> string list \<Rightarrow> nat list \<Rightarrow> real option" where
  \<comment> \<open>\<open>for i, line in enumerate(lines)\<close>, over the indices that are left.\<close>
  "scan_lines pattern lines [] = None"
| "scan_lines pattern lines (i # is) =
     (if is_substring pattern (lower (lines ! i)) then
        (case prob_text_of lines i of
           None \<Rightarrow> scan_lines pattern lines is
         | Some prob_text \<Rightarrow>
             (case value_of_prob_text prob_text of
                Some v \<Rightarrow> Some v
              | None \<Rightarrow> scan_lines pattern lines is))
      else scan_lines pattern lines is)"

fun scan_keywords :: "string list \<Rightarrow> string \<Rightarrow> real option" where
  \<comment> \<open>\<open>for pattern in forecast_patterns\<close>\<close>
  "scan_keywords [] content' = None"
| "scan_keywords (pattern # patterns) content' =
     (if is_substring pattern (lower content') then
        (let lines = split_on (CHR 0x0A) content'
         in (case scan_lines pattern lines [0..<length lines] of
               Some v \<Rightarrow> Some v
             | None \<Rightarrow> scan_keywords patterns content'))
      else scan_keywords patterns content')"

definition last_resort :: "string \<Rightarrow> real option" where
  \<comment> \<open>The last number within the bounds among the last 500 characters.\<close>
  "last_resort content' =
     (let end_content = drop (length content' - 500) content';
          number_matches = re_findall False False (seqs [WordB, gnumber, WordB]) end_content
      in find in_bounds (map float_str (rev number_matches)))"

definition or_else :: "'a option \<Rightarrow> 'a option \<Rightarrow> 'a option" where
  \<comment> \<open>The first rule that returns a value ends the function.\<close>
  "or_else a b = (case a of Some v \<Rightarrow> Some v | None \<Rightarrow> b)"

definition extract_probability :: "string \<Rightarrow> string \<Rightarrow> real option" where
  \<comment> \<open>\<open>_extract_probability(content, model)\<close>. None of the steps raises on a text,
     so the \<open>except\<close> branch is never taken.\<close>
  "extract_probability content' m =
     (if content' = [] then None
      else
        or_else (first_search hauptprognose_patterns content')
       (or_else (first_search prognose_patterns content')
       (or_else (last_findall final_prob_patterns content')
       (or_else (if is_substring ''deepseek'' (lower m)
                 then first_search deepseek_patterns content' else None)
       (or_else (if is_substring ''qwen'' (lower m)
                 then first_search qwen_patterns content' else None)
       (or_else (first_search json_patterns content')
       (or_else (scan_keywords forecast_patterns content')
       (or_else (fallback_findall percentage_patterns content')
       (or_else (last_findall formula_patterns content')
                (last_resort content'))))))))))"

section \<open>The client: one query (services/core/api\_client.py, cache\_manager.py)\<close>

text \<open>
  The completion service is the environment of \<open>query_model\<close>: a request is answered by
  a response, by a timeout or by another exception with its message. Of a response the
  client reads the choices (the content of the message and the log probabilities of
  each) and the usage.
\<close>

record api_request =
  req_model :: string
  req_prompt :: string
  req_temperature :: real
  req_max_tokens :: int
  req_web_search :: bool

record api_choice =
  message_content :: "string option"
  logprobs :: "string option"

record api_response =
  choices :: "api_choice list"
  response_usage :: "TokenUsage option"

datatype api_outcome = Response api_response | TimeoutError | OtherException string

record cache_row =
  row_response :: reply
  row_probability :: "real option"
  row_timestamp :: string
  row_created_at :: real
  row_expires_at :: real

text \<open>
  The table of the cache, by cache key. The key is the digest of the model, a colon and
  the prompt; the model takes that text itself as the key. Times are seconds of one
  clock.
\<close>

record OpenRouterClient =
  use_cache :: bool
  cache :: "string \<Rightarrow> cache_row option"
  ttl :: real
  client_timeout :: real

record call_clock =
  start_time :: real
  start_time_iso :: string
  elapsed :: real

definition generate_cache_key :: "string \<Rightarrow> string \<Rightarrow> string" where
  "generate_cache_key m prompt = m @ '':'' @ prompt"

definition cache_get :: "OpenRouterClient \<Rightarrow> real \<Rightarrow> string \<Rightarrow> string \<Rightarrow> reply option" where
  \<comment> \<open>\<open>CacheManager.get\<close>: the stored response of a row that has not expired, with
     the probability and the timestamp of the row. The keys \<open>from_cache\<close> and
     \<open>cache_created\<close> that it adds are not fields of the model.\<close>
  "cache_get self now m prompt =
     (case cache self (generate_cache_key m prompt) of
        None \<Rightarrow> None
      | Some row \<Rightarrow>
          if row_expires_at row > now
          then Some ((row_response row)\<lparr>r_probability := row_probability row,
                                        r_timestamp := row_timestamp row\<rparr>)
          else None)"

definition cache_set :: "OpenRouterClient \<Rightarrow> real \<Rightarrow> string \<Rightarrow> string \<Rightarrow> reply \<Rightarrow> OpenRouterClient" where
  \<comment> \<open>\<open>CacheManager.set\<close>: insert or replace the row of the key.\<close>
  "cache_set self now m prompt response =
     self\<lparr>cache := (cache self)(generate_cache_key m prompt \<mapsto>
              \<lparr>row_response = response, row_probability = r_probability response,
               row_timestamp = r_timestamp response, row_created_at = now,
               row_expires_at = now + ttl self\<rparr>)\<rparr>"

definition adjust_max_tokens :: "string \<Rightarrow> int \<Rightarrow> int" where
  \<comment> \<open>The floors of \<open>max_tokens\<close> by model.\<close>
  "adjust_max_tokens m max_tokens =
     (let ml = lower m
      in if is_substring ''gemini'' ml \<or> is_substring ''gemma'' ml then max max_tokens 8000
         else if is_substring ''gpt-5'' ml then max max_tokens 4000
         else if is_substring ''qwen'' ml \<or> is_substring ''qwq'' ml then
           (if is_substring ''qwen-2.5-72b'' ml then max max_tokens 10000
            else if is_substring ''qwen-2.5-coder'' ml then max max_tokens 8000
            else max max_tokens 8000)
         else if is_substring ''deepseek'' ml then max max_tokens 8000
         else if is_substring ''grok'' ml then max max_tokens 8000
         else if is_substring ''llama'' ml then
           (if is_substring ''llama-4-maverick'' ml then max max_tokens 8000
            else max max_tokens 6000)
         else if is_substring '':free'' ml then max max_tokens 6000
         else max_tokens)"

definition rejection_patterns :: "string list" where
  "rejection_patterns =
     [''cannot ignore my safety instructions'', ''must decline this request'',
      ''attempt to override'', ''cannot comply with'', ''against my programming'',
      ''violates my guidelines'']"

definition classify_exception :: "string \<Rightarrow> reply_status" where
  \<comment> \<open>The status for the message of an exception.\<close>
  "classify_exception error_str =
     (if is_substring ''429'' error_str \<or> is_substring ''rate'' (lower error_str)
         \<or> is_substring ''too many requests'' (lower error_str) then RateLimited
      else if is_substring ''404'' error_str \<or> is_substring ''not found'' (lower error_str)
        then NotFound
      else if is_substring ''400'' error_str \<or> is_substring ''invalid'' (lower error_str)
        then InvalidModel
      else Error)"

definition bare_reply :: "string \<Rightarrow> string \<Rightarrow> reply" where
  \<comment> \<open>A reply with the model and the timestamp, every other key absent.\<close>
  "bare_reply m ts =
     \<lparr>r_model = m, r_iteration = None, r_timestamp = ts, r_response_time = None,
      r_content = None, r_probability = None, r_error = None, r_status = Error,
      r_response_source = None, r_usage = None, r_log_probabilities = None,
      r_ensemble_id = None, r_question = None, r_definition = None, r_timeframe = None\<rparr>"

definition validated :: "real option \<Rightarrow> real option" where
  \<comment> \<open>The final validation of \<open>query_model\<close>: a probability below 0 or above 100
     becomes \<open>None\<close>.\<close>
  "validated prob =
     (case prob of
        None \<Rightarrow> None
      | Some p \<Rightarrow> if p < 0 \<or> p > 100 then None else Some p)"

definition usage_of :: "api_response \<Rightarrow> TokenUsage" where
  "usage_of response =
     (case response_usage response of
        Some u \<Rightarrow> u
      | None \<Rightarrow> \<lparr>prompt_tokens = 0, completion_tokens = 0, total_tokens = 0\<rparr>)"

definition query_model ::
  "OpenRouterClient \<Rightarrow> (api_request \<Rightarrow> api_outcome) \<Rightarrow> call_clock \<Rightarrow> string \<Rightarrow> string \<Rightarrow> real
     \<Rightarrow> int \<Rightarrow> bool \<Rightarrow> bool \<Rightarrow> reply \<times> OpenRouterClient" where
  \<comment> \<open>\<open>query_model(model, prompt, temperature, max_tokens, enable_web_search,
     force_refresh)\<close> against the service \<open>api\<close> at the time \<open>clock\<close>: the reply and the
     client with its cache afterwards.\<close>
  "query_model self api clock m prompt temp max_tokens enable_web_search force_refresh =
     (case (if use_cache self \<and> \<not> force_refresh then cache_get self (start_time clock) m prompt
            else None) of
        Some cached_response \<Rightarrow> (cached_response\<lparr>r_response_source := Some ''cache''\<rparr>, self)
      | None \<Rightarrow>
          (case api \<lparr>req_model = m, req_prompt = prompt, req_temperature = temp,
                     req_max_tokens = adjust_max_tokens m max_tokens,
                     req_web_search = enable_web_search\<rparr> of
             TimeoutError \<Rightarrow>
               ((bare_reply m (start_time_iso clock))
                  \<lparr>r_response_time := Some (client_timeout self),
                   r_error := Some ''Request timeout'', r_status := Timeout\<rparr>, self)
           | OtherException error_str \<Rightarrow>
               ((bare_reply m (start_time_iso clock))
                  \<lparr>r_response_time := Some (elapsed clock), r_error := Some error_str,
                   r_status := classify_exception error_str\<rparr>, self)
           | Response response \<Rightarrow>
               (let content' = (case choices response of
                                  [] \<Rightarrow> Some []
                                | choice # others \<Rightarrow> message_content choice);
                    content_lower = (case content' of None \<Rightarrow> [] | Some c \<Rightarrow> lower c);
                    is_rejected = list_ex (\<lambda>pattern. is_substring pattern content_lower)
                                    rejection_patterns
                in
                  (case content' of
                     None \<Rightarrow>
                       ((bare_reply m (start_time_iso clock))
                          \<lparr>r_response_time := Some (elapsed clock), r_content := None,
                           r_error := Some ''Empty or insufficient response'',
                           r_status := EmptyResponse, r_response_source := Some ''api''\<rparr>, self)
                   | Some c \<Rightarrow>
                       if c = [] \<or> length c < 10 then
                         ((bare_reply m (start_time_iso clock))
                            \<lparr>r_response_time := Some (elapsed clock), r_content := Some c,
                             r_error := Some ''Empty or insufficient response'',
                             r_status := EmptyResponse, r_response_source := Some ''api''\<rparr>, self)
                       else
                         (let probability' = validated (extract_probability c m);
                              log_probs = (case choices response of
                                             [] \<Rightarrow> None
                                           | choice # others \<Rightarrow> logprobs choice);
                              result = (bare_reply m (start_time_iso clock))
                                \<lparr>r_response_time := Some (elapsed clock), r_content := Some c,
                                 r_probability := probability',
                                 r_log_probabilities := log_probs,
                                 r_usage := Some (usage_of response),
                                 r_status := (if is_rejected then Rejected else Success),
                                 r_response_source := Some ''api''\<rparr>
                          in (result,
                              if use_cache self \<and> r_status result = Success
                              then cache_set self (start_time clock + elapsed clock) m prompt result
                              else self))))))"

definition reply_ok :: "reply \<Rightarrow> bool" where
  \<comment> \<open>The invariant of a reply: a success has a text that is not empty, and a
     probability, if there is one, lies between 0 and 100.\<close>
  "reply_ok r =
     ((r_status r = Success \<longrightarrow> (case r_content r of None \<Rightarrow> False | Some c \<Rightarrow> c \<noteq> []))
      \<and> (case r_probability r of None \<Rightarrow> True | Some p \<Rightarrow> 0 \<le> p \<and> p \<le> 100))"

definition cache_ok :: "OpenRouterClient \<Rightarrow> bool" where
  \<comment> \<open>Every row of the cache holds a reply that keeps the invariant when it is read
     back with the probability of the row.\<close>
  "cache_ok self =
     (\<forall>key row. cache self key = Some row \<longrightarrow>
        reply_ok ((row_response row)\<lparr>r_probability := row_probability row\<rparr>))"

definition example_client :: OpenRouterClient where
  \<comment> \<open>A client with an empty cache and a time to live of seven days.\<close>
  "example_client =
     \<lparr>use_cache = True, cache = (\<lambda>key. None), ttl = 604800, client_timeout = 120\<rparr>"

definition example_api :: "api_request \<Rightarrow> api_outcome" where
  \<comment> \<open>A service whose answer reads as a probability of 150 percent.\<close>
  "example_api request =
     Response \<lparr>choices = [\<lparr>message_content = Some ''My answer is 150%'', logprobs = None\<rparr>],
               response_usage = None\<rparr>"

definition example_clock :: call_clock where
  "example_clock =
     \<lparr>start_time = 0, start_time_iso = ''2026-01-01T00:00:00'', elapsed = 2\<rparr>"

section \<open>Properties of ConsistencyScorer\<close>











lemma np_histogram10_uniform: "np_histogram10 [2, 15, 25, 35, 45, 55, 65, 75, 85, 95] = [1,1,1,1,1,1,1,1,1,1]"
  by (simp add: np_histogram10_def upt_rec)

lemma scipy_entropy_uniform: "scipy_entropy (replicate 10 c) = ln 10" if "c > 0" for c :: real
proof -
  have "sum_list (replicate 10 c) = 10 * c" by (simp add: eval_nat_numeral)
  then have "map (\<lambda>x. x / sum_list (replicate 10 c)) (replicate 10 c) = replicate 10 (1 / 10)"
    using that by simp
  then have "scipy_entropy (replicate 10 c) = - sum_list (map (\<lambda>x. x * ln x) (replicate 10 (1 / 10 :: real)))"
    by (simp add: scipy_entropy_def Let_def)
  also have "\<dots> = - ln (1 / 10 :: real)" by (simp add: eval_nat_numeral)
  also have "\<dots> = ln 10" by (simp add: ln_div)
  finally show ?thesis .
qed

lemma calculate_consistency_uniform: "calculate_consistency ''indirect'' [2, 15, 25, 35, 45, 55, 65, 75, 85, 95] = Some 0"
proof -
  have e: "map (\<lambda>p. p + 1 / 10 ^ 10) (map (\<lambda>h. real h / real (sum_list [1,1,1,1,1,1,1,1,1,1::nat])) [1,1,1,1,1,1,1,1,1,1::nat])
      = replicate 10 (1 / 10 + 1 / 10 ^ 10 :: real)"
    by (simp add: eval_nat_numeral)
  have l: "ln (10 :: real) > 0" by simp
  show ?thesis
    unfolding calculate_consistency_def np_histogram10_uniform Let_def e
    using l by (simp add: scipy_entropy_uniform np_clip_def)
qed

text \<open>
  Claim C9, as stated: whenever the squared-consistency weights sum to zero, the
  helper returns the unweighted mean of all individual samples. It fails for the
  spec's own example, a mapping whose sources are all empty: the weights sum to zero,
  there is no sample to average, and the helper returns the constant 50.
\<close>

theorem calculate_weighted_aggregate_all_empty_counterexample:
  "final_total_weight ''ensemble'' [(''A'', [])] = Some 0 \<and>
   np_mean_nan (all_preds [(''A'', [])]) = None \<and>
   calculate_weighted_aggregate ''ensemble'' [(''A'', [])] = 50 \<and>
   Some (calculate_weighted_aggregate ''ensemble'' [(''A'', [])])
     \<noteq> np_mean_nan (all_preds [(''A'', [])])"
  by (simp add: final_total_weight_def calculate_weighted_aggregate_def all_preds_def np_mean_nan_def)

text \<open>
  Claim C9, amended: whenever the squared-consistency weights sum to zero, the helper
  returns the unweighted mean of all individual samples across all sources if there
  is at least one sample, and the constant 50 if there is none.
\<close>

theorem calculate_weighted_aggregate_zero_weight:
  "final_total_weight method model_predictions = Some 0 \<Longrightarrow>
   calculate_weighted_aggregate method model_predictions =
     (if all_preds model_predictions = [] then 50 else np_mean (all_preds model_predictions))"
  by (auto simp: final_total_weight_def calculate_weighted_aggregate_def split: option.splits)


theorem calculate_weighted_aggregate_zero_weight_witness:
  "final_total_weight ''indirect'' [(''A'', [2, 15, 25, 35, 45, 55, 65, 75, 85, 95])] = Some 0 \<and>
   calculate_weighted_aggregate ''indirect'' [(''A'', [2, 15, 25, 35, 45, 55, 65, 75, 85, 95])] = 497 / 10"
proof -
  have h: "final_total_weight ''indirect'' [(''A'', [2, 15, 25, 35, 45, 55, 65, 75, 85, 95])] = Some 0"
    by (simp add: final_total_weight_def calculate_consistency_uniform)
  show ?thesis
    using h calculate_weighted_aggregate_zero_weight [OF h]
    by (simp add: all_preds_def np_mean_def)
qed

section \<open>Properties of BayesianAggregator\<close>


lemma weighted_sum_bounds:
  "length ps = length ws \<Longrightarrow> \<forall>w\<in>set ws. 0 \<le> w \<Longrightarrow> \<forall>p\<in>set ps. lo \<le> p \<and> p \<le> hi \<Longrightarrow>
   lo * sum_list ws \<le> sum_list (map2 (*) ps ws) \<and> sum_list (map2 (*) ps ws) \<le> hi * sum_list (ws :: real list)"
proof (induction ps ws rule: list_induct2)
  case Nil
  then show ?case by simp
next
  case (Cons p ps w ws)
  then have ih: "lo * sum_list ws \<le> sum_list (map2 (*) ps ws)" "sum_list (map2 (*) ps ws) \<le> hi * sum_list ws"
    by auto
  have "lo * w \<le> p * w" "p * w \<le> hi * w"
    using Cons.prems by (auto intro: mult_right_mono)
  then show ?case using ih by (simp add: algebra_simps)
qed

lemma sum_list_nonneg_pos: "\<forall>w\<in>set ws. 0 < (w::real) \<Longrightarrow> ws \<noteq> [] \<Longrightarrow> 0 < sum_list ws"
proof (induction ws)
  case Nil
  then show ?case by simp
next
  case (Cons a ws)
  have "0 \<le> sum_list ws" using Cons.prems(1) by (auto intro!: sum_list_nonneg simp: less_imp_le)
  moreover have "0 < a" using Cons.prems(1) by simp
  ultimately show ?case by simp
qed


lemma historical_weighting_pos:
  "hist_ok hist \<Longrightarrow> i + length ids \<le> length ws \<Longrightarrow> \<forall>w\<in>set ws. 0 < w \<Longrightarrow>
   \<exists>ws'. historical_weighting hist i ids ws = Inr ws' \<and> length ws' = length ws \<and> (\<forall>w\<in>set ws'. 0 < w)"
proof (induction ids arbitrary: i ws)
  case Nil
  then show ?case by simp
next
  case (Cons a ids)
  show ?case
  proof (cases "hist a")
    case None
    then show ?thesis using Cons.IH [of "Suc i" ws] Cons.prems by simp
  next
    case (Some perf)
    then have ok: "0 \<le> avg_error perf" using Cons.prems(1) by (auto simp: hist_ok_def ran_def)
    let ?ws = "ws[i := ws ! i * (1 / (1 + avg_error perf))]"
    have i: "i < length ws" using Cons.prems(2) by simp
    have "0 < ws ! i * (1 / (1 + avg_error perf))"
      using ok Cons.prems(3) i by (simp add: add_nonneg_pos)
    then have pos: "\<forall>w\<in>set ?ws. 0 < w"
      using Cons.prems(3) by (metis insertE set_update_subset_insert subsetD)
    have "Suc i + length ids \<le> length ?ws" using Cons.prems(2) by simp
    from Cons.IH [OF Cons.prems(1) this pos] show ?thesis using Some i by simp
  qed
qed

lemma np_average_pos:
  "length ps = length ws \<Longrightarrow> ws \<noteq> [] \<Longrightarrow> \<forall>w\<in>set ws. 0 < w \<Longrightarrow>
   \<exists>m. np_average ps ws = Inr m"
  using sum_list_nonneg_pos [of ws] by (auto simp: np_average_def)

lemma consensus_reweighting_pos:
  "length ps = length ws \<Longrightarrow> ws \<noteq> [] \<Longrightarrow> \<forall>w\<in>set ws. 0 < w \<Longrightarrow>
   \<exists>ws'. consensus_reweighting k ps ws = Inr ws' \<and> length ws' = length ws \<and> (\<forall>w\<in>set ws'. 0 < w)"
proof (induction k arbitrary: ws)
  case 0
  then show ?case by simp
next
  case (Suc k)
  obtain m where m: "np_average ps ws = Inr m" using np_average_pos Suc.prems by blast
  let ?ws = "map2 (*) ws (map (\<lambda>d. 1 / (1 + d * 5)) (map (\<lambda>p. \<bar>p - m\<bar>) ps))"
  have len: "length ?ws = length ws" using Suc.prems(1) by simp
  have pos: "\<forall>w\<in>set ?ws. 0 < w"
  proof
    fix w assume "w \<in> set ?ws"
    then obtain a b where ab: "(a, b) \<in> set (zip ws (map (\<lambda>d. 1 / (1 + d * 5)) (map (\<lambda>p. \<bar>p - m\<bar>) ps)))" "w = a * b"
      by auto
    then have "a \<in> set ws" "b \<in> set (map (\<lambda>d. 1 / (1 + d * 5)) (map (\<lambda>p. \<bar>p - m\<bar>) ps))"
      by (auto dest: set_zip_leftD set_zip_rightD)
    then have "0 < a" "0 < b" using Suc.prems(3) by (auto intro!: add_pos_nonneg)
    then show "0 < w" using ab by simp
  qed
  have ne: "?ws \<noteq> []" using len Suc.prems(2) by auto
  have "length ps = length ?ws" using len Suc.prems(1) by simp
  from Suc.IH [OF this ne pos] show ?case using m len by (simp add: Let_def)
qed

lemma penalized_weights_pos:
  "length cs = length ps \<Longrightarrow> length msk = length ps \<Longrightarrow> \<forall>c\<in>set cs. 0 < c \<Longrightarrow>
   \<exists>ws. penalized_weights ps cs msk = Inr ws \<and> length ws = length ps \<and> (\<forall>w\<in>set ws. 0 < w)"
  by (auto simp: penalized_weights_def confidence_weights_def outlier_penalty_def
      dest!: set_zip_leftD)

lemma detect_outliers_length: "length (detect_outliers self ps) = length ps"
  by (simp add: detect_outliers_def Let_def)

lemma normalize_weights_pos:
  "ws \<noteq> [] \<Longrightarrow> \<forall>w\<in>set ws. 0 < w \<Longrightarrow>
   \<exists>ws'. normalize_weights ws = Inr ws' \<and> length ws' = length ws \<and> (\<forall>w\<in>set ws'. 0 < w)
     \<and> sum_list ws' = 1"
proof -
  assume ne: "ws \<noteq> []" and pos: "\<forall>w\<in>set ws. 0 < w"
  have s: "0 < sum_list ws" using sum_list_nonneg_pos [OF pos ne] .
  have "sum_list (map (\<lambda>w. w * (1 / sum_list ws)) ws) = sum_list ws * (1 / sum_list ws)"
    using sum_list_mult_const [of "\<lambda>w. w" "1 / sum_list ws" ws] by simp
  then have "sum_list (map (\<lambda>w. w / sum_list ws) ws) = sum_list ws / sum_list ws"
    by simp
  then show ?thesis using s pos by (auto simp: normalize_weights_def)
qed

lemma calculate_expert_weights_total:
  assumes "ps \<noteq> []" "length cs = length ps" "\<forall>c\<in>set cs. 0 < c" "length ids \<le> length ps"
    "hist_ok (historical_performance self)"
  shows "\<exists>ws. calculate_expert_weights self ps ids cs (detect_outliers self ps) = Inr ws
     \<and> length ws = length ps \<and> (\<forall>w\<in>set ws. 0 < w) \<and> sum_list ws = 1"
proof -
  obtain w1 where w1: "penalized_weights ps cs (detect_outliers self ps) = Inr w1"
    "length w1 = length ps" "\<forall>w\<in>set w1. 0 < w"
    using penalized_weights_pos [OF assms(2) detect_outliers_length assms(3)] by blast
  have "0 + length ids \<le> length w1" using assms(4) w1(2) by simp
  from historical_weighting_pos [OF assms(5) this w1(3)]
  obtain w2 where w2: "historical_weighting (historical_performance self) 0 ids w1 = Inr w2"
    "length w2 = length w1" "\<forall>w\<in>set w2. 0 < w" by blast
  have ne2: "w2 \<noteq> []" using w2(2) w1(2) assms(1) by auto
  have "length ps = length w2" using w2(2) w1(2) by simp
  from consensus_reweighting_pos [OF this ne2 w2(3)]
  obtain w3 where w3: "consensus_reweighting 3 ps w2 = Inr w3"
    "length w3 = length w2" "\<forall>w\<in>set w3. 0 < w" by blast
  have ne3: "w3 \<noteq> []" using w3(2) ne2 by auto
  from normalize_weights_pos [OF ne3 w3(3)]
  obtain w4 where w4: "normalize_weights w3 = Inr w4" "length w4 = length w3"
    "\<forall>w\<in>set w4. 0 < w" "sum_list w4 = 1" by blast
  show ?thesis
    using w1 w2 w3 w4 by (simp add: calculate_expert_weights_def)
qed

lemma sum_list_map2_scale:
  "length ps = length ws \<Longrightarrow>
   sum_list (map2 (\<lambda>p w. p * w * c) ps ws) = c * sum_list (map2 (*) ps (ws :: real list))"
  by (induction ps ws rule: list_induct2) (simp_all add: algebra_simps)

lemma sum_list_map2_compl:
  "length ps = length ws \<Longrightarrow>
   sum_list (map2 (\<lambda>p w. (1 - p) * w * c) ps ws)
     = c * (sum_list ws - sum_list (map2 (*) ps (ws :: real list)))"
  by (induction ps ws rule: list_induct2) (simp_all add: algebra_simps)

lemma bayesian_pool_mean:
  assumes "length ps = length ws" "sum_list ws = 1" "\<forall>w\<in>set ws. 0 \<le> w"
    "\<forall>p\<in>set ps. 0 \<le> p \<and> p \<le> 1" "0 < prior_strength self"
  shows "\<exists>r. bayesian_pool self ppf ps ws = Inr r \<and>
     pool_mean r = (prior_strength self + 10 * sum_list (map2 (*) ps ws)) / (2 * prior_strength self + 10)"
proof -
  let ?m = "sum_list (map2 (*) ps ws)"
  have b: "0 \<le> ?m" "?m \<le> 1"
    using weighted_sum_bounds [OF assms(1) assms(3) assms(4)] assms(2) by auto
  have a: "sum_list (map2 (\<lambda>p w. p * w * 10) ps ws) = 10 * ?m"
    by (rule sum_list_map2_scale [OF assms(1)])
  have c: "sum_list (map2 (\<lambda>p w. (1 - p) * w * 10) ps ws) = 10 * (1 - ?m)"
    using sum_list_map2_compl [OF assms(1), of 10] assms(2) by simp
  have "0 < prior_strength self + 10 * ?m" "0 < prior_strength self + 10 * (1 - ?m)"
    using b assms(5) by auto
  then show ?thesis
    unfolding bayesian_pool_def Let_def a c by (simp add: algebra_simps)
qed

lemma calculate_uncertainty_total:
  assumes "length ps = length ws" "sum_list ws = 1" "\<forall>w\<in>set ws. 0 < w"
  shows "\<exists>u. calculate_uncertainty ps ws = Inr u"
proof -
  have "\<not> (\<exists>w\<in>set ws. w + 1 / 10 ^ 10 \<le> 0)"
    using assms(3) by (auto simp: not_le intro: add_pos_pos)
  then show ?thesis
    using assms(2) by (simp add: calculate_uncertainty_def np_average_def Let_def)
qed



lemma convex_toward_half:
  fixes m ps lo hi :: real
  assumes "0 < ps" "lo \<le> 100 * m" "100 * m \<le> hi"
  shows "min 50 lo \<le> (ps + 10 * m) / (2 * ps + 10) * 100"
    and "(ps + 10 * m) / (2 * ps + 10) * 100 \<le> max 50 hi"
proof -
  have d: "0 < 2 * ps + 10" using assms(1) by simp
  have e: "(ps + 10 * m) / (2 * ps + 10) * 100 = (2 * ps * 50 + 10 * (100 * m)) / (2 * ps + 10)"
    by (simp add: field_simps)
  have "min 50 lo * (2 * ps + 10) \<le> 2 * ps * 50 + 10 * (100 * m)"
  proof -
    have "2 * ps * min 50 lo \<le> 2 * ps * 50" using assms(1) by (intro mult_left_mono) auto
    moreover have "10 * min 50 lo \<le> 10 * (100 * m)" using assms(2) by simp
    ultimately show ?thesis by (simp add: algebra_simps)
  qed
  then show "min 50 lo \<le> (ps + 10 * m) / (2 * ps + 10) * 100"
    unfolding e using d by (simp add: pos_le_divide_eq)
  have "2 * ps * 50 + 10 * (100 * m) \<le> max 50 hi * (2 * ps + 10)"
  proof -
    have "2 * ps * 50 \<le> 2 * ps * max 50 hi" using assms(1) by (intro mult_left_mono) auto
    moreover have "10 * (100 * m) \<le> 10 * max 50 hi" using assms(3) by simp
    ultimately show ?thesis by (simp add: algebra_simps)
  qed
  then show "(ps + 10 * m) / (2 * ps + 10) * 100 \<le> max 50 hi"
    unfolding e using d by (simp add: pos_divide_le_eq)
qed

lemma aggregate_forecasts_result:
  assumes ne: "forecasts \<noteq> []"
    and range: "\<forall>f\<in>set forecasts. 0 \<le> f \<and> f \<le> 100"
    and prior: "0 < prior_strength self"
    and hist: "hist_ok (historical_performance self)"
    and ids: "ids_ok forecasts ids_opt"
    and confs: "confidences_ok forecasts cs_opt"
  shows "\<exists>self' v lo up u ew n var.
      aggregate_forecasts self ppf forecasts ids_opt cs_opt =
        (Inr [(''aggregated_probability'', PFloat v),
              (''confidence_interval'', PList [PFloat lo, PFloat up]),
              (''uncertainty'', PFloat u),
              (''expert_weights'', PDict ew),
              (''outliers_detected'', PInt n),
              (''method'', PStr ''robust_bayesian''),
              (''posterior_variance'', PFloat var)], self') \<and>
      min 50 (Min (set forecasts)) \<le> v \<and> v \<le> max 50 (Max (set forecasts))"
proof -
  let ?probs = "map (\<lambda>f. f / 100) forecasts"
  let ?ids = "case ids_opt of None \<Rightarrow> map (\<lambda>i. ''expert_'' @ str_nat i) [0..<length forecasts]
              | Some ids \<Rightarrow> ids"
  let ?cs = "case cs_opt of None \<Rightarrow> replicate (length forecasts) 1 | Some cs \<Rightarrow> cs"
  have pne: "?probs \<noteq> []" using ne by simp
  have clen: "length ?cs = length ?probs"
    using confs by (auto simp: confidences_ok_def split: option.splits)
  have cpos: "\<forall>c\<in>set ?cs. 0 < c"
    using confs by (auto simp: confidences_ok_def split: option.splits)
  have ilen: "length ?ids \<le> length ?probs"
    using ids by (auto simp: ids_ok_def split: option.splits)
  obtain ws where ws: "calculate_expert_weights self ?probs ?ids ?cs (detect_outliers self ?probs) = Inr ws"
    "length ws = length ?probs" "\<forall>w\<in>set ws. 0 < w" "sum_list ws = 1"
    using calculate_expert_weights_total [OF pne clen cpos ilen hist] by blast
  have wnn: "\<forall>w\<in>set ws. 0 \<le> w" using ws(3) by (auto simp: less_imp_le)
  have prange: "\<forall>p\<in>set ?probs. 0 \<le> p \<and> p \<le> 1" using range by auto
  have plen: "length ?probs = length ws" using ws(2) by simp
  let ?m = "sum_list (map2 (*) ?probs ws)"
  obtain r where r: "bayesian_pool self ppf ?probs ws = Inr r"
    "pool_mean r = (prior_strength self + 10 * ?m) / (2 * prior_strength self + 10)"
    using bayesian_pool_mean [OF plen ws(4) wnn prange prior] by blast
  obtain u where u: "calculate_uncertainty ?probs ws = Inr u"
    using calculate_uncertainty_total [OF plen ws(4) ws(3)] by blast
  have fin: "finite (set forecasts)" "set forecasts \<noteq> {}" using ne by auto
  have pb: "\<forall>p\<in>set ?probs. Min (set forecasts) / 100 \<le> p \<and> p \<le> Max (set forecasts) / 100"
    using fin by (auto simp: divide_right_mono)
  have mb: "Min (set forecasts) / 100 * 1 \<le> ?m" "?m \<le> Max (set forecasts) / 100 * 1"
    using weighted_sum_bounds [OF plen wnn pb] ws(4) by auto
  then have mb': "Min (set forecasts) \<le> 100 * ?m" "100 * ?m \<le> Max (set forecasts)" by auto
  have "min 50 (Min (set forecasts)) \<le> pool_mean r * 100" "pool_mean r * 100 \<le> max 50 (Max (set forecasts))"
    unfolding r(2) using convex_toward_half [OF prior mb'] by auto
  then show ?thesis
    using ne ws(1) r(1) u by (simp add: aggregate_forecasts_def Let_def)
qed

text \<open>
  Claim C1, amended: for a non-empty list of forecasts in \<open>[0, 100]\<close> the call returns
  a dictionary whose \<open>aggregated_probability\<close> lies between the smallest forecast and
  the largest one, each taken together with 50, the mean of the Beta prior.
\<close>

theorem aggregate_forecasts_mean_bounds:
  assumes "forecasts \<noteq> []"
    and "\<forall>f\<in>set forecasts. 0 \<le> f \<and> f \<le> 100"
    and "0 < prior_strength self"
    and "hist_ok (historical_performance self)"
    and "ids_ok forecasts ids_opt"
    and "confidences_ok forecasts cs_opt"
  shows "\<exists>d self' v. aggregate_forecasts self ppf forecasts ids_opt cs_opt = (Inr d, self') \<and>
      map_of d ''aggregated_probability'' = Some (PFloat v) \<and>
      min 50 (Min (set forecasts)) \<le> v \<and> v \<le> max 50 (Max (set forecasts))"
proof -
  obtain self' v lo up u ew n var where r:
    "aggregate_forecasts self ppf forecasts ids_opt cs_opt =
        (Inr [(''aggregated_probability'', PFloat v),
              (''confidence_interval'', PList [PFloat lo, PFloat up]),
              (''uncertainty'', PFloat u),
              (''expert_weights'', PDict ew),
              (''outliers_detected'', PInt n),
              (''method'', PStr ''robust_bayesian''),
              (''posterior_variance'', PFloat var)], self')"
    "min 50 (Min (set forecasts)) \<le> v" "v \<le> max 50 (Max (set forecasts))"
    using aggregate_forecasts_result [OF assms] by blast
  show ?thesis unfolding r(1) using r(2,3) by simp
qed

lemma np_mean_nonneg: "\<forall>e\<in>set es. 0 \<le> e \<Longrightarrow> 0 \<le> np_mean es"
  by (simp add: np_mean_def sum_list_nonneg)

lemma update_one_expert_ok:
  "hist_ok hist \<Longrightarrow> hist_ok (update_one_expert consensus (expert_id, pred) hist)"
proof -
  assume h: "hist_ok hist"
  have step: "hist_ok (hist(expert_id \<mapsto>
      \<lparr>predictions = ps, errors = es @ [\<bar>pred - consensus\<bar>],
       avg_error = np_mean (drop (length (es @ [\<bar>pred - consensus\<bar>]) - 20) (es @ [\<bar>pred - consensus\<bar>]))\<rparr>))"
    if e: "\<forall>e\<in>set es. 0 \<le> e" for ps es
  proof -
    let ?es = "es @ [\<bar>pred - consensus\<bar>]"
    have es: "\<forall>e\<in>set ?es. 0 \<le> e" using e by auto
    then have "\<forall>e\<in>set (drop (length ?es - 20) ?es). 0 \<le> e"
      by (meson in_set_dropD)
    then have "0 \<le> np_mean (drop (length ?es - 20) ?es)" by (rule np_mean_nonneg)
    then show ?thesis
      using h es unfolding hist_ok_def by (auto simp: ran_def split: if_splits)
  qed
  show ?thesis
  proof (cases "hist expert_id")
    case None
    then show ?thesis using step [of "[]" "[pred]"] by (simp add: update_one_expert_def)
  next
    case (Some perf)
    then have "\<forall>e\<in>set (errors perf). 0 \<le> e" using h by (auto simp: hist_ok_def ran_def)
    from step [OF this] show ?thesis using Some by (simp add: update_one_expert_def Let_def)
  qed
qed

lemma update_expert_performance_ok:
  "hist_ok hist \<Longrightarrow> hist_ok (update_expert_performance hist ids preds consensus)"
proof -
  have "hist_ok hist \<Longrightarrow> hist_ok (fold (update_one_expert consensus) xs hist)" for xs
    by (induction xs arbitrary: hist) (auto simp: update_one_expert_ok)
  then show "hist_ok hist \<Longrightarrow> ?thesis" by (simp add: update_expert_performance_def)
qed

lemma aggregate_forecasts_hist_ok:
  "hist_ok (historical_performance self) \<Longrightarrow>
   hist_ok (historical_performance (snd (aggregate_forecasts self ppf forecasts ids_opt cs_opt)))"
  by (auto simp: aggregate_forecasts_def Let_def update_expert_performance_ok split: sum.splits)

lemma hist_ok_default: "hist_ok (historical_performance BayesianAggregator_default)"
  by (simp add: hist_ok_def BayesianAggregator_default_def BayesianAggregator_init_def)

text \<open>
  Claim C1, as stated: the posterior mean lies between the smallest and the largest
  forecast. It fails for the single forecast 90: the Beta(1, 1) prior pulls the mean
  to \<open>(1 + 9) / (2 + 10)\<close>, and the call returns 83.33, below the only forecast.
\<close>

theorem aggregate_forecasts_mean_below_min_counterexample: "\<not> isl (fst (aggregate_forecasts BayesianAggregator_default (\<lambda>q a b. q) [90] None None)) \<and>
  dict_get (projr (fst (aggregate_forecasts BayesianAggregator_default (\<lambda>q a b. q) [90] None None)))
     ''aggregated_probability'' PNone = PFloat (250 / 3) \<and>
  (250 / 3 :: real) < Min (set [90])"
  by (simp add: aggregate_forecasts_def BayesianAggregator_default_def BayesianAggregator_init_def
      detect_outliers_def calculate_expert_weights_def penalized_weights_def confidence_weights_def
      outlier_penalty_def np_average_def normalize_weights_def bayesian_pool_def
      calculate_uncertainty_def dict_get_def eval_nat_numeral)

theorem aggregate_forecasts_mean_bounds_witness:
  "\<exists>d self' v. aggregate_forecasts BayesianAggregator_default (\<lambda>q a b. q) [30, 32, 85] None None = (Inr d, self') \<and>
      map_of d ''aggregated_probability'' = Some (PFloat v) \<and> 30 \<le> v \<and> v \<le> 85"
proof -
  have p: "0 < prior_strength BayesianAggregator_default"
    by (simp add: BayesianAggregator_default_def BayesianAggregator_init_def)
  show ?thesis
    using aggregate_forecasts_mean_bounds [of "[30, 32, 85]" BayesianAggregator_default None None
        "\<lambda>q a b. q", OF _ _ p hist_ok_default]
    by (simp add: ids_ok_def confidences_ok_def)
qed


lemma mask_A: "detect_outliers BayesianAggregator_default (map (\<lambda>f. f / 100) [10, 12, 11, 13, 90])
   = [False, False, False, False, True]"
  by (simp add: detect_outliers_def BayesianAggregator_default_def BayesianAggregator_init_def np_median_def)

lemma mask_B: "detect_outliers BayesianAggregator_default (map (\<lambda>f. f / 100) [10, 12, 11, 13, 12])
   = [False, False, False, False, False]"
  by (simp add: detect_outliers_def BayesianAggregator_default_def BayesianAggregator_init_def np_median_def)

lemma reweighted_A_eval:
  "(case consensus_reweighting 3 (map (\<lambda>f. f / 100) [10, 12, 11, 13, 90]) [1, 1, 1, 1, 1 / 10] of
      Inr [u0, u1, u2, u3, u4] \<Rightarrow>
        7 / 10 \<le> u0 \<and> 7 / 10 \<le> u1 \<and> 7 / 10 \<le> u2 \<and> 7 / 10 \<le> u3 \<and> 0 < u4 \<and> u4 \<le> 1 / 1000
    | _ \<Rightarrow> False)"
  by (simp add: np_average_def eval_nat_numeral)

lemma reweighted_A:
  "\<exists>u0 u1 u2 u3 u4. consensus_reweighting 3 (map (\<lambda>f. f / 100) [10, 12, 11, 13, 90]) [1, 1, 1, 1, 1 / 10]
      = Inr [u0, u1, u2, u3, u4] \<and>
     7 / 10 \<le> u0 \<and> 7 / 10 \<le> u1 \<and> 7 / 10 \<le> u2 \<and> 7 / 10 \<le> u3 \<and> 0 < u4 \<and> u4 \<le> 1 / 1000"
  using reweighted_A_eval by (auto split: sum.splits list.splits)

lemma reweighted_B_eval:
  "(case consensus_reweighting 3 (map (\<lambda>f. f / 100) [10, 12, 11, 13, 12]) [1, 1, 1, 1, 1] of
      Inr [u0, u1, u2, u3, u4] \<Rightarrow>
        0 < u0 \<and> u0 \<le> 1 \<and> 0 < u1 \<and> u1 \<le> 1 \<and> 0 < u2 \<and> u2 \<le> 1 \<and> 0 < u3 \<and> u3 \<le> 1 \<and>
        9 / 10 \<le> u4 \<and> u4 \<le> 1
    | _ \<Rightarrow> False)"
  by (simp add: np_average_def eval_nat_numeral)

lemma reweighted_B:
  "\<exists>u0 u1 u2 u3 u4. consensus_reweighting 3 (map (\<lambda>f. f / 100) [10, 12, 11, 13, 12]) [1, 1, 1, 1, 1]
      = Inr [u0, u1, u2, u3, u4] \<and>
     0 < u0 \<and> u0 \<le> 1 \<and> 0 < u1 \<and> u1 \<le> 1 \<and> 0 < u2 \<and> u2 \<le> 1 \<and> 0 < u3 \<and> u3 \<le> 1 \<and>
     9 / 10 \<le> u4 \<and> u4 \<le> 1"
  using reweighted_B_eval by (auto split: sum.splits list.splits)

lemma historical_weighting_empty: "historical_weighting Map.empty i ids ws = Inr ws"
  by (induction ids arbitrary: i) simp_all

lemma default_expert_weights_unfold:
  "default_expert_weights forecasts =
     (case penalized_weights (map (\<lambda>f. f / 100) forecasts) (replicate (length forecasts) 1)
             (detect_outliers BayesianAggregator_default (map (\<lambda>f. f / 100) forecasts)) of
        Inl e \<Rightarrow> Inl e
      | Inr w1 \<Rightarrow>
          (case consensus_reweighting 3 (map (\<lambda>f. f / 100) forecasts) w1 of
             Inl e \<Rightarrow> Inl e
           | Inr w3 \<Rightarrow> normalize_weights w3))"
proof -
  have hp: "historical_performance BayesianAggregator_default = Map.empty"
    by (simp add: BayesianAggregator_default_def BayesianAggregator_init_def)
  show ?thesis
    by (simp add: default_expert_weights_def calculate_expert_weights_def hp
        historical_weighting_empty split: sum.splits)
qed

lemma penalized_A:
  "penalized_weights (map (\<lambda>f. f / 100) [10, 12, 11, 13, 90]) (replicate (length [10, 12, 11, 13, 90 :: real]) 1)
       (detect_outliers BayesianAggregator_default (map (\<lambda>f. f / 100) [10, 12, 11, 13, 90]))
     = Inr [1, 1, 1, 1, 1 / 10]"
  unfolding mask_A
  by (simp add: penalized_weights_def confidence_weights_def outlier_penalty_def eval_nat_numeral)

lemma penalized_B:
  "penalized_weights (map (\<lambda>f. f / 100) [10, 12, 11, 13, 12]) (replicate (length [10, 12, 11, 13, 12 :: real]) 1)
       (detect_outliers BayesianAggregator_default (map (\<lambda>f. f / 100) [10, 12, 11, 13, 12]))
     = Inr [1, 1, 1, 1, 1]"
  unfolding mask_B
  by (simp add: penalized_weights_def confidence_weights_def outlier_penalty_def eval_nat_numeral)

lemma final_A:
  "\<exists>ws. default_expert_weights [10, 12, 11, 13, 90] = Inr ws \<and> ws ! 4 \<le> 1 / 1000"
proof -
  obtain u0 u1 u2 u3 u4 where u:
    "consensus_reweighting 3 (map (\<lambda>f. f / 100) [10, 12, 11, 13, 90]) [1, 1, 1, 1, 1 / 10]
      = Inr [u0, u1, u2, u3, u4]"
    "7 / 10 \<le> u0" "7 / 10 \<le> u1" "7 / 10 \<le> u2" "7 / 10 \<le> u3" "0 < u4" "u4 \<le> 1 / 1000"
    using reweighted_A by blast
  have s: "1 \<le> u0 + u1 + u2 + u3 + u4" using u by linarith
  then have "u4 / (u0 + u1 + u2 + u3 + u4) \<le> u4 / 1"
    using u(6) by (intro divide_left_mono) auto
  then have b: "u4 / (u0 + u1 + u2 + u3 + u4) \<le> 1 / 1000" using u(7) by linarith
  have "default_expert_weights [10, 12, 11, 13, 90] = normalize_weights [u0, u1, u2, u3, u4]"
    by (simp only: default_expert_weights_unfold penalized_A u(1) sum.case)
  then show ?thesis using s b by (simp add: normalize_weights_def add.assoc)
qed

lemma final_B:
  "\<exists>ws. default_expert_weights [10, 12, 11, 13, 12] = Inr ws \<and> 9 / 50 \<le> ws ! 4"
proof -
  obtain u0 u1 u2 u3 u4 where u:
    "consensus_reweighting 3 (map (\<lambda>f. f / 100) [10, 12, 11, 13, 12]) [1, 1, 1, 1, 1]
      = Inr [u0, u1, u2, u3, u4]"
    "0 < u0" "u0 \<le> 1" "0 < u1" "u1 \<le> 1" "0 < u2" "u2 \<le> 1" "0 < u3" "u3 \<le> 1"
    "9 / 10 \<le> u4" "u4 \<le> 1"
    using reweighted_B by blast
  have s: "0 < u0 + u1 + u2 + u3 + u4" "u0 + u1 + u2 + u3 + u4 \<le> 5" using u by linarith+
  have "(9 / 10) / 5 \<le> u4 / (u0 + u1 + u2 + u3 + u4)"
    using u(10) s by (intro frac_le) auto
  then have b: "9 / 50 \<le> u4 / (u0 + u1 + u2 + u3 + u4)" by simp
  have "default_expert_weights [10, 12, 11, 13, 12] = normalize_weights [u0, u1, u2, u3, u4]"
    by (simp only: default_expert_weights_unfold penalized_B u(1) sum.case)
  then show ?thesis using s b by (simp add: normalize_weights_def add.assoc)
qed

text \<open>
  Claim C6, as stated, has the final weight of the sample 90 equal to 0.1 times its
  weight in the same run with 90 replaced by 12. The weights that the aggregation
  uses differ by far more: below 0.001 in the first run, above 0.18 in the second,
  since the consensus reweighting and the normalisation come after the penalty.
\<close>

theorem outlier_final_weight_ratio_counterexample:
  "\<not> isl (default_expert_weights [10, 12, 11, 13, 90]) \<and>
   \<not> isl (default_expert_weights [10, 12, 11, 13, 12]) \<and>
   projr (default_expert_weights [10, 12, 11, 13, 90]) ! 4
     \<noteq> 0.1 * projr (default_expert_weights [10, 12, 11, 13, 12]) ! 4"
proof -
  obtain wa where a: "default_expert_weights [10, 12, 11, 13, 90] = Inr wa" "wa ! 4 \<le> 1 / 1000"
    using final_A by blast
  obtain wb where b: "default_expert_weights [10, 12, 11, 13, 12] = Inr wb" "9 / 50 \<le> wb ! 4"
    using final_B by blast
  have "wa ! 4 < 0.1 * wb ! 4" using a(2) b(2) by simp
  then show ?thesis using a(1) b(1) by simp
qed

text \<open>
  Claim C6, amended: with fewer than three samples no outlier is flagged; for the
  samples 10, 12, 11, 13, 90 exactly the value 90 is flagged, its modified z-score
  exceeding the default threshold 2.5; and the outlier penalty, the second step of
  the weight construction, multiplies its weight by 0.1, where the same run with 90
  replaced by 12 leaves the weight at 1.
\<close>

theorem outlier_flag_and_penalty:
  "(length probabilities < 3 \<longrightarrow>
      detect_outliers self probabilities = replicate (length probabilities) False) \<and>
   detect_outliers BayesianAggregator_default (map (\<lambda>f. f / 100) [10, 12, 11, 13, 90])
     = [False, False, False, False, True] \<and>
   (let probs = map (\<lambda>f. f / 100) [10, 12, 11, 13, 90];
        median = np_median probs;
        mad = np_median (map (\<lambda>p. \<bar>p - median\<bar>) probs)
    in 0.6745 * (90 / 100 - median) / mad > outlier_threshold BayesianAggregator_default) \<and>
   penalized_weights (map (\<lambda>f. f / 100) [10, 12, 11, 13, 90]) (replicate 5 1)
       (detect_outliers BayesianAggregator_default (map (\<lambda>f. f / 100) [10, 12, 11, 13, 90]))
     = Inr [1, 1, 1, 1, 0.1] \<and>
   penalized_weights (map (\<lambda>f. f / 100) [10, 12, 11, 13, 12]) (replicate 5 1)
       (detect_outliers BayesianAggregator_default (map (\<lambda>f. f / 100) [10, 12, 11, 13, 12]))
     = Inr [1, 1, 1, 1, 1]"
proof -
  have 1: "length probabilities < 3 \<longrightarrow>
      detect_outliers self probabilities = replicate (length probabilities) False"
    by (simp add: detect_outliers_def)
  have 3: "(let probs = map (\<lambda>f. f / 100) [10, 12, 11, 13, 90];
        median = np_median probs;
        mad = np_median (map (\<lambda>p. \<bar>p - median\<bar>) probs)
    in 0.6745 * (90 / 100 - median) / mad > outlier_threshold BayesianAggregator_default)"
    by (simp add: np_median_def BayesianAggregator_default_def BayesianAggregator_init_def)
  have 4: "penalized_weights (map (\<lambda>f. f / 100) [10, 12, 11, 13, 90]) (replicate 5 1)
       [False, False, False, False, True] = Inr [1, 1, 1, 1, 0.1]"
    by (simp add: penalized_weights_def confidence_weights_def outlier_penalty_def eval_nat_numeral)
  have 5: "penalized_weights (map (\<lambda>f. f / 100) [10, 12, 11, 13, 12]) (replicate 5 1)
       [False, False, False, False, False] = Inr [1, 1, 1, 1, 1]"
    by (simp add: penalized_weights_def confidence_weights_def outlier_penalty_def eval_nat_numeral)
  show ?thesis
    unfolding mask_A mask_B using 1 3 4 5 by blast
qed


theorem outlier_flag_and_penalty_witness:
  "detect_outliers BayesianAggregator_default [1 / 2, 9 / 10] = [False, False] \<and>
   detect_outliers BayesianAggregator_default (map (\<lambda>f. f / 100) [10, 12, 11, 13, 90])
     = [False, False, False, False, True]"
  using outlier_flag_and_penalty [of "[1 / 2, 9 / 10]" BayesianAggregator_default]
  by (simp add: eval_nat_numeral)

section \<open>Properties of BatchCalibrator\<close>






section \<open>Properties of ForecastAggregator\<close>

lemma calibrate_batch_temperature:
  "cal_method cal = ''temperature'' \<Longrightarrow>
   \<exists>out cal'. calibrate_batch sk cal ps = (Inr out, cal')"
  by (auto simp: calibrate_batch_def fit_def fit_unsupervised_def Let_def)

lemma score_ensemble_ensemble_consistency:
  "\<exists>d sc' ms a b c e. score_ensemble sp sc mp =
     ([(''model_scores'', ms), (''ensemble_consistency'', pyfloat e), (''mean_model_consistency'', a),
       (''consistency_variance'', b), (''most_consistent_model'', c), (''least_consistent_model'', d)], sc')"
  by (auto simp: score_ensemble_def Let_def split: prod.splits)

lemma as_float_pyfloat: "as_float (pyfloat e) = Inr e"
  by (cases e) (simp_all add: as_float_def pyfloat_def)

lemma np_mean4: "np_mean [a, b, c, d] = (a + b + c + d) / 4"
  by (simp add: np_mean_def)

lemma np_std_nonneg: "0 \<le> np_std xs"
proof -
  have "0 \<le> sum_list (map (\<lambda>x. \<bar>x - np_mean xs\<bar> ^ 2) xs)"
    by (rule sum_list_nonneg) auto
  then show ?thesis by (simp add: np_std_def np_mean_def [of "map _ _"])
qed

lemma get_recommended_estimate_value:
  assumes "dict_get cr ''ensemble_consistency'' (PInt 0) = pyfloat ec"
    and "map_of r ''bayesian_uncertainty'' = Some (PFloat bu)"
    and "map_of r ''consistency_weighted'' = Some (PFloat cw)"
    and "map_of r ''bayesian_aggregated'' = Some (PFloat ba)"
    and "map_of r ''ensemble_of_methods'' = Some (PFloat em)"
  shows "get_recommended_estimate r cr =
     Inr (PFloat (if nan_gt ec (Some 0.8) then cw else if bu > 0.5 then ba else em))"
proof -
  have a: "as_float (dict_get cr ''ensemble_consistency'' (PInt 0)) = Inr ec"
    by (simp only: assms(1) as_float_pyfloat)
  have b: "as_float (dict_get r ''bayesian_uncertainty'' (PInt 1)) = Inr (Some bu)"
    by (simp add: dict_get_def assms(2) as_float_def)
  show ?thesis
    unfolding get_recommended_estimate_def a b
    by (simp add: dict_item_def assms(3-5) nan_gt_def)
qed

lemma calculate_confidence_score_total:
  assumes "map_of r ''methods_std'' = Some (PFloat ms)" and "0 \<le> ms"
    and "map_of r ''ensemble_consistency'' = Some (pyfloat ec)"
  shows "\<exists>c. calculate_confidence_score r vp = Inr c"
proof -
  have nz: "1 + ms / 10 \<noteq> 0" using assms(2) by simp
  have a: "as_float (dict_get r ''methods_std'' (PInt 10)) = Inr (Some ms)"
    by (simp add: dict_get_def assms(1) as_float_def)
  have b: "as_float (dict_get r ''ensemble_consistency'' (PFloat 0.5)) = Inr ec"
    by (simp add: dict_get_def assms(3) as_float_pyfloat)
  show ?thesis
    unfolding calculate_confidence_score_def a b
    using nz by (cases ec) (simp_all add: Let_def)
qed

lemma blend_and_recommend_result:
  assumes res: "results = [(''simple_mean'', PFloat sm), (''median'', md), (''trimmed_mean'', tm),
               (''calibrated_mean'', PFloat cm), (''calibration_temperature'', ct),
               (''consistency_weighted'', PFloat cw), (''ensemble_consistency'', pyfloat ec),
               (''consistency_scores'', cs), (''bayesian_aggregated'', PFloat ba),
               (''bayesian_confidence_interval'', ci), (''bayesian_uncertainty'', PFloat bu)]"
    and cr: "dict_get consistency_result ''ensemble_consistency'' (PInt 0) = pyfloat ec"
  shows "\<exists>out. blend_and_recommend results consistency_result vp = Inr out \<and>
     map_of out ''simple_mean'' = Some (PFloat sm) \<and>
     map_of out ''calibrated_mean'' = Some (PFloat cm) \<and>
     map_of out ''consistency_weighted'' = Some (PFloat cw) \<and>
     map_of out ''bayesian_aggregated'' = Some (PFloat ba) \<and>
     map_of out ''ensemble_consistency'' = Some (pyfloat ec) \<and>
     map_of out ''bayesian_uncertainty'' = Some (PFloat bu) \<and>
     map_of out ''ensemble_of_methods'' = Some (PFloat ((sm + cm + cw + ba) / 4)) \<and>
     map_of out ''recommended_estimate'' = Some (PFloat
        (if nan_gt ec (Some 0.8) then cw else if bu > 0.5 then ba else (sm + cm + cw + ba) / 4))"
proof -
  define em where "em = (sm + cm + cw + ba) / 4"
  define ms where "ms = np_std [sm, cm, cw, ba]"
  define r1 where "r1 = results @ [(''ensemble_of_methods'', PFloat em), (''methods_std'', PFloat ms)]"
  define rec where "rec = PFloat (if nan_gt ec (Some 0.8) then cw else if bu > 0.5 then ba else em)"
  define r2 where "r2 = r1 @ [(''recommended_estimate'', rec)]"
  have ms: "0 \<le> ms" unfolding ms_def by (rule np_std_nonneg)
  have g: "get_recommended_estimate r1 consistency_result = Inr rec"
    unfolding rec_def
    by (rule get_recommended_estimate_value [OF cr]) (simp_all add: r1_def res)
  obtain c where c: "calculate_confidence_score r2 vp = Inr c"
    using calculate_confidence_score_total [of r2 ms ec vp] ms
    by (auto simp: r2_def r1_def res)
  have items: "dict_item results ''simple_mean'' = Inr (PFloat sm)"
    "dict_item results ''calibrated_mean'' = Inr (PFloat cm)"
    "dict_item results ''consistency_weighted'' = Inr (PFloat cw)"
    "dict_item results ''bayesian_aggregated'' = Inr (PFloat ba)"
    by (simp_all add: dict_item_def res)
  have fl: "as_float (PFloat x) = Inr (Some x)" for x by (simp add: as_float_def)
  have e1: "pyfloat (nan_mean [Some sm, Some cm, Some cw, Some ba]) = PFloat em"
    by (simp add: nan_mean_def np_mean4 pyfloat_def em_def)
  have e2: "pyfloat (nan_std [Some sm, Some cm, Some cw, Some ba]) = PFloat ms"
    by (simp add: nan_std_def pyfloat_def ms_def)
  have b: "blend_and_recommend results consistency_result vp
      = Inr (r2 @ [(''confidence_in_estimate'', pyfloat c)])"
    apply (simp only: blend_and_recommend_def items prod.case sum.case)
    apply (simp only: fl prod.case sum.case Let_def e1 e2)
    apply (simp only: r1_def [symmetric] g sum.case Let_def)
    apply (simp only: r2_def [symmetric] c sum.case)
    done
  show ?thesis
    unfolding b
    by (simp add: r2_def r1_def res rec_def em_def)
qed

text \<open>
  Claim C5. For a batch with at least one successful response that carries a
  probability, \<open>get_advanced_aggregation\<close> returns a dictionary whose
  \<open>recommended_estimate\<close> is the consistency-weighted estimate if the ensemble
  consistency exceeds 0.8, else the Bayesian estimate if the Bayesian uncertainty
  exceeds 0.5, else the unweighted mean of the four method estimates, which is also
  the entry \<open>ensemble_of_methods\<close>.
\<close>

theorem recommended_estimate_selection:
  assumes valid: "\<forall>r \<in> set responses. validate_response r"
    and some: "filter (\<lambda>r. status r = SUCCESS \<and> probability r \<noteq> None) responses \<noteq> []"
    and temp: "cal_method (calibrator self) = ''temperature''"
    and prior: "0 < prior_strength (bayesian_aggregator self)"
    and hist: "hist_ok (historical_performance (bayesian_aggregator self))"
  shows "\<exists>results self' sm cm cw ba ec bu.
     get_advanced_aggregation lib self responses = (Inr results, self') \<and>
     map_of results ''simple_mean'' = Some (PFloat sm) \<and>
     map_of results ''calibrated_mean'' = Some (PFloat cm) \<and>
     map_of results ''consistency_weighted'' = Some (PFloat cw) \<and>
     map_of results ''bayesian_aggregated'' = Some (PFloat ba) \<and>
     map_of results ''ensemble_consistency'' = Some (pyfloat ec) \<and>
     map_of results ''bayesian_uncertainty'' = Some (PFloat bu) \<and>
     map_of results ''ensemble_of_methods'' = Some (PFloat ((sm + cm + cw + ba) / 4)) \<and>
     map_of results ''recommended_estimate'' = Some (PFloat
        (if nan_gt ec (Some 0.8) then cw else if bu > 0.5 then ba else (sm + cm + cw + ba) / 4))"
proof -
  define vr where "vr = filter (\<lambda>r. status r = SUCCESS \<and> probability r \<noteq> None) responses"
  define vp where "vp = map (\<lambda>r. the (probability r)) vr"
  define mp where "mp = group_by_model (map (\<lambda>r. (model r, the (probability r))) vr) []"
  have vrne: "vr \<noteq> []" using some by (simp add: vr_def)
  have vpne: "vp \<noteq> []" using vrne by (simp add: vp_def)
  have range: "\<forall>f \<in> set vp. 0 \<le> f \<and> f \<le> 100"
    using valid by (auto simp: vp_def vr_def validate_response_def)
  obtain calibrated cal where cb:
    "calibrate_batch (lib_sklearn lib) (calibrator self) vp = (Inr calibrated, cal)"
    using calibrate_batch_temperature [OF temp] by blast
  obtain d sc' ms a b c e where se:
    "score_ensemble (lib_spearmanr lib) (consistency_scorer self) mp =
       ([(''model_scores'', ms), (''ensemble_consistency'', pyfloat e), (''mean_model_consistency'', a),
         (''consistency_variance'', b), (''most_consistent_model'', c), (''least_consistent_model'', d)], sc')"
    using score_ensemble_ensemble_consistency by blast
  have ids: "ids_ok vp (Some (map model vr))" by (simp add: ids_ok_def vp_def)
  have cs: "confidences_ok vp None" by (simp add: confidences_ok_def)
  obtain bayes v lo up u ew n var where af:
    "aggregate_forecasts (bayesian_aggregator self) (lib_ppf lib) vp (Some (map model vr)) None =
        (Inr [(''aggregated_probability'', PFloat v),
              (''confidence_interval'', PList [PFloat lo, PFloat up]),
              (''uncertainty'', PFloat u),
              (''expert_weights'', PDict ew),
              (''outliers_detected'', PInt n),
              (''method'', PStr ''robust_bayesian''),
              (''posterior_variance'', PFloat var)], bayes)"
    using aggregate_forecasts_result [OF vpne range prior hist ids cs] by blast
  let ?cr = "[(''model_scores'', ms), (''ensemble_consistency'', pyfloat e), (''mean_model_consistency'', a),
         (''consistency_variance'', b), (''most_consistent_model'', c), (''least_consistent_model'', d)]"
  let ?res = "[(''simple_mean'', PFloat (np_mean vp)), (''median'', PFloat (np_median vp)),
               (''trimmed_mean'', PFloat (scipy_trim_mean vp)),
               (''calibrated_mean'', PFloat (np_mean calibrated)),
               (''calibration_temperature'', PFloat (temperature cal)),
               (''consistency_weighted'', PFloat (calculate_weighted_aggregate (scorer_method sc') mp)),
               (''ensemble_consistency'', pyfloat e),
               (''consistency_scores'', ms), (''bayesian_aggregated'', PFloat v),
               (''bayesian_confidence_interval'', PList [PFloat lo, PFloat up]),
               (''bayesian_uncertainty'', PFloat u)]"
  have crg: "dict_get ?cr ''ensemble_consistency'' (PInt 0) = pyfloat e"
    by (simp add: dict_get_def)
  have ga: "get_advanced_aggregation lib self responses =
      (blend_and_recommend ?res ?cr vp,
       self\<lparr>calibrator := cal, consistency_scorer := sc', bayesian_aggregator := bayes\<rparr>)"
    unfolding get_advanced_aggregation_def vr_def [symmetric] Let_def vp_def [symmetric]
      mp_def [symmetric]
    using vrne by (simp add: cb se af dict_item_def dict_get_def)
  let ?sm = "np_mean vp" and ?cm = "np_mean calibrated"
    and ?cw = "calculate_weighted_aggregate (scorer_method sc') mp"
  have "\<exists>out. blend_and_recommend ?res ?cr vp = Inr out \<and>
     map_of out ''simple_mean'' = Some (PFloat ?sm) \<and>
     map_of out ''calibrated_mean'' = Some (PFloat ?cm) \<and>
     map_of out ''consistency_weighted'' = Some (PFloat ?cw) \<and>
     map_of out ''bayesian_aggregated'' = Some (PFloat v) \<and>
     map_of out ''ensemble_consistency'' = Some (pyfloat e) \<and>
     map_of out ''bayesian_uncertainty'' = Some (PFloat u) \<and>
     map_of out ''ensemble_of_methods'' = Some (PFloat ((?sm + ?cm + ?cw + v) / 4)) \<and>
     map_of out ''recommended_estimate'' = Some (PFloat
        (if nan_gt e (Some 0.8) then ?cw else if u > 0.5 then v else (?sm + ?cm + ?cw + v) / 4))"
    by (rule blend_and_recommend_result [OF refl crg])
  then obtain out where o: "blend_and_recommend ?res ?cr vp = Inr out"
     "map_of out ''simple_mean'' = Some (PFloat ?sm)"
     "map_of out ''calibrated_mean'' = Some (PFloat ?cm)"
     "map_of out ''consistency_weighted'' = Some (PFloat ?cw)"
     "map_of out ''bayesian_aggregated'' = Some (PFloat v)"
     "map_of out ''ensemble_consistency'' = Some (pyfloat e)"
     "map_of out ''bayesian_uncertainty'' = Some (PFloat u)"
     "map_of out ''ensemble_of_methods'' = Some (PFloat ((?sm + ?cm + ?cw + v) / 4))"
     "map_of out ''recommended_estimate'' = Some (PFloat
        (if nan_gt e (Some 0.8) then ?cw else if u > 0.5 then v else (?sm + ?cm + ?cw + v) / 4))"
    by blast
  show ?thesis
    unfolding ga o(1)
    apply (rule exI [of _ out])
    apply (rule exI [of _ "self\<lparr>calibrator := cal, consistency_scorer := sc', bayesian_aggregator := bayes\<rparr>"])
    apply (rule exI [of _ ?sm])
    apply (rule exI [of _ ?cm])
    apply (rule exI [of _ ?cw])
    apply (rule exI [of _ v])
    apply (rule exI [of _ e])
    apply (rule exI [of _ u])
    apply (simp only: o simp_thms)
    done
qed

theorem recommended_estimate_selection_witness:
  "\<exists>results self' sm cm cw ba ec bu.
     get_advanced_aggregation example_library (ForecastAggregator_init ''ensemble'')
       [example_response ''A'' 1 30, example_response ''B'' 1 85] = (Inr results, self') \<and>
     map_of results ''simple_mean'' = Some (PFloat sm) \<and>
     map_of results ''calibrated_mean'' = Some (PFloat cm) \<and>
     map_of results ''consistency_weighted'' = Some (PFloat cw) \<and>
     map_of results ''bayesian_aggregated'' = Some (PFloat ba) \<and>
     map_of results ''ensemble_consistency'' = Some (pyfloat ec) \<and>
     map_of results ''bayesian_uncertainty'' = Some (PFloat bu) \<and>
     map_of results ''ensemble_of_methods'' = Some (PFloat ((sm + cm + cw + ba) / 4)) \<and>
     map_of results ''recommended_estimate'' = Some (PFloat
        (if nan_gt ec (Some 0.8) then cw else if bu > 0.5 then ba else (sm + cm + cw + ba) / 4))"
proof -
  let ?self = "ForecastAggregator_init ''ensemble''"
  let ?rs = "[example_response ''A'' 1 30, example_response ''B'' 1 85]"
  have 1: "\<forall>r \<in> set ?rs. validate_response r"
    by (simp add: validate_response_def example_response_def)
  have 2: "filter (\<lambda>r. status r = SUCCESS \<and> probability r \<noteq> None) ?rs \<noteq> []"
    by (simp add: example_response_def)
  have 3: "cal_method (calibrator ?self) = ''temperature''"
    by (simp add: ForecastAggregator_init_def BatchCalibrator_init_def)
  have 4: "0 < prior_strength (bayesian_aggregator ?self)"
    by (simp add: ForecastAggregator_init_def BayesianAggregator_default_def
        BayesianAggregator_init_def)
  have 5: "hist_ok (historical_performance (bayesian_aggregator ?self))"
    by (simp add: ForecastAggregator_init_def hist_ok_default)
  show ?thesis
    by (rule recommended_estimate_selection [OF 1 2 3 4 5])
qed

section \<open>Properties of the advanced analysis\<close>

lemma aggregate_forecasts_no_aggregated_forecast:
  "fst (aggregate_forecasts self ppf forecasts ids_opt cs_opt) = Inr d \<Longrightarrow>
   map_of d ''aggregated_forecast'' = None"
  by (auto simp: aggregate_forecasts_def Let_def split: if_splits sum.splits)

lemma bayesian_prediction_of_default:
  assumes "\<And>d. bayesian_result = Inr d \<Longrightarrow> map_of d ''aggregated_forecast'' = None"
    and "bayesian_prediction_of bayesian_result dflt = Inr v"
  shows "v = PFloat dflt"
  using assms
  by (auto simp: bayesian_prediction_of_def dict_get_def split: sum.splits py_error.splits)

lemma np_mean_scaled: "np_mean (map (\<lambda>x. f x / 100) xs) * 100 = np_mean (map f xs)"
proof -
  have "sum_list (map (\<lambda>x. f x / 100) xs) = sum_list (map f xs) / 100"
    by (induction xs) (simp_all add: add_divide_distrib)
  then show ?thesis by (simp add: np_mean_def)
qed

text \<open>
  Claim C4. Whenever \<open>_apply_advanced_algorithms\<close> reports a \<open>bayesian_ensemble\<close>, it is
  the unweighted mean of the per-model mean forecasts: the dictionary that
  \<open>aggregate_forecasts\<close> returns never has the key \<open>aggregated_forecast\<close> (its result is
  under \<open>aggregated_probability\<close>), so the look-up always yields its default.
\<close>

theorem bayesian_ensemble_is_mean_of_model_means:
  "(map_of (apply_advanced_algorithms lib model_groups valid_probabilities) ''bayesian_ensemble''
      = Some v \<longrightarrow> v = PFloat (np_mean (per_model_means lib model_groups))) \<and>
   (fst (aggregate_forecasts self ppf forecasts ids_opt cs_opt) = Inr d \<longrightarrow>
      map_of d ''aggregated_forecast'' = None \<and>
      (forecasts \<noteq> [] \<longrightarrow> map_of d ''aggregated_probability'' \<noteq> None))"
proof -
  define st where "st = prepare_models (lib_sklearn lib) model_groups initial_loop_state"
  define mp where "mp = ls_model_predictions st"
  define ap where "ap = map (\<lambda>(m, probs). np_mean probs / 100) mp"
  define aw where "aw = map (\<lambda>(m, probs). the (map_of (ls_model_weights st) m)) mp"
  define br where "br =
     (if None \<in> set aw then Inl NonFinite
      else fst (aggregate_forecasts BayesianAggregator_default (lib_ppf lib)
                  (map (\<lambda>p. p * 100) ap) (Some (map fst mp)) (Some (map the aw))))"
  have key: "map_of d' ''aggregated_forecast'' = None" if "br = Inr d'" for d'
    using that aggregate_forecasts_no_aggregated_forecast
    by (auto simp: br_def split: if_splits)
  have scaled: "np_mean ap * 100 = np_mean (per_model_means lib model_groups)"
    unfolding ap_def per_model_means_def st_def [symmetric] mp_def [symmetric]
    using np_mean_scaled [of "\<lambda>(m, probs). np_mean probs" mp]
    by (simp add: case_prod_unfold)
  have 1: "map_of (apply_advanced_algorithms lib model_groups valid_probabilities)
      ''bayesian_ensemble'' = Some v \<longrightarrow> v = PFloat (np_mean (per_model_means lib model_groups))"
  proof
    assume a: "map_of (apply_advanced_algorithms lib model_groups valid_probabilities)
      ''bayesian_ensemble'' = Some v"
    show "v = PFloat (np_mean (per_model_means lib model_groups))"
    proof (cases "bayesian_prediction_of br (np_mean ap * 100)")
      case (Inl e)
      then show ?thesis
        using a
        unfolding apply_advanced_algorithms_def Let_def st_def [symmetric] mp_def [symmetric]
          ap_def [symmetric] aw_def [symmetric] br_def [symmetric]
        by (simp split: if_splits)
    next
      case (Inr bp)
      then have bp: "bp = PFloat (np_mean ap * 100)"
        using bayesian_prediction_of_default [of br] key by blast
      show ?thesis
        using a Inr
        unfolding apply_advanced_algorithms_def Let_def st_def [symmetric] mp_def [symmetric]
          ap_def [symmetric] aw_def [symmetric] br_def [symmetric]
        by (simp add: bp as_float_def pyfloat_def scaled split: if_splits)
    qed
  qed
  have 2: "fst (aggregate_forecasts self ppf forecasts ids_opt cs_opt) = Inr d \<longrightarrow>
      map_of d ''aggregated_forecast'' = None \<and>
      (forecasts \<noteq> [] \<longrightarrow> map_of d ''aggregated_probability'' \<noteq> None)"
    by (auto simp: aggregate_forecasts_def Let_def split: if_splits sum.splits)
  show ?thesis using 1 2 by blast
qed

lemma example_model_predictions:
  "ls_model_predictions (prepare_models (lib_sklearn example_library)
       [(''A'', [example_reply ''A'' (Some 30)]),
        (''B'', [example_reply ''B'' (Some 85), example_reply ''B'' None])] initial_loop_state)
     = [(''A'', [30]), (''B'', [85])]"
  by (simp add: initial_loop_state_def example_reply_def Let_def)

lemma example_model_weights:
  "ls_model_weights (prepare_models (lib_sklearn example_library)
       [(''A'', [example_reply ''A'' (Some 30)]),
        (''B'', [example_reply ''B'' (Some 85), example_reply ''B'' None])] initial_loop_state)
     = [(''A'', Some 1), (''B'', Some 1)]"
  by (simp add: initial_loop_state_def example_reply_def Let_def calculate_consistency_def)

lemma example_bayesian_ensemble_present:
  "\<exists>x. map_of (apply_advanced_algorithms example_library
       [(''A'', [example_reply ''A'' (Some 30)]),
        (''B'', [example_reply ''B'' (Some 85), example_reply ''B'' None])] [30, 85])
     ''bayesian_ensemble'' = Some x"
proof -
  have p: "0 < prior_strength BayesianAggregator_default"
    by (simp add: BayesianAggregator_default_def BayesianAggregator_init_def)
  have a1: "[30, 85 :: real] \<noteq> []" by simp
  have a2: "\<forall>f \<in> set [30, 85 :: real]. 0 \<le> f \<and> f \<le> 100" by simp
  have a3: "ids_ok [30, 85] (Some [''A'', ''B''])" by (simp add: ids_ok_def)
  have a4: "confidences_ok [30, 85] (Some [1, 1])" by (simp add: confidences_ok_def)
  obtain self' v lo up u ew n var where r:
    "aggregate_forecasts BayesianAggregator_default (lib_ppf example_library) [30, 85]
        (Some [''A'', ''B'']) (Some [1, 1]) =
        (Inr [(''aggregated_probability'', PFloat v),
              (''confidence_interval'', PList [PFloat lo, PFloat up]),
              (''uncertainty'', PFloat u),
              (''expert_weights'', PDict ew),
              (''outliers_detected'', PInt n),
              (''method'', PStr ''robust_bayesian''),
              (''posterior_variance'', PFloat var)], self')"
    using aggregate_forecasts_result [OF a1 a2 p hist_ok_default a3 a4] by blast
  show ?thesis
    unfolding apply_advanced_algorithms_def Let_def example_model_predictions example_model_weights
    by (simp add: np_mean_def r bayesian_prediction_of_def dict_get_def as_float_def pyfloat_def)
qed

lemma example_aggregate_returns:
  "\<not> isl (fst (aggregate_forecasts BayesianAggregator_default (\<lambda>q a b. q) [90] None None))"
  by (simp add: aggregate_forecasts_def BayesianAggregator_default_def BayesianAggregator_init_def
      detect_outliers_def calculate_expert_weights_def penalized_weights_def confidence_weights_def
      outlier_penalty_def np_average_def normalize_weights_def bayesian_pool_def
      calculate_uncertainty_def eval_nat_numeral)

theorem bayesian_ensemble_is_mean_of_model_means_witness:
  "map_of (apply_advanced_algorithms example_library
       [(''A'', [example_reply ''A'' (Some 30)]),
        (''B'', [example_reply ''B'' (Some 85), example_reply ''B'' None])] [30, 85])
     ''bayesian_ensemble'' = Some (PFloat (115 / 2)) \<and>
   map_of (projr (fst (aggregate_forecasts BayesianAggregator_default (\<lambda>q a b. q) [90] None None)))
     ''aggregated_forecast'' = None \<and>
   map_of (projr (fst (aggregate_forecasts BayesianAggregator_default (\<lambda>q a b. q) [90] None None)))
     ''aggregated_probability'' \<noteq> None"
proof -
  let ?G = "[(''A'', [example_reply ''A'' (Some 30)]),
             (''B'', [example_reply ''B'' (Some 85), example_reply ''B'' None])]"
  let ?X = "fst (aggregate_forecasts BayesianAggregator_default (\<lambda>q a b. q) [90] None None)"
  obtain x where x: "map_of (apply_advanced_algorithms example_library ?G [30, 85])
     ''bayesian_ensemble'' = Some x"
    using example_bayesian_ensemble_present by blast
  have d: "?X = Inr (projr ?X)" using example_aggregate_returns by simp
  have m: "np_mean (per_model_means example_library ?G) = 115 / 2"
    unfolding per_model_means_def example_model_predictions by (simp add: np_mean_def)
  have ne: "[90 :: real] \<noteq> []" by simp
  note t = bayesian_ensemble_is_mean_of_model_means
      [of example_library ?G "[30, 85]" x BayesianAggregator_default "\<lambda>q a b. q" "[90]" None None
        "projr ?X"]
  from t x have "x = PFloat (np_mean (per_model_means example_library ?G))" by blast
  then have 1: "x = PFloat (115 / 2)" by (simp only: m)
  from t d ne have 2: "map_of (projr ?X) ''aggregated_forecast'' = None \<and>
      map_of (projr ?X) ''aggregated_probability'' \<noteq> None" by blast
  show ?thesis using x 1 2 by blast
qed

section \<open>Properties of a batch of the EnsembleManager\<close>

lemma keeps_refl: "keeps t w w"
  by (simp add: keeps_def)

lemma keeps_trans: "keeps t w w1 \<Longrightarrow> keeps t w1 w2 \<Longrightarrow> keeps t w w2"
  by (simp add: keeps_def)

lemma keeps_progress_update: "keeps t w (progress_update t a w)"
  by (simp add: keeps_def progress_update_def)

lemma keeps_tick: "keeps t w (w\<lparr>w_tick := Suc (w_tick w)\<rparr>)"
  by (simp add: keeps_def)

lemma limited_query_keeps:
  "limited_query env m prompt t i w = (res, w') \<Longrightarrow> keeps t w w'"
  by (auto simp: limited_query_def call_query_def finish_query_def keeps_def progress_update_def
           split: sum.splits if_splits prod.splits)

lemma limited_query_fails:
  assumes "\<forall>args t. t0 \<le> t \<longrightarrow> query_fails (env_query env args t)"
    and "t0 \<le> w_tick w"
    and "limited_query env m prompt t i w = (res, w')"
  shows "failed_result res"
proof -
  have a: "query_fails (env_query env \<lparr>q_model = m, q_prompt = prompt, q_max_tokens = None,
              q_web_search = True\<rparr> (w_tick w))"
    using assms(1,2) by simp
  have b: "query_fails (env_query env \<lparr>q_model = m, q_prompt = prompt,
              q_max_tokens = Some 10000, q_web_search = True\<rparr> (Suc (w_tick w)))"
    using assms(1,2) by simp
  show ?thesis
    using assms(3) a b
    by (auto simp: limited_query_def call_query_def finish_query_def failed_result_def
                   query_fails_def
             split: sum.splits if_splits prod.splits)
qed

lemma keeps_tick_le: "keeps t w w' \<Longrightarrow> w_tick w \<le> w_tick w'"
  by (simp add: keeps_def)

lemma run_queries_fails:
  assumes "\<forall>args t. t0 \<le> t \<longrightarrow> query_fails (env_query env args t)"
  shows "t0 \<le> w_tick w \<Longrightarrow> run_queries env m prompt t is w = (results, w')
    \<Longrightarrow> length results = length is \<and> list_all failed_result results \<and> keeps t w w'"
proof (induction "is" arbitrary: w results w')
  case Nil
  then show ?case by (simp add: keeps_refl)
next
  case (Cons i "is")
  obtain res w1 where lq: "limited_query env m prompt t i w = (res, w1)"
    by (cases "limited_query env m prompt t i w")
  obtain rs w2 where rq: "run_queries env m prompt t is w1 = (rs, w2)"
    by (cases "run_queries env m prompt t is w1")
  have k1: "keeps t w w1" by (rule limited_query_keeps [OF lq])
  have f1: "failed_result res" by (rule limited_query_fails [OF assms Cons.prems(1) lq])
  have t1: "t0 \<le> w_tick w1" using k1 Cons.prems(1) by (simp add: keeps_def)
  have ih: "length rs = length is \<and> list_all failed_result rs \<and> keeps t w1 w2"
    by (rule Cons.IH [OF t1 rq])
  have eq: "results = res # rs" "w' = w2"
    using Cons.prems(2) lq rq by simp_all
  show ?case using ih f1 k1 eq by (auto intro: keeps_trans)
qed

lemma valid_results_fails:
  "list_all failed_result results \<Longrightarrow> valid_results env m i results w = (rs, w')
    \<Longrightarrow> length rs = length results \<and> list_all failed_reply rs \<and> keeps t w w'"
proof (induction results arbitrary: i w rs w')
  case Nil
  then show ?case by (simp add: keeps_refl)
next
  case (Cons res results)
  obtain r w1 where c: "(case res of Inl message \<Rightarrow> error_reply env m i message w
                          | Inr r \<Rightarrow> (r, w)) = (r, w1)"
    by (cases "(case res of Inl message \<Rightarrow> error_reply env m i message w | Inr r \<Rightarrow> (r, w))")
  obtain rs1 w2 where v: "valid_results env m (Suc i) results w1 = (rs1, w2)"
    by (cases "valid_results env m (Suc i) results w1")
  have fr: "failed_reply r \<and> keeps t w w1"
    using c Cons.prems(1)
    by (auto simp: failed_result_def failed_reply_def error_reply_def keeps_def
             split: sum.splits)
  have ih: "length rs1 = length results \<and> list_all failed_reply rs1 \<and> keeps t w1 w2"
    using Cons.IH [OF _ v] Cons.prems(1) by simp
  have eq: "rs = r # rs1" "w' = w2"
    using Cons.prems(2) c v by simp_all
  show ?case using ih fr eq by (auto intro: keeps_trans)
qed

lemma run_model_batch_fails:
  assumes "\<forall>args t. t0 \<le> t \<longrightarrow> query_fails (env_query env args t)"
    and "\<not> dry_run self" and "t0 \<le> w_tick w"
    and "run_model_batch env self m prompt iterations t w = (rs, w')"
  shows "length rs = nat iterations \<and> list_all failed_reply rs \<and> keeps t w w'"
proof -
  obtain results w1 where rq: "run_queries env m prompt t [0..<nat iterations] w = (results, w1)"
    by (cases "run_queries env m prompt t [0..<nat iterations] w")
  have vr: "valid_results env m 0 results w1 = (rs, w')"
    using assms(2,4) rq unfolding run_model_batch_def gather_queries_def by simp
  have a: "length results = length [0..<nat iterations] \<and> list_all failed_result results
             \<and> keeps t w w1"
    by (rule run_queries_fails [OF assms(1,3) rq])
  have b: "length rs = length results \<and> list_all failed_reply rs \<and> keeps t w1 w'"
    using valid_results_fails [OF _ vr] a by simp
  show ?thesis using a b by (auto intro: keeps_trans)
qed

lemma add_metadata_failed:
  "list_all failed_reply rs \<Longrightarrow>
     \<exists>rs'. add_metadata m qn defn tf rs = Inr rs' \<and> length rs' = length rs
            \<and> list_all failed_reply rs'"
  by (induction rs) (auto simp: failed_reply_def)

lemma run_models_fails:
  assumes "\<forall>args t. t0 \<le> t \<longrightarrow> query_fails (env_query env args t)"
    and "\<not> dry_run self"
  shows "t0 \<le> w_tick w \<Longrightarrow> main_task < length (w_progress w) \<Longrightarrow> list_all failed_reply acc \<Longrightarrow>
    \<exists>rs w'. run_models env self prompt iterations main_task qn defn tf models acc w = (Inr rs, w')
       \<and> length rs = length acc + length models * nat iterations
       \<and> list_all failed_reply rs
       \<and> w_progress w' ! main_task = w_progress w ! main_task + int (length models) * iterations"
proof (induction models arbitrary: acc w)
  case Nil
  then show ?case by simp
next
  case (Cons m ms)
  define w1 where "w1 = w\<lparr>w_progress := w_progress w @ [0]\<rparr>"
  define mt where "mt = length (w_progress w)"
  have at: "add_task w = (mt, w1)" by (simp add: add_task_def w1_def mt_def)
  obtain mr w2 where rb: "run_model_batch env self m prompt iterations mt w1 = (mr, w2)"
    by (cases "run_model_batch env self m prompt iterations mt w1")
  have t1: "t0 \<le> w_tick w1" using Cons.prems(1) by (simp add: w1_def)
  have b: "length mr = nat iterations \<and> list_all failed_reply mr \<and> keeps mt w1 w2"
    by (rule run_model_batch_fails [OF assms t1 rb])
  obtain mr' where am: "add_metadata m qn defn tf mr = Inr mr'"
    and lm: "length mr' = length mr" and fm: "list_all failed_reply mr'"
    using add_metadata_failed [of mr m qn defn tf] b by blast
  define w3 where "w3 = progress_update main_task iterations w2"
  have ne: "main_task \<noteq> mt" using Cons.prems(2) by (simp add: mt_def)
  have len2: "length (w_progress w2) = Suc (length (w_progress w))"
    using b by (simp add: keeps_def w1_def)
  have p2: "w_progress w2 ! main_task = w_progress w ! main_task"
    using b ne Cons.prems(2) by (simp add: keeps_def w1_def nth_append)
  have t3: "t0 \<le> w_tick w3"
    using b t1 by (simp add: w3_def progress_update_def keeps_def)
  have l3: "main_task < length (w_progress w3)"
    using len2 Cons.prems(2) by (simp add: w3_def progress_update_def)
  have p3: "w_progress w3 ! main_task = w_progress w ! main_task + iterations"
    using len2 Cons.prems(2) p2 by (simp add: w3_def progress_update_def)
  have acc3: "list_all failed_reply (acc @ mr')"
    using Cons.prems(3) fm by simp
  obtain rs w' where
    r: "run_models env self prompt iterations main_task qn defn tf ms (acc @ mr') w3 = (Inr rs, w')"
    and lr: "length rs = length (acc @ mr') + length ms * nat iterations"
    and fr: "list_all failed_reply rs"
    and pr: "w_progress w' ! main_task = w_progress w3 ! main_task + int (length ms) * iterations"
    using Cons.IH [OF t3 l3 acc3] by blast
  have "run_models env self prompt iterations main_task qn defn tf (m # ms) acc w = (Inr rs, w')"
    using at rb am r by (simp add: w3_def)
  moreover have "length rs = length acc + length (m # ms) * nat iterations"
    using lr lm b by simp
  moreover have "w_progress w' ! main_task
                   = w_progress w ! main_task + int (length (m # ms)) * iterations"
    using pr p3 by (simp add: algebra_simps)
  ultimately show ?case using fr by blast
qed

lemma connection_check_keeps:
  "connection_check env self models w = (res, w0) \<Longrightarrow> w_progress w0 = w_progress w"
  by (auto simp: connection_check_def test_connection_def call_query_def
           split: if_splits sum.splits prod.splits)

lemma failed_reply_error_family:
  "list_all failed_reply rs \<Longrightarrow> list_all (\<lambda>r. error_family (r_status r)) rs"
  by (induction rs) (simp_all add: failed_reply_def error_family_def)

text \<open>
  Claim C3, as the code has it. When the run is not a dry run, the connection test at the
  start is passed (every source is free-tier, so that it is skipped, or its query
  succeeds), and from then on the client fails on every call (it raises, or returns a
  reply whose status is not success), a batch of \<open>S \<ge> 1\<close> sources and \<open>I \<ge> 1\<close>
  iterations returns: its result has exactly \<open>S * I\<close> replies, every one with a status
  other than success, and the counter of the overall progress task, the task created
  first, stands at \<open>S * I\<close>.
\<close>

theorem run_ensemble_forecast_all_failing:
  assumes "\<not> dry_run self" and "models \<noteq> []" and "0 < iterations"
    and "connection_check env self models w = (Inr (), w0)"
    and "\<forall>args t. w_tick w0 \<le> t \<longrightarrow> query_fails (env_query env args t)"
  shows "\<exists>res w'.
           run_ensemble_forecast env self qn defn (Some models) (Some iterations) tf ctx w
             = (Inr res, w')
           \<and> length (fr_responses res) = length models * nat iterations
           \<and> list_all (\<lambda>r. error_family (r_status r)) (fr_responses res)
           \<and> w_progress w' ! length (w_progress w) = int (length models * nat iterations)"
proof -
  define prompt where "prompt = env_prompt env (enhanced_prompts self) qn defn tf ctx"
  define mt where "mt = length (w_progress w)"
  define w2 where "w2 = w0\<lparr>w_progress := w_progress w0 @ [0]\<rparr>"
  have p0: "w_progress w0 = w_progress w"
    by (rule connection_check_keeps [OF assms(4)])
  have at: "add_task w0 = (mt, w2)"
    by (simp add: add_task_def w2_def mt_def p0)
  have t2: "w_tick w0 \<le> w_tick w2" by (simp add: w2_def)
  have l2: "mt < length (w_progress w2)" by (simp add: w2_def mt_def p0)
  obtain rs w' where
    r: "run_models env self prompt iterations mt qn defn tf models [] w2 = (Inr rs, w')"
    and lr: "length rs = length ([] :: reply list) + length models * nat iterations"
    and fr: "list_all failed_reply rs"
    and pr: "w_progress w' ! mt = w_progress w2 ! mt + int (length models) * iterations"
    using run_models_fails [OF assms(5,1) t2 l2, of "[]" prompt iterations qn defn tf models]
    by auto
  have z: "w_progress w2 ! mt = 0" by (simp add: w2_def mt_def p0)
  have run: "run_ensemble_forecast env self qn defn (Some models) (Some iterations) tf ctx w
      = (Inr \<lparr>fr_models = models, fr_iterations_per_model = iterations,
               fr_total_queries = length rs, fr_prompt = prompt, fr_responses = rs,
               fr_successful_queries = length (filter (\<lambda>r. r_status r = Success) rs),
               fr_failed_queries = length (filter (\<lambda>r. r_status r \<noteq> Success) rs)\<rparr>, w')"
    using assms(2,3,4) at r by (simp add: run_ensemble_forecast_def prompt_def [symmetric])
  have cnt: "w_progress w' ! mt = int (length models * nat iterations)"
    using pr z assms(3) by simp
  show ?thesis
    using run lr failed_reply_error_family [OF fr] cnt
    by (simp add: mt_def)
qed

text \<open>
  The theorem above at a batch of a paid and a free-tier source with two iterations each:
  the client answers the connection test and fails on the four queries (and the retries)
  after it.
\<close>

theorem run_ensemble_forecast_all_failing_witness:
  "\<exists>res w'.
     run_ensemble_forecast (example_environment recovering_query) example_manager
         ''Will it rain?'' ''Rain is measured at the station''
         (Some [''openai/gpt-4o'', ''x-ai/grok-4-fast:free'']) (Some 2) None None initial_world
       = (Inr res, w')
     \<and> length (fr_responses res) = 4
     \<and> list_all (\<lambda>r. error_family (r_status r)) (fr_responses res)
     \<and> w_progress w' ! 0 = 4"
proof -
  have a: "\<not> dry_run example_manager" by (simp add: example_manager_def)
  have c: "connection_check (example_environment recovering_query) example_manager
             [''openai/gpt-4o'', ''x-ai/grok-4-fast:free''] initial_world
           = (Inr (), \<lparr>w_tick = 1, w_progress = []\<rparr>)"
    by (simp add: connection_check_def example_manager_def is_free_def test_connection_def
                  call_query_def example_environment_def recovering_query_def initial_world_def
                  example_reply_def)
  have f: "\<forall>args t. w_tick \<lparr>w_tick = 1, w_progress = []\<rparr> \<le> t
             \<longrightarrow> query_fails (env_query (example_environment recovering_query) args t)"
    by (simp add: example_environment_def recovering_query_def failing_query_def query_fails_def)
  show ?thesis
    using run_ensemble_forecast_all_failing [OF a _ _ c f, of 2 "''Will it rain?''"
            "''Rain is measured at the station''" None None]
    by (simp add: initial_world_def)
qed

text \<open>
  Claim C3 as stated, for every batch, does not hold: with a source that is not free-tier
  the run starts with the connection test, which is a query of the same client. With a
  client that fails on every call the test fails, and \<open>run_ensemble_forecast\<close> raises
  \<open>ConnectionError\<close> and returns no reply at all.
\<close>

theorem run_ensemble_forecast_connection_error_counterexample:
  "fst (run_ensemble_forecast (example_environment failing_query) example_manager
          ''Will it rain?'' ''Rain is measured at the station''
          (Some [''openai/gpt-4o'']) (Some 2) None None initial_world)
     = Inl (ConnectionError ''Could not connect to OpenRouter API'')
   \<and> (\<forall>args t. query_fails (failing_query args t))"
  by (simp add: run_ensemble_forecast_def connection_check_def example_manager_def is_free_def
                test_connection_def call_query_def example_environment_def failing_query_def
                initial_world_def query_fails_def)

section \<open>Properties of the probability extractor\<close>

lemma extract_probability_range_midpoint:
  "extract_probability ''forecast: 150-250%'' [] = Some 200"
  by code_simp

text \<open>
  Claim C2. The extractor is documented to return a probability between 0 and 100 or
  \<open>None\<close>, and every rule before the loop over \<open>percentage_patterns\<close> checks the bounds,
  except the midpoint of a range in the keyword rule. The loop over
  \<open>percentage_patterns\<close> returns the last match of its first matching pattern unchecked:
  for the text \<open>150%\<close> and no source hint no earlier rule matches, and the extractor
  returns 150, which is outside the bounds.
\<close>

theorem extract_probability_150_percent_out_of_bounds:
  "extract_probability ''150%'' [] = Some 150 \<and> \<not> in_bounds 150"
proof -
  have "extract_probability ''150%'' [] = Some 150"
    by code_simp
  then show ?thesis
    by (simp add: in_bounds_def)
qed

section \<open>Properties of a query of the client\<close>

lemma validated_bounds:
  "case validated p of None \<Rightarrow> True | Some v \<Rightarrow> 0 \<le> v \<and> v \<le> 100"
  by (simp add: validated_def split: option.splits)

lemma cache_set_ok:
  assumes "cache_ok self" and "reply_ok response"
  shows "cache_ok (cache_set self now m prompt response)"
  using assms by (auto simp: cache_ok_def cache_set_def)

lemma cache_get_ok:
  assumes "cache_ok self" and "cache_get self now m prompt = Some r"
  shows "reply_ok r"
proof -
  obtain row where row: "cache self (generate_cache_key m prompt) = Some row"
    and r: "r = (row_response row)\<lparr>r_probability := row_probability row,
                                     r_timestamp := row_timestamp row\<rparr>"
    using assms(2) by (auto simp: cache_get_def split: option.splits if_splits)
  have "reply_ok ((row_response row)\<lparr>r_probability := row_probability row\<rparr>)"
    using assms(1) row by (simp add: cache_ok_def)
  then show ?thesis
    by (simp add: r reply_ok_def)
qed

text \<open>
  Claim C7. Every reply that \<open>query_model\<close> returns keeps the invariant of the data
  model: if its status is success its text is not empty, and if it has a probability the
  probability lies between 0 and 100. This holds for a reply built from a response of the
  service, whose probability the final validation resets to \<open>None\<close> when the extractor
  returned a value out of the bounds, for the replies of the error branches, and for a
  reply read from the cache if the rows of the cache keep the invariant; the cache after
  the query keeps it again, and an empty cache keeps it.
\<close>

theorem query_model_reply_invariant:
  assumes "cache_ok self"
  shows "reply_ok (fst (query_model self api clock m prompt temp max_tokens
                          enable_web_search force_refresh))
         \<and> cache_ok (snd (query_model self api clock m prompt temp max_tokens
                              enable_web_search force_refresh))"
proof (cases "if use_cache self \<and> \<not> force_refresh
              then cache_get self (start_time clock) m prompt else None")
  case (Some cached_response)
  then have "cache_get self (start_time clock) m prompt = Some cached_response"
    by (simp split: if_splits)
  then have "reply_ok cached_response"
    by (rule cache_get_ok [OF assms])
  then have "reply_ok (cached_response\<lparr>r_response_source := Some ''cache''\<rparr>)"
    by (simp add: reply_ok_def)
  then show ?thesis
    using Some assms by (simp add: query_model_def)
next
  case None
  define request where "request = \<lparr>req_model = m, req_prompt = prompt,
      req_temperature = temp, req_max_tokens = adjust_max_tokens m max_tokens,
      req_web_search = enable_web_search\<rparr>"
  show ?thesis
  proof (cases "api request")
    case TimeoutError
    then show ?thesis
      using None assms
      by (simp add: query_model_def request_def [symmetric] reply_ok_def bare_reply_def)
  next
    case (OtherException error_str)
    then show ?thesis
      using None assms
      by (simp add: query_model_def request_def [symmetric] reply_ok_def bare_reply_def
                    classify_exception_def)
  next
    case (Response response)
    define content' where "content' = (case choices response of
                                  [] \<Rightarrow> Some []
                                | choice # others \<Rightarrow> message_content choice)"
    show ?thesis
    proof (cases content')
      case None2: None
      then show ?thesis
        using None Response assms
        by (simp add: query_model_def request_def [symmetric] content'_def [symmetric]
                      reply_ok_def bare_reply_def Let_def)
    next
      case (Some c)
      show ?thesis
      proof (cases "c = [] \<or> length c < 10")
        case True
        then show ?thesis
          using None Response Some assms
          by (simp add: query_model_def request_def [symmetric] content'_def [symmetric]
                        reply_ok_def bare_reply_def Let_def)
      next
        case False
        define result where "result = (bare_reply m (start_time_iso clock))
                                \<lparr>r_response_time := Some (elapsed clock), r_content := Some c,
                                 r_probability := validated (extract_probability c m),
                                 r_log_probabilities := (case choices response of
                                             [] \<Rightarrow> None
                                           | choice # others \<Rightarrow> logprobs choice),
                                 r_usage := Some (usage_of response),
                                 r_status := (if list_ex (\<lambda>pattern. is_substring pattern (lower c))
                                    rejection_patterns then Rejected else Success),
                                 r_response_source := Some ''api''\<rparr>"
        have ok: "reply_ok result"
          using False validated_bounds [of "extract_probability c m"]
          by (simp add: result_def reply_ok_def)
        have q: "query_model self api clock m prompt temp max_tokens
                   enable_web_search force_refresh
                 = (result, if use_cache self \<and> r_status result = Success
                            then cache_set self (start_time clock + elapsed clock) m prompt result
                            else self)"
          using None Response Some False
          by (simp add: query_model_def request_def [symmetric] content'_def [symmetric]
                        Let_def result_def)
        show ?thesis
          using ok assms cache_set_ok [OF assms ok] by (simp add: q)
      qed
    qed
  qed
qed

lemma example_text_extracted:
  "extract_probability ''My answer is 150%'' ''openai/gpt-4o'' = Some 150"
  by code_simp

lemma example_client_ok: "cache_ok example_client"
  by (simp add: cache_ok_def example_client_def)

text \<open>
  The theorem above at a response whose text reads as 150 percent: the extractor returns
  150, and the reply is a success without a probability.
\<close>

theorem query_model_reply_invariant_witness:
  "cache_ok example_client
   \<and> extract_probability ''My answer is 150%'' ''openai/gpt-4o'' = Some 150
   \<and> r_status (fst (query_model example_client example_api example_clock ''openai/gpt-4o''
                      ''Prompt'' 0.7 4000 True False)) = Success
   \<and> r_probability (fst (query_model example_client example_api example_clock ''openai/gpt-4o''
                      ''Prompt'' 0.7 4000 True False)) = None
   \<and> reply_ok (fst (query_model example_client example_api example_clock ''openai/gpt-4o''
                      ''Prompt'' 0.7 4000 True False))
   \<and> cache_ok (snd (query_model example_client example_api example_clock ''openai/gpt-4o''
                      ''Prompt'' 0.7 4000 True False))"
proof -
  have s: "list_ex (\<lambda>pattern. is_substring pattern (lower ''My answer is 150%''))
             rejection_patterns = False"
    by code_simp
  have q: "fst (query_model example_client example_api example_clock ''openai/gpt-4o''
                  ''Prompt'' 0.7 4000 True False)
           = (bare_reply ''openai/gpt-4o'' ''2026-01-01T00:00:00'')
               \<lparr>r_response_time := Some 2, r_content := Some ''My answer is 150%'',
                r_probability := None, r_log_probabilities := None,
                r_usage := Some \<lparr>prompt_tokens = 0, completion_tokens = 0, total_tokens = 0\<rparr>,
                r_status := Success, r_response_source := Some ''api''\<rparr>"
    by (simp add: query_model_def example_client_def example_api_def example_clock_def
                  cache_get_def example_text_extracted validated_def usage_of_def s Let_def)
  show ?thesis
    using query_model_reply_invariant [OF example_client_ok, of example_api example_clock
            "''openai/gpt-4o''" "''Prompt''" "0.7" 4000 True False]
    by (simp add: example_client_ok example_text_extracted q)
qed

end
